theory Spec2Isabelle
  imports Complex_Main "HOL-Library.AList" "HOL-Library.Char_ord" "HOL-Library.List_Lexorder"
    "HOL-Library.Word" "HOL-Library.Log_Nat"
begin

section \<open>The data module of the DC bicycle dashboard\<close>

text \<open>
  This theory embeds the data module of \<^verbatim>\<open>src/js/main.js\<close> (the part that starts
  with \<^verbatim>\<open>const dataState\<close>): the loaders, the lookup builders, the join of the road
  segments with predictions, counters and census areas, the statistics, the filters and
  the temporal lookup.

  Conventions of the embedding.
  \<^item> A JavaScript number is a rational (\<open>num\<close>); the finite doubles are among the
    rationals. \<^verbatim>\<open>NaN\<close> only arises from \<^verbatim>\<open>parseFloat\<close>, where it is \<open>None\<close>. In
    \<^verbatim>\<open>calculateStatistics\<close>, which rounds its quotients to integers, the
    operations \<^verbatim>\<open>+\<close>, \<^verbatim>\<open>-\<close>, \<^verbatim>\<open>*\<close> and \<^verbatim>\<open>/\<close> are a parameter of the model
    (\<open>arith\<close>): what is proved of the statistics holds whatever the operations round
    to, and the examples are evaluated in \<open>double\<close>, the arithmetic of IEEE doubles.
    In the join and in the counter update the operations are written as the exact
    ones.
  \<^item> The objects of the GeoJSON and CSV sources are records with one field for each
    property the module reads or writes. A field is an \<open>option\<close>: \<open>None\<close> stands for a
    property that is missing or \<^verbatim>\<open>undefined\<close>, and for \<^verbatim>\<open>null\<close> where the module only
    tests truthiness (everywhere but in the test for an invalid temporal row, where
    \<open>None\<close> is \<^verbatim>\<open>undefined\<close> only). Numeric properties hold numbers and textual
    properties hold strings; the filter object holds strings.
  \<^item> A lookup object is a map from its own keys to entries. What a key that the
    object does not have inherits from \<^verbatim>\<open>Object.prototype\<close> is modelled in
    \<open>getTemporalPredictionsForSegment\<close>, which returns what it reads; the lookups of
    the join are read as maps.
  \<^item> In a GeoJSON file the \<^verbatim>\<open>properties\<close> of a feature may be \<^verbatim>\<open>null\<close>. A road
    feature or a counter feature as parsed has optional properties; in the store it
    has properties, since the module throws on the first road feature without them
    and replaces a counter collection with such a feature by the built-in one.
  \<^item> A field name that occurs in several kinds of object carries a suffix: \<open>_c\<close> on
    a counter point, \<open>_r\<close> on a prediction row, \<open>_s\<close> on a census area, \<open>_e\<close> in a
    lookup entry.
\<close>

subsection \<open>Truthiness and the operators the module uses\<close>

type_synonym num = rat

definition truthy_num :: "num option \<Rightarrow> bool" where
  "truthy_num v = (case v of None \<Rightarrow> False | Some x \<Rightarrow> x \<noteq> 0)"

definition truthy_str :: "string option \<Rightarrow> bool" where
  "truthy_str v = (case v of None \<Rightarrow> False | Some s \<Rightarrow> s \<noteq> [])"

text \<open>\<^verbatim>\<open>a || b\<close>: the left operand when it is truthy, the right one otherwise.\<close>

definition or_num :: "num option \<Rightarrow> num option \<Rightarrow> num option" where
  "or_num a b = (if truthy_num a then a else b)"

definition or_str :: "string option \<Rightarrow> string option \<Rightarrow> string option" where
  "or_str a b = (if truthy_str a then a else b)"

text \<open>\<^verbatim>\<open>parseFloat\<close> of a number is the number; of a missing value it is \<^verbatim>\<open>NaN\<close>
  (\<open>None\<close>), which is falsy.\<close>

definition parseFloat :: "num option \<Rightarrow> num option" where
  "parseFloat v = v"

text \<open>\<^verbatim>\<open>Math.round\<close> rounds to the nearest integer, a half upwards.\<close>

definition Math_round :: "num \<Rightarrow> num" where
  "Math_round x = of_int \<lfloor>x + 1 / 2\<rfloor>"

definition Math_floor :: "num \<Rightarrow> num" where
  "Math_floor x = of_int \<lfloor>x\<rfloor>"

text \<open>\<^verbatim>\<open>xs[i]\<close> on an array: \<^verbatim>\<open>undefined\<close> out of range.\<close>

definition js_index :: "'a list \<Rightarrow> nat \<Rightarrow> 'a option" where
  "js_index xs i = (if i < length xs then Some (xs ! i) else None)"

subsection \<open>The arithmetic of numbers\<close>

text \<open>The operations \<^verbatim>\<open>+\<close>, \<^verbatim>\<open>-\<close>, \<^verbatim>\<open>*\<close> and \<^verbatim>\<open>/\<close> of \<^verbatim>\<open>calculateStatistics\<close>,
  as a parameter.\<close>

record arith =
  js_add :: "num \<Rightarrow> num \<Rightarrow> num"
  js_sub :: "num \<Rightarrow> num \<Rightarrow> num"
  js_mul :: "num \<Rightarrow> num \<Rightarrow> num"
  js_div :: "num \<Rightarrow> num \<Rightarrow> num"

text \<open>\<^verbatim>\<open>total += x\<close> over a list of values, from the left, starting from 0.\<close>

definition js_sum :: "arith \<Rightarrow> num list \<Rightarrow> num" where
  "js_sum ar xs = foldl (js_add ar) 0 xs"

text \<open>
  The arithmetic of IEEE doubles: an operation gives its exact result rounded to the
  nearest double, a tie to the double whose significand is even. A double other than
  0 is \<open>m * 2 ^ (e - 52)\<close> with an integer \<open>m\<close>, where \<open>2 ^ 52 \<le> \<bar>m\<bar> < 2 ^ 53\<close> and
  \<open>- 1022 \<le> e\<close>, or a multiple of \<open>2 ^ (- 1074)\<close> below \<open>2 ^ (- 1022)\<close>. For \<open>x > 0\<close>,
  \<open>binade x\<close> is the \<open>e\<close> with \<open>2 ^ e \<le> x < 2 ^ (e + 1)\<close>; \<open>floorlog 2 n\<close> is the number
  of binary digits of \<open>n\<close>. A result from \<open>2 ^ 1024\<close> on, which is \<^verbatim>\<open>Infinity\<close> in
  JavaScript, is not a value of \<open>num\<close>, nor is the quotient by 0;
  \<^verbatim>\<open>calculateStatistics\<close> divides only by numbers it has tested to be other than 0.
\<close>

definition round_even :: "rat \<Rightarrow> int" where
  "round_even x =
     (let f = \<lfloor>x\<rfloor>; d = x - of_int f
      in if d < 1 / 2 then f else if 1 / 2 < d then f + 1 else if even f then f else f + 1)"

definition pow2 :: "int \<Rightarrow> rat" where
  "pow2 e = (if 0 \<le> e then 2 ^ nat e else 1 / 2 ^ nat (- e))"

definition binade :: "rat \<Rightarrow> int" where
  "binade x =
     (if 1 \<le> x then int (floorlog 2 (nat \<lfloor>x\<rfloor>)) - 1
      else - int (floorlog 2 (nat (- \<lfloor>- (1 / x)\<rfloor> - 1))))"

definition double_round :: "rat \<Rightarrow> num" where
  "double_round x =
     (if x = 0 then 0
      else (let e = max (binade \<bar>x\<bar>) (- 1022); u = pow2 (e - 52)
            in of_int (round_even (x / u)) * u))"

definition double :: arith where
  "double =
     \<lparr> js_add = (\<lambda>x y. double_round (x + y)),
       js_sub = (\<lambda>x y. double_round (x - y)),
       js_mul = (\<lambda>x y. double_round (x * y)),
       js_div = (\<lambda>x y. double_round (x / y)) \<rparr>"

subsection \<open>Features and rows\<close>

text \<open>A feature has properties and, when the source gives one, a geometry. The
  geometry of a road segment or a counter point is given by its \<^verbatim>\<open>type\<close> with its
  \<^verbatim>\<open>coordinates\<close>; a position is the array \<^verbatim>\<open>[lng, lat, ...]\<close>. \<open>NoCoordinates\<close> is
  a geometry object without \<^verbatim>\<open>coordinates\<close>. Of the geometry of an area (a
  neighbourhood or a census polygon) only the rings are kept.\<close>

datatype geometry =
    NoCoordinates
  | LineString "num list list"
  | MultiLineString "num list list list"
  | Point "num list"

datatype area_geometry =
    NoRings
  | Polygon "num list list list"

record ('p, 'g) feature =
  properties :: 'p
  geometry :: "'g option"

text \<open>A GeoJSON collection as parsed: its \<^verbatim>\<open>features\<close> array, if it has one.\<close>

record 'f geojson =
  features :: "'f list option"

record road_props =
  SUBBLOCKKEY :: "string option"
  SUBBLOK :: "string option"
  NEIGHBORHOOD :: "string option"
  BIKE_FT :: "string option"
  bike_facility_type :: "string option"
  SEG_LEN :: "num option"
  segment_length :: "num option"
  predicted :: "num option"
  predicted_alt :: "num option"
  OBSERVED_COUNT :: "num option"
  COUNTER_TYPE :: "string option"
  GEOID :: "string option"
  POPULATION :: "num option"
  MEDIAN_INCOME :: "num option"
  COMMUTE_TIME :: "num option"
  BIKE_COMMUTE :: "num option"
  EDUCATION :: "num option"
  WHITE_PERCENTAGE :: "num option"
  RENT_PRICE :: "num option"
  MEDIAN_AGE :: "num option"
  populationE :: "num option"
  median_incomeE :: "num option"
  commute_bicycleE :: "num option"
  edu_bachelors_plusE :: "num option"
  rent_percentE :: "num option"
  median_ageE :: "num option"
  degree_max :: "num option"
  betweenness_max :: "num option"
  closeness_max :: "num option"
  DEGREE :: "num option"
  BETWEEN :: "num option"
  CLOSENESS :: "num option"
  residual :: "num option"
  percent_error :: "num option"
  traffic_level :: "string option"
  lat :: "num option"
  lng :: "num option"

record counter_props =
  SUBBLOCKKEY_c :: "string option"
  Site_Nm :: "string option"
  COUNT :: "num option"
  OBSERVED_COUNT_c :: "num option"
  COUNTER_TYPE_c :: "string option"
  cntr_ty :: "string option"
  NEIGHBORHOOD_c :: "string option"

record census_props =
  SUBBLOC :: "string option"
  GEOID_s :: "string option"
  popltnE :: "num option"
  mdn_ncE :: "num option"
  cmmt__E :: "num option"
  cmmt_bE :: "num option"
  ed_bc_E :: "num option"
  pct_white :: "num option"
  rnt_prE :: "num option"
  medn_gE :: "num option"

text \<open>A row of \<^verbatim>\<open>spatial_predictions.csv\<close>; \<open>dot_pred\<close> and \<open>dot_pred_1\<close> are the
  columns \<^verbatim>\<open>.pred\<close> and \<^verbatim>\<open>.pred.1\<close>.\<close>

record prediction_row =
  SUBBLOCKKEY_r :: "string option"
  dot_pred :: "num option"
  dot_pred_1 :: "num option"
  predicted_r :: "num option"
  predicted_alt_r :: "num option"
  observed :: "num option"
  OBSERVED_COUNT_r :: "num option"

record neighborhood_props =
  DC_HPN_NAME :: "string option"
  NAME :: "string option"
  NEIGHBORHOOD_n :: "string option"

type_synonym road_feature = "(road_props, geometry) feature"
type_synonym counter_feature = "(counter_props, geometry) feature"

text \<open>A road feature and a counter feature as parsed from a file: the properties
  are \<open>None\<close> when the file has \<^verbatim>\<open>"properties": null\<close> or no properties.\<close>

type_synonym parsed_road_feature = "(road_props option, geometry) feature"
type_synonym parsed_counter_feature = "(counter_props option, geometry) feature"

text \<open>The census areas and the neighbourhoods are kept as parsed.
  \<^verbatim>\<open>createCensusLookup\<close> reads \<^verbatim>\<open>feature.properties\<close> without a test;
  \<^verbatim>\<open>extractNeighborhoodsList\<close> tests them.\<close>

type_synonym census_feature = "(census_props option, area_geometry) feature"
type_synonym neighborhood_feature = "(neighborhood_props option, area_geometry) feature"

text \<open>The features of a parsed array with their properties, when each of them has
  properties; and the other way round.\<close>

definition with_properties :: "('p option, 'g) feature list \<Rightarrow> ('p, 'g) feature list option" where
  "with_properties fs =
     (if list_ex (\<lambda>f. properties f = None) fs then None
      else Some (map (\<lambda>f. \<lparr> properties = the (properties f), geometry = geometry f \<rparr>) fs))"

definition as_parsed :: "('p, 'g) feature geojson \<Rightarrow> ('p option, 'g) feature geojson" where
  "as_parsed data =
     \<lparr> features =
         map_option (map (\<lambda>f. \<lparr> properties = Some (properties f), geometry = geometry f \<rparr>))
           (features data) \<rparr>"

datatype js_error = TypeError | SyntaxError | NetworkError | Error string

subsection \<open>Lookup builders\<close>

record predicted_entry =
  predicted_e :: "num option"
  predicted_alt_e :: "num option"

record counter_entry =
  OBSERVED_COUNT_e :: "num option"
  COUNTER_TYPE_e :: "string option"

record census_entry =
  GEOID_e :: "string option"
  POPULATION_e :: "num option"
  MEDIAN_INCOME_e :: "num option"
  COMMUTE_TIME_e :: "num option"
  BIKE_COMMUTE_e :: "num option"
  EDUCATION_e :: "num option"
  WHITE_PERCENTAGE_e :: "num option"
  RENT_PRICE_e :: "num option"
  MEDIAN_AGE_e :: "num option"

text \<open>\<^verbatim>\<open>createPredictedLookup\<close>: one entry for each row with a truthy key, a later row
  replacing an earlier one with the same key.\<close>

definition predicted_step ::
  "(string \<rightharpoonup> predicted_entry) \<Rightarrow> prediction_row \<Rightarrow> (string \<rightharpoonup> predicted_entry)" where
  "predicted_step lookup item =
     (if truthy_str (SUBBLOCKKEY_r item)
      then lookup(the (SUBBLOCKKEY_r item) \<mapsto>
             \<lparr> predicted_e =
                 or_num (or_num (parseFloat (dot_pred item)) (parseFloat (predicted_r item)))
                        (Some 0),
               predicted_alt_e =
                 or_num (or_num (parseFloat (dot_pred_1 item)) (parseFloat (predicted_alt_r item)))
                        (Some 0) \<rparr>)
      else lookup)"

definition createPredictedLookup ::
  "prediction_row list option \<Rightarrow> (string \<rightharpoonup> predicted_entry)" where
  "createPredictedLookup predictedData =
     (case predictedData of
        None \<Rightarrow> Map.empty
      | Some rows \<Rightarrow> foldl predicted_step Map.empty rows)"

definition counter_step ::
  "(string \<rightharpoonup> counter_entry) \<Rightarrow> counter_feature \<Rightarrow> (string \<rightharpoonup> counter_entry)" where
  "counter_step lookup feature =
     (let props = properties feature;
          count = or_num (or_num (COUNT props) (OBSERVED_COUNT_c props)) (Some 0);
          entry = \<lparr> OBSERVED_COUNT_e = count,
                    COUNTER_TYPE_e =
                      or_str (or_str (COUNTER_TYPE_c props) (cntr_ty props)) (Some ''UNKNOWN'') \<rparr>
      in if truthy_str (SUBBLOCKKEY_c props) then lookup(the (SUBBLOCKKEY_c props) \<mapsto> entry)
         else if truthy_str (Site_Nm props) then lookup(the (Site_Nm props) \<mapsto> entry)
         else lookup)"

text \<open>\<^verbatim>\<open>createCounterLookup\<close> reads the features of the counter collection; the caller
  passes them as a list (\<open>None\<close> for a missing collection or a missing array).\<close>

definition createCounterLookup ::
  "counter_feature list option \<Rightarrow> (string \<rightharpoonup> counter_entry)" where
  "createCounterLookup counterFeatures =
     (case counterFeatures of
        None \<Rightarrow> Map.empty
      | Some fs \<Rightarrow> foldl counter_step Map.empty fs)"

text \<open>\<^verbatim>\<open>createCensusLookup\<close>: the callback of \<^verbatim>\<open>forEach\<close> reads \<^verbatim>\<open>props.SUBBLOC\<close>,
  which throws a \<^verbatim>\<open>TypeError\<close> when \<^verbatim>\<open>feature.properties\<close> is \<^verbatim>\<open>null\<close>; the loop ends
  there.\<close>

definition census_step ::
  "js_error + (string \<rightharpoonup> census_entry) \<Rightarrow> census_feature
     \<Rightarrow> js_error + (string \<rightharpoonup> census_entry)" where
  "census_step acc feature =
     (case acc of
        Inl err \<Rightarrow> Inl err
      | Inr lookup \<Rightarrow>
          (case properties feature of
             None \<Rightarrow> Inl TypeError
           | Some props \<Rightarrow>
               Inr (if truthy_str (SUBBLOC props)
                    then lookup(the (SUBBLOC props) \<mapsto>
                           \<lparr> GEOID_e = GEOID_s props,
                             POPULATION_e = popltnE props,
                             MEDIAN_INCOME_e = mdn_ncE props,
                             COMMUTE_TIME_e = cmmt__E props,
                             BIKE_COMMUTE_e = cmmt_bE props,
                             EDUCATION_e = ed_bc_E props,
                             WHITE_PERCENTAGE_e = pct_white props,
                             RENT_PRICE_e = rnt_prE props,
                             MEDIAN_AGE_e = medn_gE props \<rparr>)
                    else lookup)))"

definition createCensusLookup ::
  "census_feature geojson option \<Rightarrow> js_error + (string \<rightharpoonup> census_entry)" where
  "createCensusLookup censusData =
     (case censusData of
        None \<Rightarrow> Inr Map.empty
      | Some c \<Rightarrow> (case features c of
                     None \<Rightarrow> Inr Map.empty
                   | Some fs \<Rightarrow> foldl census_step (Inr Map.empty) fs))"

subsection \<open>The join: \<^verbatim>\<open>processRoadNetworkData\<close>\<close>

text \<open>The steps of the callback of \<^verbatim>\<open>roadData.features.forEach\<close>, in the order of
  the source. Each takes the properties and returns them updated.\<close>

definition attach_predicted :: "(string \<rightharpoonup> predicted_entry) \<Rightarrow> string \<Rightarrow> road_props \<Rightarrow> road_props" where
  "attach_predicted predictedLookup subblockKey props =
     (case predictedLookup subblockKey of
        None \<Rightarrow> props
      | Some e \<Rightarrow> props\<lparr> predicted := predicted_e e, predicted_alt := predicted_alt_e e \<rparr>)"

definition attach_counter :: "(string \<rightharpoonup> counter_entry) \<Rightarrow> string \<Rightarrow> road_props \<Rightarrow> road_props" where
  "attach_counter counterLookup subblockKey props =
     (case counterLookup subblockKey of
        None \<Rightarrow> props
      | Some e \<Rightarrow> props\<lparr> OBSERVED_COUNT := OBSERVED_COUNT_e e, COUNTER_TYPE := COUNTER_TYPE_e e \<rparr>)"

text \<open>\<^verbatim>\<open>Object.assign(props, censusLookup[subblockKey])\<close> copies every property of the
  entry, also one whose value is \<^verbatim>\<open>undefined\<close>.\<close>

definition attach_census :: "(string \<rightharpoonup> census_entry) \<Rightarrow> string \<Rightarrow> road_props \<Rightarrow> road_props" where
  "attach_census censusLookup subblockKey props =
     (case censusLookup subblockKey of
        None \<Rightarrow> props
      | Some e \<Rightarrow> props\<lparr> GEOID := GEOID_e e,
                         POPULATION := POPULATION_e e,
                         MEDIAN_INCOME := MEDIAN_INCOME_e e,
                         COMMUTE_TIME := COMMUTE_TIME_e e,
                         BIKE_COMMUTE := BIKE_COMMUTE_e e,
                         EDUCATION := EDUCATION_e e,
                         WHITE_PERCENTAGE := WHITE_PERCENTAGE_e e,
                         RENT_PRICE := RENT_PRICE_e e,
                         MEDIAN_AGE := MEDIAN_AGE_e e \<rparr>)"

text \<open>The centrality fields: \<^verbatim>\<open>props.DEGREE = props.degree_max || 0\<close> and then
  \<^verbatim>\<open>props.DEGREE = Number(props.DEGREE || 0)\<close>; \<^verbatim>\<open>Number\<close> of a number is the
  number.\<close>

definition set_centrality :: "road_props \<Rightarrow> road_props" where
  "set_centrality props =
     (let p1 = props\<lparr> DEGREE := or_num (degree_max props) (Some 0) \<rparr>;
          p2 = p1\<lparr> BETWEEN := or_num (betweenness_max p1) (Some 0) \<rparr>;
          p3 = p2\<lparr> CLOSENESS := or_num (closeness_max p2) (Some 0) \<rparr>;
          p4 = p3\<lparr> DEGREE := or_num (DEGREE p3) (Some 0) \<rparr>;
          p5 = p4\<lparr> BETWEEN := or_num (BETWEEN p4) (Some 0) \<rparr>
      in p5\<lparr> CLOSENESS := or_num (CLOSENESS p5) (Some 0) \<rparr>)"

definition set_census_aliases :: "road_props \<Rightarrow> road_props" where
  "set_census_aliases props =
     (let p1 = props\<lparr> POPULATION := or_num (or_num (populationE props) (POPULATION props)) (Some 0) \<rparr>;
          p2 = p1\<lparr> MEDIAN_INCOME := or_num (or_num (median_incomeE p1) (MEDIAN_INCOME p1)) (Some 0) \<rparr>;
          p3 = p2\<lparr> BIKE_COMMUTE := or_num (or_num (commute_bicycleE p2) (BIKE_COMMUTE p2)) (Some 0) \<rparr>;
          p4 = p3\<lparr> EDUCATION := or_num (or_num (edu_bachelors_plusE p3) (EDUCATION p3)) (Some 0) \<rparr>;
          p5 = p4\<lparr> RENT_PRICE := or_num (or_num (rent_percentE p4) (RENT_PRICE p4)) (Some 0) \<rparr>
      in p5\<lparr> MEDIAN_AGE := or_num (or_num (median_ageE p5) (MEDIAN_AGE p5)) (Some 0) \<rparr>)"

text \<open>Lines 3104 to 3107: the residual and the percent error, under one guard.\<close>

definition set_residual :: "road_props \<Rightarrow> road_props" where
  "set_residual props =
     (if truthy_num (OBSERVED_COUNT props) \<and> truthy_num (predicted props)
      then let p1 = props\<lparr> residual := Some (the (OBSERVED_COUNT props) - the (predicted props)) \<rparr>
           in p1\<lparr> percent_error := Some (the (residual p1) / the (OBSERVED_COUNT p1) * 100) \<rparr>
      else props)"

text \<open>Lines 3110 to 3118: the traffic level.\<close>

definition set_traffic_level :: "road_props \<Rightarrow> road_props" where
  "set_traffic_level props =
     (if truthy_num (predicted props)
      then (if the (predicted props) \<ge> 80 then props\<lparr> traffic_level := Some ''high'' \<rparr>
            else if the (predicted props) \<ge> 40 then props\<lparr> traffic_level := Some ''medium'' \<rparr>
            else props\<lparr> traffic_level := Some ''low'' \<rparr>)
      else props)"

text \<open>The representative point. \<open>None\<close> is the case where nothing is written: the
  geometry has no coordinates, or the middle position is \<^verbatim>\<open>undefined\<close>, or reading
  \<^verbatim>\<open>coords[midLine].length\<close> throws (caught by the \<^verbatim>\<open>try\<close>), or, in the last
  branch, \<^verbatim>\<open>coords[0]\<close> is the number 0. In the last branch \<^verbatim>\<open>coords[0]\<close> is a
  number, whose properties \<^verbatim>\<open>[1]\<close> and \<^verbatim>\<open>[0]\<close> are \<^verbatim>\<open>undefined\<close>.\<close>

definition midPoint :: "geometry \<Rightarrow> (num option \<times> num option) option" where
  "midPoint g =
     (case g of
        NoCoordinates \<Rightarrow> None
      | LineString coords \<Rightarrow>
          (case js_index coords (length coords div 2) of
             None \<Rightarrow> None
           | Some mp \<Rightarrow> Some (js_index mp 1, js_index mp 0))
      | MultiLineString coords \<Rightarrow>
          (case js_index coords (length coords div 2) of
             None \<Rightarrow> None
           | Some line \<Rightarrow>
               (case js_index line (length line div 2) of
                  None \<Rightarrow> None
                | Some mp \<Rightarrow> Some (js_index mp 1, js_index mp 0)))
      | Point coords \<Rightarrow>
          (if truthy_num (js_index coords 0) then Some (None, None) else None))"

definition set_midpoint :: "geometry option \<Rightarrow> road_props \<Rightarrow> road_props" where
  "set_midpoint geom props =
     (case geom of
        None \<Rightarrow> props
      | Some g \<Rightarrow> (case midPoint g of
                    None \<Rightarrow> props
                  | Some (la, lo) \<Rightarrow> props\<lparr> lat := la, lng := lo \<rparr>))"

text \<open>The whole callback. A feature without a truthy key is left as it is.\<close>

definition processRoadFeature ::
  "(string \<rightharpoonup> predicted_entry) \<Rightarrow> (string \<rightharpoonup> counter_entry) \<Rightarrow> (string \<rightharpoonup> census_entry)
     \<Rightarrow> road_feature \<Rightarrow> road_feature" where
  "processRoadFeature predictedLookup counterLookup censusLookup feature =
     (let props = properties feature;
          subblockKey = or_str (SUBBLOCKKEY props) (SUBBLOK props)
      in if truthy_str subblockKey
         then feature\<lparr> properties :=
                set_midpoint (geometry feature)
                  (set_traffic_level
                    (set_residual
                      (set_census_aliases
                        (set_centrality
                          (attach_census censusLookup (the subblockKey)
                            (attach_counter counterLookup (the subblockKey)
                              (attach_predicted predictedLookup (the subblockKey) props))))))) \<rparr>
         else feature)"

subsection \<open>The store\<close>

text \<open>
  The road collection and the counter collection are objects that the module changes
  in place and that the filters copy, so they live in a heap: a collection object
  holds the array of the addresses of its features (\<open>None\<close> when it has no
  \<^verbatim>\<open>features\<close> property), a feature object holds the feature. Properties and
  geometry are kept inside the feature, by value: the module never shares them
  between two features. Addresses below \<open>next_addr\<close> are allocated. Road features
  and counter features live in two heaps, since an object of one kind is never used
  as one of the other kind. The other sources are never changed after loading and
  are kept by value.
\<close>

type_synonym addr = nat

record 'f heap =
  feature_at :: "addr \<Rightarrow> 'f"
  collection_at :: "addr \<Rightarrow> addr list option"
  next_addr :: addr

definition alloc_feature :: "'f \<Rightarrow> 'f heap \<Rightarrow> addr \<times> 'f heap" where
  "alloc_feature f h =
     (next_addr h, h\<lparr> feature_at := (feature_at h)(next_addr h := f),
                      next_addr := Suc (next_addr h) \<rparr>)"

fun alloc_features :: "'f list \<Rightarrow> 'f heap \<Rightarrow> addr list \<times> 'f heap" where
  "alloc_features [] h = ([], h)"
| "alloc_features (f # fs) h =
     (let (a, h1) = alloc_feature f h;
          (as, h2) = alloc_features fs h1
      in (a # as, h2))"

text \<open>The objects of a parsed collection: its features, then the collection.\<close>

definition alloc_collection :: "'f geojson \<Rightarrow> 'f heap \<Rightarrow> addr \<times> 'f heap" where
  "alloc_collection data h =
     (case features data of
        None \<Rightarrow> (next_addr h, h\<lparr> collection_at := (collection_at h)(next_addr h := None),
                                  next_addr := Suc (next_addr h) \<rparr>)
      | Some fs \<Rightarrow>
          (let (as, h1) = alloc_features fs h
           in (next_addr h1, h1\<lparr> collection_at := (collection_at h1)(next_addr h1 := Some as),
                                  next_addr := Suc (next_addr h1) \<rparr>)))"

text \<open>The features of a collection, read through its addresses.\<close>

definition features_of :: "'f heap \<Rightarrow> addr \<Rightarrow> 'f list option" where
  "features_of h r = map_option (map (feature_at h)) (collection_at h r)"

text \<open>\<^verbatim>\<open>JSON.parse(JSON.stringify(data))\<close>: new objects with the contents of the old
  ones. On the records of this model the text form loses nothing: a missing property
  stays missing, a number and a string are written and read back unchanged.\<close>

definition json_copy :: "addr \<Rightarrow> 'f heap \<Rightarrow> addr \<times> 'f heap" where
  "json_copy r h = alloc_collection \<lparr> features = features_of h r \<rparr> h"

record statistics =
  totalObserved :: num
  totalEstimated :: num
  averagePredicted :: num
  observedSegments :: "nat option"
  bikeLaneCoverage :: num
  mostActiveArea :: string
  busyHours :: "num list"
  modelAccuracy :: num
  averageIncome :: num
  averagePopulation :: num
  averageBikeCommute :: num
  averageEducation :: num

text \<open>The temporal prediction table: for a key, for a day, the array of hourly values.
  An element of the array is \<open>None\<close> where the array has a hole.\<close>

type_synonym day_table = "num \<rightharpoonup> num option list"

record dataState =
  isInitialized :: bool
  roadNetworkData :: "addr option"
  counterPointsData :: "addr option"
  neighborhoodBoundaries :: "neighborhood_feature geojson option"
  predictionsData :: "prediction_row list option"
  censusData :: "census_feature geojson option"
  temporalPredictions :: "string \<rightharpoonup> day_table"
  statistics :: statistics
  neighborhoodsList :: "string list"

text \<open>The state of the page as far as the data module is concerned: \<^verbatim>\<open>dataState\<close>,
  the two heaps and the number of calls of \<^verbatim>\<open>Math.random\<close> made so far. The fields
  \<^verbatim>\<open>featureImportance\<close> (always \<^verbatim>\<open>null\<close>) and \<^verbatim>\<open>dataVersion\<close> (a constant) are
  left out.\<close>

record world =
  dataState :: dataState
  road_heap :: "road_feature heap"
  counter_heap :: "counter_feature heap"
  draws :: nat

definition initial_statistics :: statistics where
  "initial_statistics =
     \<lparr> totalObserved = 0, totalEstimated = 0, averagePredicted = 0, observedSegments = None,
       bikeLaneCoverage = 0, mostActiveArea = [], busyHours = [], modelAccuracy = 0,
       averageIncome = 0, averagePopulation = 0, averageBikeCommute = 0, averageEducation = 0 \<rparr>"

definition initial_dataState :: dataState where
  "initial_dataState =
     \<lparr> isInitialized = False, roadNetworkData = None, counterPointsData = None,
       neighborhoodBoundaries = None, predictionsData = None, censusData = None,
       temporalPredictions = Map.empty, statistics = initial_statistics,
       neighborhoodsList = [] \<rparr>"

subsection \<open>\<^verbatim>\<open>processRoadNetworkData\<close> and \<^verbatim>\<open>updateCounterPointsWithObservedData\<close>\<close>

text \<open>\<^verbatim>\<open>features.forEach\<close> with a callback that changes the feature in place.\<close>

definition update_feature :: "('f \<Rightarrow> 'f) \<Rightarrow> 'f heap \<Rightarrow> addr \<Rightarrow> 'f heap" where
  "update_feature g h a = h\<lparr> feature_at := (feature_at h)(a := g (feature_at h a)) \<rparr>"

text \<open>The lookups are built in the order of the source; \<^verbatim>\<open>createCensusLookup\<close> may
  throw, and then no feature is changed.\<close>

definition processRoadNetworkData ::
  "addr option \<Rightarrow> addr option \<Rightarrow> prediction_row list option \<Rightarrow> census_feature geojson option
     \<Rightarrow> world \<Rightarrow> js_error + world" where
  "processRoadNetworkData roadData counterData predictedData censusData' w =
     (case roadData of
        None \<Rightarrow> Inr w
      | Some r \<Rightarrow>
          (case collection_at (road_heap w) r of
             None \<Rightarrow> Inr w
           | Some as \<Rightarrow>
               (let predictedLookup = createPredictedLookup predictedData;
                    counterLookup =
                      createCounterLookup
                        (case counterData of None \<Rightarrow> None
                         | Some c \<Rightarrow> features_of (counter_heap w) c)
                in case createCensusLookup censusData' of
                     Inl err \<Rightarrow> Inl err
                   | Inr censusLookup \<Rightarrow>
                       Inr (w\<lparr> road_heap :=
                              foldl (update_feature
                                       (processRoadFeature predictedLookup counterLookup
                                          censusLookup))
                                (road_heap w) as \<rparr>))))"

definition observed_step :: "(string \<rightharpoonup> num) \<Rightarrow> prediction_row \<Rightarrow> (string \<rightharpoonup> num)" where
  "observed_step observedCountMap item =
     (let v = or_num (or_num (observed item) (OBSERVED_COUNT_r item)) (dot_pred item)
      in if truthy_str (SUBBLOCKKEY_r item) \<and> truthy_num v
         then observedCountMap(the (SUBBLOCKKEY_r item) \<mapsto> the (or_num (parseFloat v) (Some 0)))
         else observedCountMap)"

text \<open>The callback of the second loop: the properties of a counter and the number of
  random draws so far. \<open>random\<close> is the sequence of the values \<^verbatim>\<open>Math.random()\<close>
  returns; it is called only when \<^verbatim>\<open>props.COUNT\<close> is falsy.\<close>

definition update_counter ::
  "(nat \<Rightarrow> num) \<Rightarrow> (string \<rightharpoonup> num) \<Rightarrow> counter_props \<times> nat \<Rightarrow> counter_props \<times> nat" where
  "update_counter random observedCountMap pn =
     (let props = fst pn; n = snd pn;
          key = or_str (SUBBLOCKKEY_c props) (Site_Nm props)
      in if truthy_str key \<and> truthy_num (observedCountMap (the key))
         then (props\<lparr> COUNT := observedCountMap (the key),
                      OBSERVED_COUNT_c := observedCountMap (the key) \<rparr>, n)
         else (let filler = (\<not> truthy_num (COUNT props));
                   p1 = props\<lparr> COUNT := (if filler then Some (Math_floor (random n * 80) + 20)
                                           else COUNT props) \<rparr>
               in (p1\<lparr> OBSERVED_COUNT_c := COUNT p1 \<rparr>, if filler then Suc n else n)))"

definition counter_loop_step ::
  "(nat \<Rightarrow> num) \<Rightarrow> (string \<rightharpoonup> num) \<Rightarrow> counter_feature heap \<times> nat \<Rightarrow> addr
     \<Rightarrow> counter_feature heap \<times> nat" where
  "counter_loop_step random observedCountMap hn a =
     (let h = fst hn;
          feature = feature_at h a;
          pn = update_counter random observedCountMap (properties feature, snd hn)
      in (h\<lparr> feature_at := (feature_at h)(a := feature\<lparr> properties := fst pn \<rparr>) \<rparr>, snd pn))"

text \<open>\<^verbatim>\<open>dataState.predictionsData.forEach\<close> throws a \<^verbatim>\<open>TypeError\<close> when there are
  no predictions.\<close>

definition updateCounterPointsWithObservedData :: "(nat \<Rightarrow> num) \<Rightarrow> world \<Rightarrow> js_error + world" where
  "updateCounterPointsWithObservedData random w =
     (case predictionsData (dataState w) of
        None \<Rightarrow> Inl TypeError
      | Some rows \<Rightarrow>
          (let observedCountMap = foldl observed_step Map.empty rows
           in case counterPointsData (dataState w) of
                None \<Rightarrow> Inr w
              | Some c \<Rightarrow>
                  (case collection_at (counter_heap w) c of
                     None \<Rightarrow> Inr w
                   | Some as \<Rightarrow>
                       (let hn = foldl (counter_loop_step random observedCountMap)
                                   (counter_heap w, draws w) as
                        in Inr (w\<lparr> counter_heap := fst hn, draws := snd hn \<rparr>)))))"

definition processData :: "(nat \<Rightarrow> num) \<Rightarrow> world \<Rightarrow> js_error + world" where
  "processData random w =
     (case (if counterPointsData (dataState w) \<noteq> None \<and> predictionsData (dataState w) \<noteq> None
            then updateCounterPointsWithObservedData random w else Inr w) of
        Inl e \<Rightarrow> Inl e
      | Inr w1 \<Rightarrow>
          (if roadNetworkData (dataState w1) \<noteq> None \<and> counterPointsData (dataState w1) \<noteq> None \<and>
              predictionsData (dataState w1) \<noteq> None \<and> censusData (dataState w1) \<noteq> None
           then processRoadNetworkData (roadNetworkData (dataState w1))
                  (counterPointsData (dataState w1)) (predictionsData (dataState w1))
                  (censusData (dataState w1)) w1
           else Inr w1))"

subsection \<open>\<^verbatim>\<open>extractNeighborhoodsList\<close> and \<^verbatim>\<open>calculateStatistics\<close>\<close>

text \<open>The names, once each, sorted: \<^verbatim>\<open>Array.from(neighborhoods).sort()\<close> orders
  strings by their code units.\<close>

definition neighborhood_name :: "neighborhood_props \<Rightarrow> string" where
  "neighborhood_name props =
     the (or_str (or_str (or_str (DC_HPN_NAME props) (NAME props)) (NEIGHBORHOOD_n props))
            (Some ''Unknown''))"

definition extractNeighborhoodsList :: "neighborhood_feature geojson option \<Rightarrow> string list" where
  "extractNeighborhoodsList neighborhoodData =
     (case neighborhoodData of
        None \<Rightarrow> []
      | Some d \<Rightarrow>
          (case features d of
             None \<Rightarrow> []
           | Some fs \<Rightarrow>
               sort (remdups (concat (map (\<lambda>feature. case properties feature of
                                              None \<Rightarrow> []
                                            | Some props \<Rightarrow> [neighborhood_name props]) fs)))))"

text \<open>The accumulators of the first loop of \<^verbatim>\<open>calculateStatistics\<close>.
  \<open>neighborhoodCounts\<close> keeps its keys in the order they were first written, the
  order in which \<^verbatim>\<open>Object.entries\<close> lists them (names that are array indices, such
  as \<^verbatim>\<open>"12"\<close>, which JavaScript lists first, are not modelled).\<close>

record totals =
  observedTotal :: num
  estimatedTotal :: num
  estimatedCount :: nat
  observedSegments_t :: nat
  bikePathLength :: num
  totalRoadLength :: num
  neighborhoodCounts :: "(string \<times> num) list"
  totalIncome :: num
  incomeCount :: nat
  totalPopulation :: num
  populationCount :: nat
  totalBikeCommute :: num
  bikeCommuteCount :: nat
  totalEducation :: num
  educationCount :: nat

definition initial_totals :: totals where
  "initial_totals =
     \<lparr> observedTotal = 0, estimatedTotal = 0, estimatedCount = 0, observedSegments_t = 0,
       bikePathLength = 0, totalRoadLength = 0, neighborhoodCounts = [],
       totalIncome = 0, incomeCount = 0, totalPopulation = 0, populationCount = 0,
       totalBikeCommute = 0, bikeCommuteCount = 0, totalEducation = 0, educationCount = 0 \<rparr>"

definition count_observed :: "arith \<Rightarrow> road_props \<Rightarrow> totals \<Rightarrow> totals" where
  "count_observed ar props t =
     (if truthy_num (OBSERVED_COUNT props)
      then t\<lparr> observedTotal := js_add ar (observedTotal t) (the (OBSERVED_COUNT props)),
              observedSegments_t := Suc (observedSegments_t t) \<rparr>
      else t)"

definition count_predicted :: "arith \<Rightarrow> road_props \<Rightarrow> totals \<Rightarrow> totals" where
  "count_predicted ar props t =
     (if truthy_num (predicted props)
      then t\<lparr> estimatedTotal := js_add ar (estimatedTotal t) (the (predicted props)),
              estimatedCount := Suc (estimatedCount t) \<rparr>
      else t)"

text \<open>Lines 3306 to 3316: the lengths for the bike lane coverage.\<close>

definition count_bike_lane :: "arith \<Rightarrow> road_props \<Rightarrow> totals \<Rightarrow> totals" where
  "count_bike_lane ar props t =
     (if truthy_num (or_num (SEG_LEN props) (segment_length props))
      then (let segLength = the (or_num (or_num (SEG_LEN props) (segment_length props)) (Some 0));
                t1 = t\<lparr> totalRoadLength := js_add ar (totalRoadLength t) segLength \<rparr>;
                bikeFacility = or_str (or_str (BIKE_FT props) (bike_facility_type props)) (Some [])
            in if truthy_str bikeFacility \<and> bikeFacility \<noteq> Some ''None'' \<and> bikeFacility \<noteq> Some ''NA''
               then t1\<lparr> bikePathLength := js_add ar (bikePathLength t1) segLength \<rparr>
               else t1)
      else t)"

definition count_neighborhood :: "arith \<Rightarrow> road_props \<Rightarrow> totals \<Rightarrow> totals" where
  "count_neighborhood ar props t =
     (if truthy_str (NEIGHBORHOOD props)
      then t\<lparr> neighborhoodCounts :=
                AList.update (the (NEIGHBORHOOD props))
                  (js_add ar
                     (the (or_num (map_of (neighborhoodCounts t) (the (NEIGHBORHOOD props)))
                             (Some 0)))
                     (the (or_num (or_num (OBSERVED_COUNT props) (predicted props)) (Some 0))))
                  (neighborhoodCounts t) \<rparr>
      else t)"

text \<open>Lines 3324 to 3343: the census accumulators.\<close>

definition count_census :: "arith \<Rightarrow> road_props \<Rightarrow> totals \<Rightarrow> totals" where
  "count_census ar props t =
     (let t1 = (if truthy_num (or_num (MEDIAN_INCOME props) (median_incomeE props))
                then t\<lparr> totalIncome := js_add ar (totalIncome t)
                           (the (or_num (or_num (MEDIAN_INCOME props) (median_incomeE props))
                                   (Some 0))),
                        incomeCount := Suc (incomeCount t) \<rparr>
                else t);
          t2 = (if truthy_num (or_num (POPULATION props) (populationE props))
                then t1\<lparr> totalPopulation := js_add ar (totalPopulation t1)
                            (the (or_num (or_num (POPULATION props) (populationE props))
                                    (Some 0))),
                         populationCount := Suc (populationCount t1) \<rparr>
                else t1);
          t3 = (if truthy_num (or_num (BIKE_COMMUTE props) (commute_bicycleE props))
                then t2\<lparr> totalBikeCommute := js_add ar (totalBikeCommute t2)
                            (the (or_num (or_num (BIKE_COMMUTE props) (commute_bicycleE props))
                                    (Some 0))),
                         bikeCommuteCount := Suc (bikeCommuteCount t2) \<rparr>
                else t2)
      in if truthy_num (or_num (EDUCATION props) (edu_bachelors_plusE props))
         then t3\<lparr> totalEducation := js_add ar (totalEducation t3)
                     (the (or_num (or_num (EDUCATION props) (edu_bachelors_plusE props))
                             (Some 0))),
                  educationCount := Suc (educationCount t3) \<rparr>
         else t3)"

definition stats_step :: "arith \<Rightarrow> totals \<Rightarrow> road_feature \<Rightarrow> totals" where
  "stats_step ar t feature =
     (let props = properties feature
      in count_census ar props
           (count_neighborhood ar props
             (count_bike_lane ar props
               (count_predicted ar props
                 (count_observed ar props t)))))"

text \<open>The loop over \<^verbatim>\<open>Object.entries(neighborhoodCounts)\<close>: the state is
  \<^verbatim>\<open>(mostActiveArea, highestCount)\<close>.\<close>

definition most_active_step :: "string \<times> num \<Rightarrow> string \<times> num \<Rightarrow> string \<times> num" where
  "most_active_step best entry = (if snd entry > snd best then entry else best)"

text \<open>The second loop: \<^verbatim>\<open>(errorSum, errorCount)\<close>. \<^verbatim>\<open>Math.abs\<close> is exact.\<close>

definition error_step :: "arith \<Rightarrow> num \<times> nat \<Rightarrow> road_feature \<Rightarrow> num \<times> nat" where
  "error_step ar acc feature =
     (let props = properties feature
      in if truthy_num (OBSERVED_COUNT props) \<and> truthy_num (predicted props)
         then (js_add ar (fst acc)
                 (js_div ar \<bar>js_sub ar (the (OBSERVED_COUNT props)) (the (predicted props))\<bar>
                    (the (OBSERVED_COUNT props))),
               Suc (snd acc))
         else acc)"

text \<open>The statistics of a list of road features; an empty list stands for a missing
  collection or a missing \<^verbatim>\<open>features\<close> array, over which the loops do not run. The
  counters of the source (\<^verbatim>\<open>incomeCount\<close> and the like) are natural numbers.\<close>

definition statistics_of :: "arith \<Rightarrow> road_feature list \<Rightarrow> statistics" where
  "statistics_of ar fs =
     (let t = foldl (stats_step ar) initial_totals fs;
          best = foldl most_active_step (''Unknown'', 0) (neighborhoodCounts t);
          err = foldl (error_step ar) (0, 0) fs;
          accuracy = (if snd err > 0
                      then js_mul ar 100 (js_sub ar 1 (js_div ar (fst err) (of_nat (snd err))))
                      else 0)
      in \<lparr> totalObserved = observedTotal t,
           totalEstimated = estimatedTotal t,
           averagePredicted =
             (if estimatedCount t > 0
              then js_div ar (estimatedTotal t) (of_nat (estimatedCount t)) else 0),
           observedSegments = Some (observedSegments_t t),
           bikeLaneCoverage =
             (if totalRoadLength t \<noteq> 0
              then Math_round (js_mul ar (js_div ar (bikePathLength t) (totalRoadLength t)) 100)
              else 0),
           mostActiveArea = fst best,
           busyHours = [8, 9, 17, 18],
           modelAccuracy = Math_round accuracy,
           averageIncome =
             (if incomeCount t > 0
              then Math_round (js_div ar (totalIncome t) (of_nat (incomeCount t))) else 0),
           averagePopulation =
             (if populationCount t > 0
              then Math_round (js_div ar (totalPopulation t) (of_nat (populationCount t)))
              else 0),
           averageBikeCommute =
             (if bikeCommuteCount t > 0
              then Math_round (js_div ar (totalBikeCommute t) (of_nat (bikeCommuteCount t)))
              else 0),
           averageEducation =
             (if educationCount t > 0
              then Math_round (js_div ar (totalEducation t) (of_nat (educationCount t)))
              else 0) \<rparr>)"

definition stored_road_features :: "world \<Rightarrow> road_feature list" where
  "stored_road_features w =
     (case roadNetworkData (dataState w) of
        None \<Rightarrow> []
      | Some r \<Rightarrow> (case features_of (road_heap w) r of None \<Rightarrow> [] | Some fs \<Rightarrow> fs))"

definition calculateStatistics :: "arith \<Rightarrow> world \<Rightarrow> world" where
  "calculateStatistics ar w =
     w\<lparr> dataState := (dataState w)\<lparr> statistics := statistics_of ar (stored_road_features w) \<rparr> \<rparr>"

subsection \<open>The filters\<close>

text \<open>The filter object of the page. \<^verbatim>\<open>volumeFilter\<close> is a string or an array of
  category names.\<close>

datatype volume_filter = VolumeString string | VolumeArray "string list"

record filters =
  neighborhood :: string
  counterType :: string
  volumeFilter :: volume_filter
  viewType :: string

definition isInVolumeCategory :: "num \<Rightarrow> string \<Rightarrow> bool" where
  "isInVolumeCategory count category =
     (if category = ''high'' then count \<ge> 80
      else if category = ''medium-high'' then count \<ge> 50 \<and> count < 80
      else if category = ''medium'' then count \<ge> 30 \<and> count < 50
      else if category = ''medium-low'' then count \<ge> 10 \<and> count < 30
      else if category = ''low'' then count < 10
      else True)"

definition getCountForFeature :: "road_feature \<Rightarrow> filters \<Rightarrow> num" where
  "getCountForFeature feature fl =
     (let props = properties feature
      in if viewType fl = ''observed'' \<and> truthy_num (OBSERVED_COUNT props)
         then the (OBSERVED_COUNT props)
         else if viewType fl = ''predicted'' \<and> truthy_num (predicted props)
         then the (predicted props)
         else the (or_num (or_num (OBSERVED_COUNT props) (predicted props)) (Some 0)))"

text \<open>The callback of \<^verbatim>\<open>features.filter\<close> in \<^verbatim>\<open>getFilteredRoadData\<close>.\<close>

definition road_passes :: "filters \<Rightarrow> road_feature \<Rightarrow> bool" where
  "road_passes fl feature =
     (let props = properties feature
      in if neighborhood fl \<noteq> ''all'' \<and> NEIGHBORHOOD props \<noteq> Some (neighborhood fl) then False
         else if counterType fl \<noteq> ''all'' \<and> COUNTER_TYPE props \<noteq> Some (counterType fl) then False
         else if volumeFilter fl \<noteq> VolumeString ''all''
         then (let count = getCountForFeature feature fl
               in case volumeFilter fl of
                    VolumeArray categories \<Rightarrow>
                      (if \<not> list_ex (\<lambda>category. isInVolumeCategory count category) categories
                       then False else True)
                  | VolumeString category \<Rightarrow>
                      (if \<not> isInVolumeCategory count category then False else True))
         else True)"

text \<open>The callback of \<^verbatim>\<open>features.filter\<close> in \<^verbatim>\<open>getFilteredCounterData\<close>.\<close>

definition counter_passes :: "filters \<Rightarrow> counter_feature \<Rightarrow> bool" where
  "counter_passes fl feature =
     (let props = properties feature
      in if neighborhood fl \<noteq> ''all'' \<and> NEIGHBORHOOD_c props \<noteq> Some (neighborhood fl) then False
         else if counterType fl \<noteq> ''all''
         then (let counterType' = or_str (COUNTER_TYPE_c props) (cntr_ty props)
               in if counterType' \<noteq> Some (counterType fl) then False else True)
         else True)"

text \<open>The body the two filter functions share: copy the stored collection, then
  replace the \<^verbatim>\<open>features\<close> of the copy by the features that pass. Reading
  \<^verbatim>\<open>filteredData.features.filter\<close> throws a \<^verbatim>\<open>TypeError\<close> when the collection has
  no \<^verbatim>\<open>features\<close>. The result is the address of the copy.\<close>

definition filtered_copy :: "('f \<Rightarrow> bool) \<Rightarrow> addr \<Rightarrow> 'f heap \<Rightarrow> (js_error + addr option) \<times> 'f heap" where
  "filtered_copy passes r h =
     (let (filteredData, h1) = json_copy r h
      in case collection_at h1 filteredData of
           None \<Rightarrow> (Inl TypeError, h1)
         | Some as \<Rightarrow>
             (Inr (Some filteredData),
              h1\<lparr> collection_at :=
                    (collection_at h1)
                      (filteredData := Some (filter (\<lambda>a. passes (feature_at h1 a)) as)) \<rparr>))"

text \<open>\<open>Inr None\<close> is the result \<^verbatim>\<open>null\<close>.\<close>

definition getFilteredRoadData :: "filters \<Rightarrow> world \<Rightarrow> (js_error + addr option) \<times> world" where
  "getFilteredRoadData fl w =
     (case roadNetworkData (dataState w) of
        None \<Rightarrow> (Inr None, w)
      | Some r \<Rightarrow>
          (let (res, h) = filtered_copy (road_passes fl) r (road_heap w)
           in (res, w\<lparr> road_heap := h \<rparr>)))"

definition getFilteredCounterData :: "filters \<Rightarrow> world \<Rightarrow> (js_error + addr option) \<times> world" where
  "getFilteredCounterData fl w =
     (case counterPointsData (dataState w) of
        None \<Rightarrow> (Inr None, w)
      | Some r \<Rightarrow>
          (let (res, h) = filtered_copy (counter_passes fl) r (counter_heap w)
           in (res, w\<lparr> counter_heap := h \<rparr>)))"

subsection \<open>The temporal predictions\<close>

text \<open>A segment identifier: a string, or a number, or \<^verbatim>\<open>undefined\<close>. The number is
  a non-negative integer below \<open>2 ^ 53\<close> (the type \<open>53 word\<close>), which \<^verbatim>\<open>String\<close> writes
  in decimal digits.\<close>

datatype js_key = Undefined | KStr string | KNum "53 word"

fun digits :: "nat \<Rightarrow> string" where
  "digits n = (if n < 10 then [''0123456789'' ! n]
               else digits (n div 10) @ [''0123456789'' ! (n mod 10)])"

declare digits.simps [simp del]

definition js_String :: "js_key \<Rightarrow> string" where
  "js_String k =
     (case k of
        Undefined \<Rightarrow> ''undefined''
      | KStr s \<Rightarrow> s
      | KNum n \<Rightarrow> digits (unat n))"

text \<open>
  \<^verbatim>\<open>dataState.temporalPredictions\<close> is a plain object. Reading a key that it does not
  have as its own gives the property of that name of \<^verbatim>\<open>Object.prototype\<close>, if there is
  one. These are the names of the properties of \<^verbatim>\<open>Object.prototype\<close>; their values are
  functions and, for \<^verbatim>\<open>__proto__\<close>, the prototype object itself: all truthy.
\<close>

definition Object_prototype :: "string list" where
  "Object_prototype =
     [''constructor'', ''hasOwnProperty'', ''isPrototypeOf'', ''propertyIsEnumerable'',
      ''toLocaleString'', ''toString'', ''valueOf'', ''__proto__'', ''__defineGetter__'',
      ''__defineSetter__'', ''__lookupGetter__'', ''__lookupSetter__'']"

text \<open>What \<^verbatim>\<open>getTemporalPredictionsForSegment\<close> returns: \<^verbatim>\<open>null\<close>, or the entry of
  the table under the key (an object, which is truthy), or the inherited property of
  that name.\<close>

datatype temporal_result = Null | Table day_table | Inherited string

definition getTemporalPredictionsForSegment :: "dataState \<Rightarrow> js_key \<Rightarrow> temporal_result" where
  "getTemporalPredictionsForSegment ds geoid =
     (let key = js_String geoid
      in case temporalPredictions ds key of
           Some table \<Rightarrow> Table table
         | None \<Rightarrow> (if key \<in> set Object_prototype then Inherited key else Null))"

text \<open>A row of \<^verbatim>\<open>time_predictions_nogeom.csv\<close>. \<open>None\<close> is \<^verbatim>\<open>undefined\<close>: a column
  the row does not have. With \<^verbatim>\<open>dynamicTyping\<close> the parser makes a number of a cell of
  digits; \<open>GEOID\<close> is a census identifier, a non-negative integer below \<open>2 ^ 53\<close>. The
  hour is an array index.\<close>

record temporal_row =
  GEOID_t :: "53 word option"
  dotw :: "num option"
  hour :: "nat option"
  hr_pred :: "num option"

text \<open>\<^verbatim>\<open>array[i] = v\<close>: an index past the end extends the array, leaving holes.\<close>

definition set_index :: "'a option list \<Rightarrow> nat \<Rightarrow> 'a \<Rightarrow> 'a option list" where
  "set_index xs i v =
     (if i < length xs then xs[i := Some v]
      else xs @ replicate (i - length xs) None @ [Some v])"

text \<open>The key of a row: \<^verbatim>\<open>String(row.GEOID)\<close>. It is a string of digits or
  \<^verbatim>\<open>"undefined"\<close>, so it names no property of \<^verbatim>\<open>Object.prototype\<close>, and
  \<^verbatim>\<open>!dataState.temporalPredictions[geoid]\<close> holds exactly when the table has no entry
  of its own under the key.\<close>

definition row_key :: "temporal_row \<Rightarrow> string" where
  "row_key row = js_String (case GEOID_t row of None \<Rightarrow> Undefined | Some n \<Rightarrow> KNum n)"

definition temporal_step :: "(string \<rightharpoonup> day_table) \<Rightarrow> temporal_row \<Rightarrow> (string \<rightharpoonup> day_table)" where
  "temporal_step table row =
     (let geoid = row_key row
      in if geoid = [] \<or> dotw row = None \<or> hour row = None \<or> hr_pred row = None then table
         else (let day = the (dotw row);
                   t1 = (if table geoid = None then table(geoid \<mapsto> Map.empty) else table);
                   days = the (t1 geoid);
                   days1 = (if days day = None then days(day \<mapsto> replicate 24 (Some 0)) else days)
               in t1(geoid \<mapsto> days1(day \<mapsto> set_index (the (days1 day)) (the (hour row)) (the (hr_pred row))))))"

subsection \<open>\<^verbatim>\<open>exportToCSV\<close>\<close>

definition exportToCSV :: "filters \<Rightarrow> string" where
  "exportToCSV fl = ''Sample CSV data''"

subsection \<open>The loaders\<close>

text \<open>
  A promise is settled: resolved with a value or rejected with an error. \<open>then_p\<close>
  is \<^verbatim>\<open>.then\<close> with a callback that returns a value or a promise (\<open>Resolved\<close>) or
  throws (\<open>Rejected\<close>); \<open>catch_p\<close> is \<^verbatim>\<open>.catch\<close>.
\<close>

datatype 'a promise = Resolved 'a | Rejected js_error

definition then_p :: "'a promise \<Rightarrow> ('a \<Rightarrow> 'b promise) \<Rightarrow> 'b promise" where
  "then_p p f = (case p of Resolved x \<Rightarrow> f x | Rejected e \<Rightarrow> Rejected e)"

definition catch_p :: "'a promise \<Rightarrow> (js_error \<Rightarrow> 'a promise) \<Rightarrow> 'a promise" where
  "catch_p p f = (case p of Resolved x \<Rightarrow> Resolved x | Rejected e \<Rightarrow> f e)"

text \<open>What \<^verbatim>\<open>fetch\<close> gives for a path: \<open>None\<close> when the request itself fails,
  otherwise a response. The body of the response is what \<^verbatim>\<open>response.json()\<close>
  parses (for the two CSV files: the rows \<^verbatim>\<open>Papa.parse\<close> makes of
  \<^verbatim>\<open>response.text()\<close>); \<open>None\<close> when that fails.\<close>

record 'a response =
  ok :: bool
  statusText :: string
  body :: "'a option"

record env =
  segments_wgs84 :: "parsed_road_feature geojson response option"
  network_wgs84 :: "parsed_road_feature geojson response option"
  combined_counters_wgs84 :: "parsed_counter_feature geojson response option"
  DC_Health_Planning_Neighborhoods :: "neighborhood_feature geojson response option"
  selected_seg_census_wgs84_with_white :: "census_feature geojson response option"
  spatial_predictions :: "prediction_row list response option"
  time_predictions_nogeom :: "temporal_row list response option"

definition fetch :: "'a response option \<Rightarrow> 'a response promise" where
  "fetch r = (case r of None \<Rightarrow> Rejected NetworkError | Some response \<Rightarrow> Resolved response)"

definition json :: "'a response \<Rightarrow> 'a promise" where
  "json response = (case body response of None \<Rightarrow> Rejected SyntaxError | Some d \<Rightarrow> Resolved d)"

definition empty_road_props :: road_props where
  "empty_road_props =
     \<lparr> SUBBLOCKKEY = None, SUBBLOK = None, NEIGHBORHOOD = None, BIKE_FT = None,
       bike_facility_type = None, SEG_LEN = None, segment_length = None, predicted = None,
       predicted_alt = None, OBSERVED_COUNT = None, COUNTER_TYPE = None, GEOID = None,
       POPULATION = None, MEDIAN_INCOME = None, COMMUTE_TIME = None, BIKE_COMMUTE = None,
       EDUCATION = None, WHITE_PERCENTAGE = None, RENT_PRICE = None, MEDIAN_AGE = None,
       populationE = None, median_incomeE = None, commute_bicycleE = None,
       edu_bachelors_plusE = None, rent_percentE = None, median_ageE = None, degree_max = None,
       betweenness_max = None, closeness_max = None, DEGREE = None, BETWEEN = None,
       CLOSENESS = None, residual = None, percent_error = None, traffic_level = None,
       lat = None, lng = None \<rparr>"

definition empty_counter_props :: counter_props where
  "empty_counter_props =
     \<lparr> SUBBLOCKKEY_c = None, Site_Nm = None, COUNT = None, OBSERVED_COUNT_c = None,
       COUNTER_TYPE_c = None, cntr_ty = None, NEIGHBORHOOD_c = None \<rparr>"

definition empty_prediction_row :: prediction_row where
  "empty_prediction_row =
     \<lparr> SUBBLOCKKEY_r = None, dot_pred = None, dot_pred_1 = None, predicted_r = None,
       predicted_alt_r = None, observed = None, OBSERVED_COUNT_r = None \<rparr>"

text \<open>The built-in collections. The properties \<^verbatim>\<open>FULLNAME\<close>, \<^verbatim>\<open>RD_CLASS\<close> and
  \<^verbatim>\<open>Site.Name\<close>, which the data module never reads, are left out.\<close>

definition defaultRoadNetworkData :: "road_feature geojson" where
  "defaultRoadNetworkData =
     \<lparr> features = Some
        [\<lparr> properties = empty_road_props\<lparr> SUBBLOCKKEY := Some ''sample_road_1'',
              BIKE_FT := Some ''Protected'', NEIGHBORHOOD := Some ''Downtown'',
              SEG_LEN := Some 0.25, OBSERVED_COUNT := Some 75, predicted := Some 78.5 \<rparr>,
           geometry = Some (LineString [[-77.02, 38.9], [-77.03, 38.9]]) \<rparr>,
         \<lparr> properties = empty_road_props\<lparr> SUBBLOCKKEY := Some ''sample_road_2'',
              BIKE_FT := Some ''Unprotected'', NEIGHBORHOOD := Some ''Capitol Hill'',
              SEG_LEN := Some 0.15, predicted := Some 45.2 \<rparr>,
           geometry = Some (LineString [[-76.99, 38.9], [-76.98, 38.9]]) \<rparr>] \<rparr>"

definition defaultCounterData :: "counter_feature geojson" where
  "defaultCounterData =
     \<lparr> features = Some
        [\<lparr> properties = empty_counter_props\<lparr> SUBBLOCKKEY_c := Some ''sample_road_1'',
              Site_Nm := Some ''Counter 1'', cntr_ty := Some ''AUTO'', COUNT := Some 75 \<rparr>,
           geometry = Some (Point [-77.025, 38.9]) \<rparr>,
         \<lparr> properties = empty_counter_props\<lparr> SUBBLOCKKEY_c := Some ''sample_road_2'',
              Site_Nm := Some ''Counter 2'', cntr_ty := Some ''MANUAL'', COUNT := Some 45 \<rparr>,
           geometry = Some (Point [-76.985, 38.9]) \<rparr>] \<rparr>"

definition defaultNeighborhoodData :: "neighborhood_feature geojson" where
  "defaultNeighborhoodData =
     \<lparr> features = Some
        [\<lparr> properties = Some \<lparr> DC_HPN_NAME = Some ''Downtown'', NAME = None, NEIGHBORHOOD_n = None \<rparr>,
           geometry = Some (Polygon [[[-77.04, 38.89], [-77.02, 38.89], [-77.02, 38.91],
                                      [-77.04, 38.91], [-77.04, 38.89]]]) \<rparr>,
         \<lparr> properties = Some \<lparr> DC_HPN_NAME = Some ''Capitol Hill'', NAME = None, NEIGHBORHOOD_n = None \<rparr>,
           geometry = Some (Polygon [[[-77.00, 38.88], [-76.98, 38.88], [-76.98, 38.90],
                                      [-77.00, 38.90], [-77.00, 38.88]]]) \<rparr>] \<rparr>"

definition defaultCensusData :: "census_feature geojson" where
  "defaultCensusData =
     \<lparr> features = Some
        [\<lparr> properties = Some \<lparr> SUBBLOC = Some ''sample_road_1'', GEOID_s = Some ''11001000100'',
              popltnE = Some 5000, mdn_ncE = Some 85000, cmmt__E = Some 22, cmmt_bE = Some 5,
              ed_bc_E = Some 75, pct_white = None, rnt_prE = Some 2200, medn_gE = Some 32 \<rparr>,
           geometry = Some (Polygon [[[-77.04, 38.89], [-77.02, 38.89], [-77.02, 38.91],
                                      [-77.04, 38.91], [-77.04, 38.89]]]) \<rparr>] \<rparr>"

definition defaultPredictionsData :: "prediction_row list" where
  "defaultPredictionsData =
     [empty_prediction_row\<lparr> SUBBLOCKKEY_r := Some ''sample_road_1'', dot_pred := Some 78.5,
        dot_pred_1 := Some 80.2 \<rparr>,
      empty_prediction_row\<lparr> SUBBLOCKKEY_r := Some ''sample_road_2'', dot_pred := Some 45.2,
        dot_pred_1 := Some 47.8 \<rparr>]"

text \<open>The first \<^verbatim>\<open>.then\<close> of every loader: a response that is not \<^verbatim>\<open>ok\<close> throws,
  with the message given.\<close>

definition check_ok :: "string \<Rightarrow> 'a response \<Rightarrow> 'a promise" where
  "check_ok message response =
     (if \<not> ok response then Rejected (Error message) else json response)"

text \<open>\<^verbatim>\<open>loadRoadNetworkData\<close>. The second callback reads \<^verbatim>\<open>data.features.length\<close>,
  which throws without \<^verbatim>\<open>features\<close>, and logs
  \<^verbatim>\<open>data.features[0].geometry.coordinates[0]\<close>, which throws when the first
  feature has no geometry or no coordinates; it logs \<^verbatim>\<open>data.features[0].properties\<close>
  whatever they are. Every error leads to the backup path, whose data is returned as
  parsed, and an error there to the built-in collection.\<close>

definition loadRoadNetworkData :: "env \<Rightarrow> parsed_road_feature geojson promise" where
  "loadRoadNetworkData e =
     catch_p
       (then_p
          (then_p (fetch (segments_wgs84 e))
             (\<lambda>response. check_ok (''Failed to load road network data: '' @ statusText response)
                            response))
          (\<lambda>data. case features data of
                     None \<Rightarrow> Rejected TypeError
                   | Some fs \<Rightarrow>
                       (if length fs > 0 \<and>
                           (geometry (hd fs) = None \<or> geometry (hd fs) = Some NoCoordinates)
                        then Rejected TypeError
                        else Resolved data)))
       (\<lambda>error.
          catch_p
            (then_p (fetch (network_wgs84 e))
               (\<lambda>response. check_ok ''Failed to load backup road network data'' response))
            (\<lambda>fallbackError. Resolved (as_parsed defaultRoadNetworkData)))"

text \<open>\<^verbatim>\<open>loadCounterPointsData\<close> gives the count 0 to a counter that has neither
  \<^verbatim>\<open>COUNT\<close> nor \<^verbatim>\<open>OBSERVED_COUNT\<close>: the callback reads
  \<^verbatim>\<open>feature.properties.COUNT\<close> of every feature, which throws on a feature without
  properties. Then it logs \<^verbatim>\<open>data.features[0].geometry.coordinates\<close>. So the
  collection the loader resolves with has features with properties.\<close>

definition zero_count :: "counter_feature \<Rightarrow> counter_feature" where
  "zero_count feature =
     (if \<not> truthy_num (COUNT (properties feature)) \<and>
         \<not> truthy_num (OBSERVED_COUNT_c (properties feature))
      then feature\<lparr> properties := (properties feature)\<lparr> COUNT := Some 0 \<rparr> \<rparr>
      else feature)"

definition loadCounterPointsData :: "env \<Rightarrow> counter_feature geojson promise" where
  "loadCounterPointsData e =
     catch_p
       (then_p
          (then_p (fetch (combined_counters_wgs84 e))
             (\<lambda>response. check_ok (''Failed to load counter points data: '' @ statusText response)
                            response))
          (\<lambda>data. case features data of
                     None \<Rightarrow> Rejected TypeError
                   | Some fs \<Rightarrow>
                       (if length fs > 0
                        then (case with_properties fs of
                                None \<Rightarrow> Rejected TypeError
                              | Some counters \<Rightarrow>
                                  (if geometry (hd fs) = None then Rejected TypeError
                                   else Resolved \<lparr> features = Some (map zero_count counters) \<rparr>))
                        else Resolved \<lparr> features = Some [] \<rparr>)))
       (\<lambda>error. Resolved defaultCounterData)"

text \<open>\<^verbatim>\<open>loadNeighborhoodBoundaries\<close> logs \<^verbatim>\<open>coordinates[0][0]\<close> of the first feature
  when it has coordinates, which throws when they are the empty array.\<close>

definition loadNeighborhoodBoundaries :: "env \<Rightarrow> neighborhood_feature geojson promise" where
  "loadNeighborhoodBoundaries e =
     catch_p
       (then_p
          (then_p (fetch (DC_Health_Planning_Neighborhoods e))
             (\<lambda>response. check_ok (''Failed to load neighborhood boundaries: '' @ statusText response)
                            response))
          (\<lambda>data. case features data of
                     None \<Rightarrow> Rejected TypeError
                   | Some fs \<Rightarrow>
                       (if length fs > 0 \<and> geometry (hd fs) = Some (Polygon [])
                        then Rejected TypeError
                        else Resolved data)))
       (\<lambda>error. Resolved defaultNeighborhoodData)"

definition loadCensusData :: "env \<Rightarrow> census_feature geojson promise" where
  "loadCensusData e =
     catch_p
       (then_p
          (then_p (fetch (selected_seg_census_wgs84_with_white e))
             (\<lambda>response. check_ok (''Failed to load census data: '' @ statusText response) response))
          (\<lambda>data. case features data of
                     None \<Rightarrow> Rejected TypeError
                   | Some fs \<Rightarrow>
                       (if length fs > 0 \<and>
                           (geometry (hd fs) = None \<or> geometry (hd fs) = Some NoRings)
                        then Rejected TypeError
                        else Resolved data)))
       (\<lambda>error. Resolved defaultCensusData)"

definition loadPredictionsData :: "env \<Rightarrow> prediction_row list promise" where
  "loadPredictionsData e =
     catch_p
       (then_p
          (then_p (fetch (spatial_predictions e))
             (\<lambda>response. check_ok (''Failed to load predictions data: '' @ statusText response)
                            response))
          (\<lambda>rows. Resolved rows))
       (\<lambda>error. Resolved defaultPredictionsData)"

text \<open>\<^verbatim>\<open>loadTemporalPredictions\<close> writes the table into \<^verbatim>\<open>dataState\<close> itself and
  resolves with \<^verbatim>\<open>undefined\<close>; on an error the table is the empty object.\<close>

definition loadTemporalPredictions :: "env \<Rightarrow> dataState \<Rightarrow> unit promise \<times> dataState" where
  "loadTemporalPredictions e ds =
     (case then_p (fetch (time_predictions_nogeom e))
             (\<lambda>res. check_ok ''Failed to load temporal predictions'' res) of
        Resolved parsed \<Rightarrow>
          (Resolved (), ds\<lparr> temporalPredictions := foldl temporal_step Map.empty parsed \<rparr>)
      | Rejected error \<Rightarrow> (Resolved (), ds\<lparr> temporalPredictions := Map.empty \<rparr>))"

subsection \<open>\<^verbatim>\<open>initData\<close>\<close>

text \<open>
  \<^verbatim>\<open>Promise.all\<close> resolves with all the values when every promise resolves, and
  rejects when one rejects. The callback stores the collections: the objects of the
  road and counter collections are allocated in the heaps at this point (they exist
  since \<^verbatim>\<open>response.json()\<close>, and nothing else refers to them in between). The
  alias \<^verbatim>\<open>window.allCounterData\<close> and the event \<^verbatim>\<open>data:loaded\<close> belong to the page
  and are not modelled.
\<close>

definition store_loaded ::
  "road_feature geojson \<Rightarrow> counter_feature geojson \<Rightarrow> neighborhood_feature geojson
     \<Rightarrow> census_feature geojson \<Rightarrow> prediction_row list \<Rightarrow> world \<Rightarrow> world" where
  "store_loaded roadData counterData neighborhoodData censusData' predictionsData' w =
     (let (r, rh) = alloc_collection roadData (road_heap w);
          (c, ch) = alloc_collection counterData (counter_heap w)
      in w\<lparr> dataState := (dataState w)\<lparr> roadNetworkData := Some r,
                                        counterPointsData := Some c,
                                        neighborhoodBoundaries := Some neighborhoodData,
                                        censusData := Some censusData',
                                        predictionsData := Some predictionsData' \<rparr>,
            road_heap := rh, counter_heap := ch \<rparr>)"

text \<open>The road collection as the store holds it: \<open>None\<close> when one of its features has
  no properties.\<close>

definition stored_form :: "parsed_road_feature geojson \<Rightarrow> road_feature geojson option" where
  "stored_form data =
     (case features data of
        None \<Rightarrow> Some \<lparr> features = None \<rparr>
      | Some fs \<Rightarrow> map_option (\<lambda>roads. \<lparr> features = Some roads \<rparr>) (with_properties fs))"

text \<open>
  A loaded road collection one of whose features has no properties makes the
  callback throw a \<^verbatim>\<open>TypeError\<close>: \<open>processData\<close> calls the counter update, which
  returns, and then \<^verbatim>\<open>processRoadNetworkData\<close>, since the four collections are
  present; the collection has \<^verbatim>\<open>features\<close>, so the lookups are built, where
  \<^verbatim>\<open>createCensusLookup\<close> may throw a \<^verbatim>\<open>TypeError\<close>, and then the loop over the road
  features throws one at \<^verbatim>\<open>props.SUBBLOCKKEY\<close> on the first feature without
  properties. The promise is rejected with that error, and the state the page is left
  in is not part of the result. This is the first case below; in the other the
  collection is stored and processed.
\<close>

definition initData :: "env \<Rightarrow> (nat \<Rightarrow> num) \<Rightarrow> arith \<Rightarrow> world \<Rightarrow> world promise" where
  "initData e random ar w =
     (if isInitialized (dataState w) then Resolved w
      else
        (let (temporal, ds) = loadTemporalPredictions e (dataState w);
             w0 = w\<lparr> dataState := ds \<rparr>
         in catch_p
              (then_p (loadRoadNetworkData e) (\<lambda>roadData.
               then_p (loadCounterPointsData e) (\<lambda>counterData.
               then_p (loadNeighborhoodBoundaries e) (\<lambda>neighborhoodData.
               then_p (loadCensusData e) (\<lambda>censusData'.
               then_p (loadPredictionsData e) (\<lambda>predictionsData'.
               then_p temporal (\<lambda>temporalData.
                 (case stored_form roadData of
                    None \<Rightarrow> Rejected TypeError
                  | Some roads \<Rightarrow>
                      (let w1 = store_loaded roads counterData neighborhoodData censusData'
                                  predictionsData' w0
                       in case processData random w1 of
                            Inl err \<Rightarrow> Rejected err
                          | Inr w2 \<Rightarrow>
                              (let w3 = (if features neighborhoodData \<noteq> None
                                         then w2\<lparr> dataState := (dataState w2)
                                                 \<lparr> neighborhoodsList :=
                                                     extractNeighborhoodsList
                                                       (Some neighborhoodData) \<rparr> \<rparr>
                                         else w2);
                                   w4 = calculateStatistics ar w3
                               in Resolved (w4\<lparr> dataState := (dataState w4)
                                               \<lparr> isInitialized := True \<rparr> \<rparr>)))))))))))
              (\<lambda>error. Rejected error)))"

text \<open>The features of the stored counter collection, as \<open>stored_road_features\<close>.\<close>

definition stored_counter_features :: "world \<Rightarrow> counter_feature list" where
  "stored_counter_features w =
     (case counterPointsData (dataState w) of
        None \<Rightarrow> []
      | Some r \<Rightarrow> (case features_of (counter_heap w) r of None \<Rightarrow> [] | Some fs \<Rightarrow> fs))"

text \<open>The page before \<^verbatim>\<open>initData\<close>: nothing is allocated.\<close>

definition empty_heap :: "'f \<Rightarrow> 'f heap" where
  "empty_heap blank = \<lparr> feature_at = (\<lambda>a. blank), collection_at = (\<lambda>a. None), next_addr = 0 \<rparr>"

definition initial_world :: world where
  "initial_world =
     \<lparr> dataState = initial_dataState,
       road_heap = empty_heap \<lparr> properties = empty_road_props, geometry = None \<rparr>,
       counter_heap = empty_heap \<lparr> properties = empty_counter_props, geometry = None \<rparr>,
       draws = 0 \<rparr>"

subsection \<open>Notions used to state the properties\<close>

text \<open>The length the statistics count for a segment, and its bike facility, both
  after the aliases are resolved as \<^verbatim>\<open>calculateStatistics\<close> resolves them.\<close>

definition length_of :: "road_props \<Rightarrow> num option" where
  "length_of props = or_num (SEG_LEN props) (segment_length props)"

definition bikeFacility_of :: "road_props \<Rightarrow> string" where
  "bikeFacility_of props =
     the (or_str (or_str (BIKE_FT props) (bike_facility_type props)) (Some []))"

text \<open>The values of a field over the segments where it is truthy, in the order of the
  segments.\<close>

definition truthy_values :: "(road_props \<Rightarrow> num option) \<Rightarrow> road_feature list \<Rightarrow> num list" where
  "truthy_values field fs =
     map (\<lambda>f. the (field (properties f))) (filter (\<lambda>f. truthy_num (field (properties f))) fs)"

text \<open>The segments the code counts as bike lanes, and the coverage in closed form:
  the two sums are running sums, the quotient is taken first and then multiplied by
  100, as in the source.\<close>

definition has_bike_lane :: "road_feature \<Rightarrow> bool" where
  "has_bike_lane feature \<longleftrightarrow>
     bikeFacility_of (properties feature) \<notin> {[], ''None'', ''NA''}"

definition coverage_of :: "arith \<Rightarrow> road_feature list \<Rightarrow> num" where
  "coverage_of ar fs =
     (let total = js_sum ar (truthy_values length_of fs);
          bike = js_sum ar (truthy_values length_of (filter has_bike_lane fs))
      in if total = 0 then 0 else Math_round (js_mul ar (js_div ar bike total) 100))"

text \<open>The coverage in the words of the specification: the facility types left out
  are \<open>None\<close>, \<open>Unknown\<close> and the empty one, and the value is
  \<open>round (100 * bike / total)\<close>.\<close>

definition claimed_bike_lane :: "road_feature \<Rightarrow> bool" where
  "claimed_bike_lane feature \<longleftrightarrow>
     bikeFacility_of (properties feature) \<notin> {[], ''None'', ''Unknown''}"

definition claimed_coverage :: "arith \<Rightarrow> road_feature list \<Rightarrow> num" where
  "claimed_coverage ar fs =
     (let total = js_sum ar (truthy_values length_of fs);
          bike = js_sum ar (truthy_values length_of (filter claimed_bike_lane fs))
      in if total = 0 then 0 else Math_round (js_div ar (js_mul ar 100 bike) total))"

text \<open>The census fields the averages are taken of, after the aliases are resolved.\<close>

definition income_of :: "road_props \<Rightarrow> num option" where
  "income_of props = or_num (MEDIAN_INCOME props) (median_incomeE props)"

definition population_of :: "road_props \<Rightarrow> num option" where
  "population_of props = or_num (POPULATION props) (populationE props)"

definition bike_commute_of :: "road_props \<Rightarrow> num option" where
  "bike_commute_of props = or_num (BIKE_COMMUTE props) (commute_bicycleE props)"

definition education_of :: "road_props \<Rightarrow> num option" where
  "education_of props = or_num (EDUCATION props) (edu_bachelors_plusE props)"

text \<open>The rounded mean of a list of values (0 for the empty list): the running sum
  divided by the number of values.\<close>

definition rounded_mean :: "arith \<Rightarrow> num list \<Rightarrow> num" where
  "rounded_mean ar xs =
     (if length xs > 0 then Math_round (js_div ar (js_sum ar xs) (of_nat (length xs))) else 0)"

text \<open>Heaps. \<open>same_objects h h'\<close>: every object allocated in \<open>h\<close> is the same in
  \<open>h'\<close> (a snapshot of \<open>h\<close> compared with \<open>h'\<close>). \<open>fresh_in h h' a\<close>: the address was
  allocated between \<open>h\<close> and \<open>h'\<close>. \<open>fresh_copy h h' r\<close>: the collection at \<open>r\<close> and
  all its features are such new objects. \<open>allocated h ref\<close>: the collection referred to
  and its features are objects of \<open>h\<close>.\<close>

definition same_objects :: "'f heap \<Rightarrow> 'f heap \<Rightarrow> bool" where
  "same_objects h h' \<longleftrightarrow>
     list_all (\<lambda>a. feature_at h' a = feature_at h a \<and> collection_at h' a = collection_at h a)
       [0..<next_addr h]"

definition fresh_in :: "'f heap \<Rightarrow> 'f heap \<Rightarrow> addr \<Rightarrow> bool" where
  "fresh_in h h' a \<longleftrightarrow> next_addr h \<le> a \<and> a < next_addr h'"

definition fresh_copy :: "'f heap \<Rightarrow> 'f heap \<Rightarrow> addr \<Rightarrow> bool" where
  "fresh_copy h h' r \<longleftrightarrow>
     fresh_in h h' r \<and>
     (case collection_at h' r of None \<Rightarrow> False | Some bs \<Rightarrow> list_all (fresh_in h h') bs)"

definition allocated :: "'f heap \<Rightarrow> addr option \<Rightarrow> bool" where
  "allocated h ref \<longleftrightarrow>
     (case ref of
        None \<Rightarrow> True
      | Some r \<Rightarrow> r < next_addr h \<and>
                  (case collection_at h r of
                     None \<Rightarrow> True
                   | Some as \<Rightarrow> list_all (\<lambda>a. a < next_addr h) as))"

text \<open>What a filter function returns, against the features \<open>fs\<close> it should hold:
  \<^verbatim>\<open>null\<close>, an error, or a fresh copy whose features are \<open>fs\<close>.\<close>

definition copy_of :: "'f heap \<Rightarrow> 'f heap \<Rightarrow> 'f list \<Rightarrow> js_error + addr option \<Rightarrow> bool" where
  "copy_of h h' fs res \<longleftrightarrow>
     (case res of
        Inr (Some c) \<Rightarrow> fresh_copy h h' c \<and> features_of h' c = Some fs
      | Inr None \<Rightarrow> True
      | Inl e \<Rightarrow> True)"

text \<open>A counter after the update: \<open>COUNT\<close> and \<open>OBSERVED_COUNT\<close> are equal, defined
  and not 0.\<close>

definition counter_ok :: "counter_feature \<Rightarrow> bool" where
  "counter_ok feature \<longleftrightarrow>
     COUNT (properties feature) = OBSERVED_COUNT_c (properties feature) \<and>
     truthy_num (COUNT (properties feature))"

text \<open>\<^verbatim>\<open>Math.random()\<close> returns a number from 0, inclusive, to 1, exclusive.\<close>

definition unit_interval :: "(nat \<Rightarrow> num) \<Rightarrow> bool" where
  "unit_interval random \<longleftrightarrow> (\<forall>n. 0 \<le> random n \<and> random n < 1)"

text \<open>A fetch that fails: the request fails, or the status is not a success, or the
  body cannot be parsed.\<close>

definition fetch_failed :: "'a response option \<Rightarrow> bool" where
  "fetch_failed r \<longleftrightarrow>
     (case r of None \<Rightarrow> True | Some response \<Rightarrow> \<not> ok response \<or> body response = None)"

text \<open>The callback \<open>processRoadNetworkData\<close> applies to every road feature of a state:
  \<open>processRoadFeature\<close> with the three lookups built from that state (the census
  lookup is empty here when building it throws: then the callback is not applied). A
  collection has \<open>distinct_features\<close> when no feature object occurs twice in its
  array, as in every collection that was parsed from a file.\<close>

definition road_callback :: "world \<Rightarrow> road_feature \<Rightarrow> road_feature" where
  "road_callback w =
     processRoadFeature (createPredictedLookup (predictionsData (dataState w)))
       (createCounterLookup (case counterPointsData (dataState w) of None \<Rightarrow> None
                             | Some c \<Rightarrow> features_of (counter_heap w) c))
       (case createCensusLookup (censusData (dataState w)) of
          Inl err \<Rightarrow> Map.empty
        | Inr censusLookup \<Rightarrow> censusLookup)"

text \<open>A parsed collection that has a feature without properties. \<open>join_throws e\<close>: the
  road collection the loader resolves with has \<^verbatim>\<open>features\<close>, and it or the census
  collection has a feature without properties.\<close>

definition null_properties :: "('p option, 'g) feature geojson \<Rightarrow> bool" where
  "null_properties data \<longleftrightarrow>
     (case features data of None \<Rightarrow> False | Some fs \<Rightarrow> list_ex (\<lambda>f. properties f = None) fs)"

definition join_throws :: "env \<Rightarrow> bool" where
  "join_throws e \<longleftrightarrow>
     (case loadRoadNetworkData e of
        Rejected err \<Rightarrow> False
      | Resolved roadData \<Rightarrow>
          (case loadCensusData e of
             Rejected err \<Rightarrow> False
           | Resolved census \<Rightarrow>
               features roadData \<noteq> None \<and> (null_properties roadData \<or> null_properties census)))"

definition distinct_features :: "'f heap \<Rightarrow> addr option \<Rightarrow> bool" where
  "distinct_features h ref \<longleftrightarrow>
     (case ref of None \<Rightarrow> True
      | Some r \<Rightarrow> (case collection_at h r of None \<Rightarrow> True | Some as \<Rightarrow> distinct as))"

subsection \<open>Example inputs\<close>

text \<open>The concrete inputs on which the properties below are evaluated.\<close>

definition example_predictions :: "prediction_row list" where
  "example_predictions =
     [empty_prediction_row\<lparr> SUBBLOCKKEY_r := Some ''A1'', dot_pred := Some 80 \<rparr>,
      empty_prediction_row\<lparr> SUBBLOCKKEY_r := Some ''A2'', dot_pred := Some 45 \<rparr>,
      empty_prediction_row\<lparr> SUBBLOCKKEY_r := Some ''A3'' \<rparr>]"



definition segment_A2 :: road_feature where
  "segment_A2 =
     \<lparr> properties = empty_road_props\<lparr> SUBBLOCKKEY := Some ''A2'' \<rparr>, geometry = None \<rparr>"

definition segment_A3 :: road_feature where
  "segment_A3 =
     \<lparr> properties = empty_road_props\<lparr> SUBBLOCKKEY := Some ''A3'', OBSERVED_COUNT := Some 75 \<rparr>,
       geometry = None \<rparr>"

text \<open>The join of one segment with the example predictions, without counters and
  census areas.\<close>

definition example_join :: "road_feature \<Rightarrow> road_props" where
  "example_join feature =
     properties (processRoadFeature (createPredictedLookup (Some example_predictions))
                   (createCounterLookup None) Map.empty feature)"

definition combined_filters :: filters where
  "combined_filters =
     \<lparr> neighborhood = ''all'', counterType = ''all'', volumeFilter = VolumeString ''high'',
       viewType = ''combined'' \<rparr>"

definition downtown_filters :: filters where
  "downtown_filters =
     \<lparr> neighborhood = ''Downtown'', counterType = ''all'', volumeFilter = VolumeString ''all'',
       viewType = ''combined'' \<rparr>"

definition segment_zero_observed :: road_feature where
  "segment_zero_observed =
     \<lparr> properties = empty_road_props\<lparr> SUBBLOCKKEY := Some ''B1'', OBSERVED_COUNT := Some 0,
                                      predicted := Some 85 \<rparr>,
       geometry = None \<rparr>"

definition segment_observed_only :: road_feature where
  "segment_observed_only =
     \<lparr> properties = empty_road_props\<lparr> SUBBLOCKKEY := Some ''B2'', OBSERVED_COUNT := Some 35 \<rparr>,
       geometry = None \<rparr>"

text \<open>The rows \<^verbatim>\<open>loadTemporalPredictions\<close> keeps: the negation of its test for an
  invalid row.\<close>

definition valid_temporal_row :: "temporal_row \<Rightarrow> bool" where
  "valid_temporal_row row \<longleftrightarrow>
     row_key row \<noteq> [] \<and> dotw row \<noteq> None \<and> hour row \<noteq> None \<and> hr_pred row \<noteq> None"

definition example_temporal_rows :: "temporal_row list" where
  "example_temporal_rows =
     [\<lparr> GEOID_t = Some 1001, dotw = Some 1, hour = Some 8, hr_pred = Some 12.5 \<rparr>,
      \<lparr> GEOID_t = Some 1001, dotw = Some 1, hour = Some 9, hr_pred = Some 0 \<rparr>,
      \<lparr> GEOID_t = Some 1002, dotw = Some 7, hour = None, hr_pred = Some 3 \<rparr>]"

definition example_temporal_state :: dataState where
  "example_temporal_state =
     initial_dataState\<lparr> temporalPredictions :=
                          foldl temporal_step Map.empty example_temporal_rows \<rparr>"

definition example_day_table :: day_table where
  "example_day_table = [1 \<mapsto> (replicate 24 (Some 0))[8 := Some 12.5, 9 := Some 0]]"

text \<open>Every file answers 404.\<close>

definition not_found :: "'a response option" where
  "not_found = Some \<lparr> ok = False, statusText = ''Not Found'', body = None \<rparr>"

definition env_404 :: env where
  "env_404 =
     \<lparr> segments_wgs84 = not_found, network_wgs84 = not_found,
       combined_counters_wgs84 = not_found, DC_Health_Planning_Neighborhoods = not_found,
       selected_seg_census_wgs84_with_white = not_found, spatial_predictions = not_found,
       time_predictions_nogeom = not_found \<rparr>"

definition half_random :: "nat \<Rightarrow> num" where
  "half_random n = 1 / 2"

text \<open>The road files and the other files answer 404, but the census file is read: it
  has one area, whose \<^verbatim>\<open>properties\<close> are \<^verbatim>\<open>null\<close>.\<close>

definition census_without_properties :: "census_feature geojson" where
  "census_without_properties =
     \<lparr> features = Some
        [\<lparr> properties = None,
           geometry = Some (Polygon [[[-77.04, 38.89], [-77.02, 38.89], [-77.02, 38.91],
                                      [-77.04, 38.91], [-77.04, 38.89]]]) \<rparr>] \<rparr>"

definition env_null_census :: env where
  "env_null_census =
     env_404\<lparr> selected_seg_census_wgs84_with_white :=
                Some \<lparr> ok = True, statusText = ''OK'',
                       body = Some census_without_properties \<rparr> \<rparr>"

text \<open>Two segments of the lengths 23 and 17, the first with a bike lane.\<close>

definition segment_of_length :: "num \<Rightarrow> string \<Rightarrow> road_feature" where
  "segment_of_length l facility =
     \<lparr> properties = empty_road_props\<lparr> BIKE_FT := Some facility, SEG_LEN := Some l \<rparr>,
       geometry = None \<rparr>"

definition lane_23_of_40 :: "road_feature list" where
  "lane_23_of_40 = [segment_of_length 23 ''Protected'', segment_of_length 17 ''None'']"

definition lane_world :: world where
  "lane_world =
     store_loaded \<lparr> features = Some lane_23_of_40 \<rparr> defaultCounterData
       defaultNeighborhoodData defaultCensusData defaultPredictionsData initial_world"

definition segment_unknown_lane :: road_feature where
  "segment_unknown_lane =
     \<lparr> properties = empty_road_props\<lparr> SUBBLOCKKEY := Some ''U1'', BIKE_FT := Some ''Unknown'',
                                      SEG_LEN := Some 120 \<rparr>,
       geometry = None \<rparr>"

definition unknown_lane_world :: world where
  "unknown_lane_world =
     store_loaded \<lparr> features = Some [segment_unknown_lane] \<rparr> defaultCounterData
       defaultNeighborhoodData defaultCensusData defaultPredictionsData initial_world"

definition segment_with_income :: "num \<Rightarrow> road_feature" where
  "segment_with_income x =
     \<lparr> properties = empty_road_props\<lparr> MEDIAN_INCOME := Some x \<rparr>, geometry = None \<rparr>"

definition income_world :: world where
  "income_world =
     store_loaded
       \<lparr> features = Some [segment_with_income 50000, segment_with_income 0,
                           segment_with_income 70000] \<rparr>
       defaultCounterData defaultNeighborhoodData defaultCensusData defaultPredictionsData
       initial_world"

definition default_world :: world where
  "default_world =
     store_loaded defaultRoadNetworkData defaultCounterData defaultNeighborhoodData
       defaultCensusData defaultPredictionsData initial_world"





section \<open>Properties\<close>

lemmas js_defs = truthy_num_def truthy_str_def or_num_def or_str_def parseFloat_def

lemmas join_defs = processRoadFeature_def attach_predicted_def attach_counter_def
  attach_census_def set_centrality_def set_census_aliases_def set_residual_def
  set_traffic_level_def set_midpoint_def

lemmas lookup_defs = createPredictedLookup_def createCounterLookup_def createCensusLookup_def
  predicted_step_def counter_step_def census_step_def

subsection \<open>The join\<close>

text \<open>What each step of the callback leaves alone.\<close>

lemma attach_frame [simp]:
  "residual (attach_predicted L k p) = residual p"
  "percent_error (attach_predicted L k p) = percent_error p"
  "traffic_level (attach_predicted L k p) = traffic_level p"
  "residual (attach_counter C k p) = residual p"
  "percent_error (attach_counter C k p) = percent_error p"
  "traffic_level (attach_counter C k p) = traffic_level p"
  "residual (attach_census S k p) = residual p"
  "percent_error (attach_census S k p) = percent_error p"
  "traffic_level (attach_census S k p) = traffic_level p"
  by (simp_all add: attach_predicted_def attach_counter_def attach_census_def
      split: option.splits)

lemma aliases_frame [simp]:
  "residual (set_centrality p) = residual p"
  "percent_error (set_centrality p) = percent_error p"
  "traffic_level (set_centrality p) = traffic_level p"
  "OBSERVED_COUNT (set_centrality p) = OBSERVED_COUNT p"
  "predicted (set_centrality p) = predicted p"
  "residual (set_census_aliases p) = residual p"
  "percent_error (set_census_aliases p) = percent_error p"
  "traffic_level (set_census_aliases p) = traffic_level p"
  "OBSERVED_COUNT (set_census_aliases p) = OBSERVED_COUNT p"
  "predicted (set_census_aliases p) = predicted p"
  by (simp_all add: set_centrality_def set_census_aliases_def Let_def)

lemma later_frame [simp]:
  "OBSERVED_COUNT (set_residual p) = OBSERVED_COUNT p"
  "predicted (set_residual p) = predicted p"
  "traffic_level (set_residual p) = traffic_level p"
  "OBSERVED_COUNT (set_traffic_level p) = OBSERVED_COUNT p"
  "predicted (set_traffic_level p) = predicted p"
  "residual (set_traffic_level p) = residual p"
  "percent_error (set_traffic_level p) = percent_error p"
  "OBSERVED_COUNT (set_midpoint g p) = OBSERVED_COUNT p"
  "predicted (set_midpoint g p) = predicted p"
  "residual (set_midpoint g p) = residual p"
  "percent_error (set_midpoint g p) = percent_error p"
  "traffic_level (set_midpoint g p) = traffic_level p"
  by (simp_all add: set_residual_def set_traffic_level_def set_midpoint_def Let_def
      split: option.splits prod.splits)


lemma set_traffic_level_eq:
  "traffic_level (set_traffic_level p) =
     (if truthy_num (predicted p)
      then Some (if the (predicted p) \<ge> 80 then ''high''
                 else if the (predicted p) \<ge> 40 then ''medium'' else ''low'')
      else traffic_level p)"
  by (simp add: set_traffic_level_def)

text \<open>The example segments, joined.\<close>

lemma example_lookup:
  "createPredictedLookup (Some example_predictions) ''A1'' =
     Some \<lparr> predicted_e = Some 80, predicted_alt_e = Some 0 \<rparr>"
  "createPredictedLookup (Some example_predictions) ''A2'' =
     Some \<lparr> predicted_e = Some 45, predicted_alt_e = Some 0 \<rparr>"
  "createPredictedLookup (Some example_predictions) ''A3'' =
     Some \<lparr> predicted_e = Some 0, predicted_alt_e = Some 0 \<rparr>"
  "createCounterLookup None = Map.empty"
  "createCensusLookup None = Inr Map.empty"
  by (simp_all add: lookup_defs example_predictions_def empty_prediction_row_def js_defs)



lemma example_join_A2:
  "example_join segment_A2 =
   empty_road_props\<lparr> SUBBLOCKKEY := Some ''A2'', predicted := Some 45,
      predicted_alt := Some 0, DEGREE := Some 0, BETWEEN := Some 0, CLOSENESS := Some 0,
      POPULATION := Some 0, MEDIAN_INCOME := Some 0, BIKE_COMMUTE := Some 0,
      EDUCATION := Some 0, RENT_PRICE := Some 0, MEDIAN_AGE := Some 0,
      traffic_level := Some ''medium'' \<rparr>"
  by (simp add: example_join_def join_defs js_defs example_lookup segment_A2_def
      empty_road_props_def Let_def)

lemma example_join_A3:
  "example_join segment_A3 =
   empty_road_props\<lparr> SUBBLOCKKEY := Some ''A3'', OBSERVED_COUNT := Some 75,
      predicted := Some 0, predicted_alt := Some 0, DEGREE := Some 0, BETWEEN := Some 0,
      CLOSENESS := Some 0, POPULATION := Some 0, MEDIAN_INCOME := Some 0,
      BIKE_COMMUTE := Some 0, EDUCATION := Some 0, RENT_PRICE := Some 0,
      MEDIAN_AGE := Some 0 \<rparr>"
  by (simp add: example_join_def join_defs js_defs example_lookup segment_A3_def
      empty_road_props_def Let_def)




text \<open>
  Claim C2, as the code has it. For a road segment with a truthy key, the join writes
  \<open>traffic_level\<close> exactly when the predicted value is present and different from 0:
  \<open>high\<close> from 80, \<open>medium\<close> from 40 and below 80, \<open>low\<close> otherwise. When the predicted
  value is missing or 0, the traffic level keeps the value the segment had before.
\<close>

theorem join_traffic_level:
  assumes "truthy_str (or_str (SUBBLOCKKEY (properties f)) (SUBBLOK (properties f)))"
  shows "(let p' = properties (processRoadFeature PL CL SL f)
          in traffic_level p' =
               (if truthy_num (predicted p')
                then Some (if the (predicted p') \<ge> 80 then ''high''
                           else if the (predicted p') \<ge> 40 then ''medium'' else ''low'')
                else traffic_level (properties f)))"
  using assms unfolding processRoadFeature_def Let_def
  by (simp add: set_traffic_level_eq)

text \<open>The scenario of the specification: predicted 45 gives \<open>medium\<close>.\<close>

theorem join_traffic_level_witness:
  "truthy_str (or_str (SUBBLOCKKEY (properties segment_A2)) (SUBBLOK (properties segment_A2))) \<and>
   predicted (example_join segment_A2) = Some 45 \<and>
   traffic_level (example_join segment_A2) = Some ''medium''"
proof -
  have k: "truthy_str (or_str (SUBBLOCKKEY (properties segment_A2))
                         (SUBBLOK (properties segment_A2)))"
    by (simp add: segment_A2_def empty_road_props_def js_defs)
  have "predicted (example_join segment_A2) = Some 45"
    by (simp add: example_join_A2)
  with k show ?thesis
    using join_traffic_level [OF k, of "createPredictedLookup (Some example_predictions)"
        "createCounterLookup None" Map.empty]
    by (simp add: Let_def example_join_def truthy_num_def)
qed

text \<open>Claim C2 as stated fails: a prediction row without a prediction gives the
  segment the predicted value 0, which is defined, and the join gives it no traffic
  level.\<close>

theorem join_traffic_level_counterexample:
  "predicted (example_join segment_A3) = Some 0 \<and>
   traffic_level (example_join segment_A3) = None"
  by (simp add: example_join_A3 empty_road_props_def)

subsection \<open>The volume categories\<close>

text \<open>
  Claim C5, as the code has it. A count is \<open>high\<close> exactly from 80, \<open>medium-high\<close>
  exactly from 50 and below 80, \<open>medium\<close> exactly from 30 and below 50, \<open>medium-low\<close>
  exactly from 10 and below 30, \<open>low\<close> exactly below 10; so 80 is high, 50 is
  medium-high, 30 is medium, 10 is medium-low and 9 is low. In the combined view (a
  view type that is neither \<open>observed\<close> nor \<open>predicted\<close>) the count of a segment is the
  observed count if it is present and not 0, else the predicted value if it is
  present and not 0, else 0.
\<close>

theorem volume_buckets:
  "(isInVolumeCategory c ''high'' \<longleftrightarrow> c \<ge> 80) \<and>
   (isInVolumeCategory c ''medium-high'' \<longleftrightarrow> 50 \<le> c \<and> c < 80) \<and>
   (isInVolumeCategory c ''medium'' \<longleftrightarrow> 30 \<le> c \<and> c < 50) \<and>
   (isInVolumeCategory c ''medium-low'' \<longleftrightarrow> 10 \<le> c \<and> c < 30) \<and>
   (isInVolumeCategory c ''low'' \<longleftrightarrow> c < 10) \<and>
   isInVolumeCategory 80 ''high'' \<and> isInVolumeCategory 50 ''medium-high'' \<and>
   isInVolumeCategory 30 ''medium'' \<and> isInVolumeCategory 10 ''medium-low'' \<and>
   isInVolumeCategory 9 ''low'' \<and>
   (viewType fl \<noteq> ''observed'' \<and> viewType fl \<noteq> ''predicted'' \<longrightarrow>
      getCountForFeature feature fl =
        (if truthy_num (OBSERVED_COUNT (properties feature))
         then the (OBSERVED_COUNT (properties feature))
         else if truthy_num (predicted (properties feature))
         then the (predicted (properties feature))
         else 0))"
  by (simp add: isInVolumeCategory_def getCountForFeature_def Let_def or_num_def)

theorem volume_buckets_witness:
  "viewType combined_filters \<noteq> ''observed'' \<and> viewType combined_filters \<noteq> ''predicted'' \<and>
   getCountForFeature segment_observed_only combined_filters = 35 \<and>
   isInVolumeCategory (getCountForFeature segment_observed_only combined_filters) ''medium''"
  using volume_buckets [of 35 combined_filters segment_observed_only]
  by (simp add: combined_filters_def segment_observed_only_def empty_road_props_def
      truthy_num_def)

text \<open>Claim C5 as stated fails in its last part: a segment whose observed count is
  present and 0 and whose predicted value is 85 has, in the combined view, the count
  85 and not its observed count; it is in the category \<open>high\<close> and not in \<open>low\<close>.\<close>

theorem volume_buckets_counterexample:
  "viewType combined_filters = ''combined'' \<and>
   OBSERVED_COUNT (properties segment_zero_observed) = Some 0 \<and>
   getCountForFeature segment_zero_observed combined_filters = 85 \<and>
   isInVolumeCategory (getCountForFeature segment_zero_observed combined_filters) ''high'' \<and>
   \<not> isInVolumeCategory (getCountForFeature segment_zero_observed combined_filters) ''low''"
  by (simp add: combined_filters_def segment_zero_observed_def empty_road_props_def
      getCountForFeature_def isInVolumeCategory_def Let_def or_num_def truthy_num_def)

subsection \<open>The temporal lookup\<close>

text \<open>The keys of the table \<^verbatim>\<open>loadTemporalPredictions\<close> builds are the keys of the
  valid rows.\<close>

lemma temporal_step_dom:
  "dom (temporal_step T row) =
     (if valid_temporal_row row then insert (row_key row) (dom T) else dom T)"
  by (auto simp: temporal_step_def valid_temporal_row_def Let_def split: if_splits)

lemma temporal_table_dom:
  "dom (foldl temporal_step T rows) =
     dom T \<union> set (map row_key (filter valid_temporal_row rows))"
  by (induction rows arbitrary: T) (auto simp: temporal_step_dom)

text \<open>The key of a row is made of digits or is \<^verbatim>\<open>"undefined"\<close>, so it names no
  property of \<^verbatim>\<open>Object.prototype\<close>: in \<open>temporal_step\<close> the table is read at its own
  keys only.\<close>

lemma digits_are_digits: "set (digits n) \<subseteq> set ''0123456789''"
proof (induction n rule: digits.induct)
  case (1 n)
  show ?case
  proof (cases "n < 10")
    case True
    then have "digits n = [''0123456789'' ! n]" by (simp add: digits.simps)
    moreover from True have "''0123456789'' ! n \<in> set ''0123456789''"
      by (intro nth_mem) simp
    ultimately show ?thesis by simp
  next
    case False
    then have d: "digits n = digits (n div 10) @ [''0123456789'' ! (n mod 10)]"
      by (subst digits.simps) simp
    have "''0123456789'' ! (n mod 10) \<in> set ''0123456789''"
      by (intro nth_mem) simp
    with 1 [OF False] show ?thesis by (simp add: d)
  qed
qed

lemma digits_not_inherited: "digits n \<notin> set Object_prototype"
proof
  assume "digits n \<in> set Object_prototype"
  then have "CHR ''c'' \<in> set (digits n) \<or> CHR ''s'' \<in> set (digits n) \<or>
             CHR ''t'' \<in> set (digits n) \<or> CHR ''_'' \<in> set (digits n) \<or>
             CHR ''v'' \<in> set (digits n)"
    by (auto simp: Object_prototype_def)
  with digits_are_digits [of n] show False by auto
qed

lemma row_key_not_inherited: "row_key row \<notin> set Object_prototype"
proof (cases "GEOID_t row")
  case None
  then show ?thesis by (simp add: row_key_def js_String_def Object_prototype_def)
next
  case (Some n)
  then show ?thesis by (simp add: row_key_def js_String_def digits_not_inherited)
qed

text \<open>What the lookup returns: the entry of a key the table has; \<^verbatim>\<open>null\<close> for a key
  the table does not have, when the key names no property of \<^verbatim>\<open>Object.prototype\<close>, as
  no number does; the inherited property when it names one.\<close>

lemma temporal_lookup_present:
  "temporalPredictions ds (js_String geoid) = Some table \<Longrightarrow>
     getTemporalPredictionsForSegment ds geoid = Table table"
  by (simp add: getTemporalPredictionsForSegment_def)

lemma temporal_lookup_absent:
  "temporalPredictions ds (js_String geoid) = None \<Longrightarrow>
     js_String geoid \<notin> set Object_prototype \<Longrightarrow>
     getTemporalPredictionsForSegment ds geoid = Null"
  by (simp add: getTemporalPredictionsForSegment_def)

lemma temporal_lookup_number:
  "temporalPredictions ds (js_String (KNum n)) = None \<Longrightarrow>
     getTemporalPredictionsForSegment ds (KNum n) = Null"
  by (rule temporal_lookup_absent) (simp_all add: js_String_def digits_not_inherited)

lemma temporal_lookup_prototype:
  "temporalPredictions ds (js_String geoid) = None \<Longrightarrow>
     js_String geoid \<in> set Object_prototype \<Longrightarrow>
     getTemporalPredictionsForSegment ds geoid = Inherited (js_String geoid)"
  by (simp add: getTemporalPredictionsForSegment_def)

lemma js_String_examples:
  "js_String (KNum 1001) = ''1001''"
  "js_String (KNum 1002) = ''1002''"
  "js_String (KNum 11001000100) = ''11001000100''"
  "js_String (KStr ''9999'') = ''9999''"
  "js_String (KStr ''constructor'') = ''constructor''"
  "js_String (KStr ''__proto__'') = ''__proto__''"
  "js_String Undefined = ''undefined''"
  by (simp_all add: js_String_def digits.simps)

lemma example_temporal_dom:
  "dom (temporalPredictions example_temporal_state) = {''1001''}"
proof -
  have "dom (temporalPredictions example_temporal_state) =
          set (map row_key (filter valid_temporal_row example_temporal_rows))"
    by (simp add: example_temporal_state_def temporal_table_dom)
  also have "\<dots> = {''1001''}"
    by (simp add: example_temporal_rows_def valid_temporal_row_def row_key_def
        js_String_examples)
  finally show ?thesis .
qed

lemma example_temporal_table:
  "temporalPredictions example_temporal_state ''1001'' = Some example_day_table"
  by (simp add: example_temporal_state_def example_temporal_rows_def temporal_step_def
      Let_def row_key_def js_String_examples set_index_def example_day_table_def)

lemma example_temporal_absent:
  "temporalPredictions example_temporal_state ''9999'' = None"
  "temporalPredictions example_temporal_state ''constructor'' = None"
  "temporalPredictions example_temporal_state ''__proto__'' = None"
proof -
  have "''9999'' \<notin> dom (temporalPredictions example_temporal_state)"
    and "''constructor'' \<notin> dom (temporalPredictions example_temporal_state)"
    and "''__proto__'' \<notin> dom (temporalPredictions example_temporal_state)"
    by (simp_all only: example_temporal_dom) simp_all
  then show "temporalPredictions example_temporal_state ''9999'' = None"
    and "temporalPredictions example_temporal_state ''constructor'' = None"
    and "temporalPredictions example_temporal_state ''__proto__'' = None"
    by (simp_all only: domIff) simp_all
qed

lemma example_temporal_lookups:
  "getTemporalPredictionsForSegment example_temporal_state (KNum 1001) = Table example_day_table"
  "getTemporalPredictionsForSegment example_temporal_state (KStr ''9999'') = Null"
  by (simp_all add: getTemporalPredictionsForSegment_def js_String_examples
      example_temporal_table example_temporal_absent Object_prototype_def)

text \<open>
  Claim C7 does not hold of the code. The table built from the example rows has the
  one key \<open>1001\<close>. The keys \<open>constructor\<close> and \<open>__proto__\<close> are absent from it, and for
  them \<open>getTemporalPredictionsForSegment\<close> returns what the table inherits from
  \<^verbatim>\<open>Object.prototype\<close> under these names, a function and the prototype object, and
  not \<^verbatim>\<open>null\<close>. The comment of the function promises \<^verbatim>\<open>null\<close> for a segment that is
  not found, and the function does return \<^verbatim>\<open>null\<close> for every absent key that names
  no property of \<^verbatim>\<open>Object.prototype\<close>, so for every number
  (\<open>temporal_lookup_absent\<close>, \<open>temporal_lookup_number\<close>).
\<close>

theorem temporal_lookup_inherited:
  "dom (temporalPredictions example_temporal_state) = {''1001''} \<and>
   temporalPredictions example_temporal_state (js_String (KStr ''constructor'')) = None \<and>
   getTemporalPredictionsForSegment example_temporal_state (KStr ''constructor'') =
     Inherited ''constructor'' \<and>
   getTemporalPredictionsForSegment example_temporal_state (KStr ''constructor'') \<noteq> Null \<and>
   temporalPredictions example_temporal_state (js_String (KStr ''__proto__'')) = None \<and>
   getTemporalPredictionsForSegment example_temporal_state (KStr ''__proto__'') =
     Inherited ''__proto__'' \<and>
   getTemporalPredictionsForSegment example_temporal_state (KStr ''__proto__'') \<noteq> Null"
  by (simp add: getTemporalPredictionsForSegment_def js_String_examples example_temporal_dom
      example_temporal_absent Object_prototype_def)

subsection \<open>The export\<close>

text \<open>
  Claim C3 does not hold of the code: \<open>exportToCSV\<close> returns the same fixed text,
  which has no comma, for two different filters; it reads neither the filters nor
  the data.
\<close>

theorem exportToCSV_ignores_filters:
  "exportToCSV combined_filters = ''Sample CSV data'' \<and>
   exportToCSV downtown_filters = ''Sample CSV data'' \<and>
   combined_filters \<noteq> downtown_filters"
  by (simp add: exportToCSV_def combined_filters_def downtown_filters_def)

subsection \<open>The statistics\<close>

text \<open>What each part of the callback of the first loop adds to the accumulators.\<close>

lemma count_frames [simp]:
  "totalRoadLength (count_observed ar p t) = totalRoadLength t"
  "bikePathLength (count_observed ar p t) = bikePathLength t"
  "totalIncome (count_observed ar p t) = totalIncome t"
  "incomeCount (count_observed ar p t) = incomeCount t"
  "totalPopulation (count_observed ar p t) = totalPopulation t"
  "populationCount (count_observed ar p t) = populationCount t"
  "totalBikeCommute (count_observed ar p t) = totalBikeCommute t"
  "bikeCommuteCount (count_observed ar p t) = bikeCommuteCount t"
  "totalEducation (count_observed ar p t) = totalEducation t"
  "educationCount (count_observed ar p t) = educationCount t"
  "totalRoadLength (count_predicted ar p t) = totalRoadLength t"
  "bikePathLength (count_predicted ar p t) = bikePathLength t"
  "totalIncome (count_predicted ar p t) = totalIncome t"
  "incomeCount (count_predicted ar p t) = incomeCount t"
  "totalPopulation (count_predicted ar p t) = totalPopulation t"
  "populationCount (count_predicted ar p t) = populationCount t"
  "totalBikeCommute (count_predicted ar p t) = totalBikeCommute t"
  "bikeCommuteCount (count_predicted ar p t) = bikeCommuteCount t"
  "totalEducation (count_predicted ar p t) = totalEducation t"
  "educationCount (count_predicted ar p t) = educationCount t"
  "totalRoadLength (count_neighborhood ar p t) = totalRoadLength t"
  "bikePathLength (count_neighborhood ar p t) = bikePathLength t"
  "totalIncome (count_neighborhood ar p t) = totalIncome t"
  "incomeCount (count_neighborhood ar p t) = incomeCount t"
  "totalPopulation (count_neighborhood ar p t) = totalPopulation t"
  "populationCount (count_neighborhood ar p t) = populationCount t"
  "totalBikeCommute (count_neighborhood ar p t) = totalBikeCommute t"
  "bikeCommuteCount (count_neighborhood ar p t) = bikeCommuteCount t"
  "totalEducation (count_neighborhood ar p t) = totalEducation t"
  "educationCount (count_neighborhood ar p t) = educationCount t"
  by (simp_all add: count_observed_def count_predicted_def count_neighborhood_def)

lemma count_bike_lane_frames [simp]:
  "totalIncome (count_bike_lane ar p t) = totalIncome t"
  "incomeCount (count_bike_lane ar p t) = incomeCount t"
  "totalPopulation (count_bike_lane ar p t) = totalPopulation t"
  "populationCount (count_bike_lane ar p t) = populationCount t"
  "totalBikeCommute (count_bike_lane ar p t) = totalBikeCommute t"
  "bikeCommuteCount (count_bike_lane ar p t) = bikeCommuteCount t"
  "totalEducation (count_bike_lane ar p t) = totalEducation t"
  "educationCount (count_bike_lane ar p t) = educationCount t"
  by (simp_all add: count_bike_lane_def Let_def)

lemma count_census_frames [simp]:
  "totalRoadLength (count_census ar p t) = totalRoadLength t"
  "bikePathLength (count_census ar p t) = bikePathLength t"
  by (simp_all add: count_census_def Let_def)

lemma the_or_zero: "truthy_num v \<Longrightarrow> the (or_num v (Some 0)) = the v"
  by (simp add: or_num_def)

lemma count_bike_lane_length:
  "totalRoadLength (count_bike_lane ar p t) =
     (if truthy_num (length_of p) then js_add ar (totalRoadLength t) (the (length_of p))
      else totalRoadLength t)"
  by (simp add: count_bike_lane_def length_of_def Let_def the_or_zero)

lemma count_bike_lane_path:
  "bikePathLength (count_bike_lane ar (properties f) t) =
     (if truthy_num (length_of (properties f)) \<and> has_bike_lane f
      then js_add ar (bikePathLength t) (the (length_of (properties f)))
      else bikePathLength t)"
  by (auto simp: count_bike_lane_def length_of_def Let_def the_or_zero has_bike_lane_def
      bikeFacility_of_def or_str_def truthy_str_def split: option.splits)

lemma count_census_income:
  "totalIncome (count_census ar p t) =
     (if truthy_num (income_of p) then js_add ar (totalIncome t) (the (income_of p))
      else totalIncome t)"
  "incomeCount (count_census ar p t) = incomeCount t + (if truthy_num (income_of p) then 1 else 0)"
  by (simp_all add: count_census_def income_of_def Let_def the_or_zero)

lemma count_census_population:
  "totalPopulation (count_census ar p t) =
     (if truthy_num (population_of p) then js_add ar (totalPopulation t) (the (population_of p))
      else totalPopulation t)"
  "populationCount (count_census ar p t) =
     populationCount t + (if truthy_num (population_of p) then 1 else 0)"
  by (simp_all add: count_census_def population_of_def Let_def the_or_zero)

lemma count_census_bike_commute:
  "totalBikeCommute (count_census ar p t) =
     (if truthy_num (bike_commute_of p)
      then js_add ar (totalBikeCommute t) (the (bike_commute_of p))
      else totalBikeCommute t)"
  "bikeCommuteCount (count_census ar p t) =
     bikeCommuteCount t + (if truthy_num (bike_commute_of p) then 1 else 0)"
  by (simp_all add: count_census_def bike_commute_of_def Let_def the_or_zero)

lemma count_census_education:
  "totalEducation (count_census ar p t) =
     (if truthy_num (education_of p) then js_add ar (totalEducation t) (the (education_of p))
      else totalEducation t)"
  "educationCount (count_census ar p t) =
     educationCount t + (if truthy_num (education_of p) then 1 else 0)"
  by (simp_all add: count_census_def education_of_def Let_def the_or_zero)

lemmas stats_step_simps = stats_step_def Let_def count_bike_lane_length count_bike_lane_path
  count_census_income count_census_population count_census_bike_commute count_census_education

text \<open>The accumulators after the loop: running sums over the segments that count.\<close>

lemma foldl_lengths:
  "totalRoadLength (foldl (stats_step ar) t fs) =
     foldl (js_add ar) (totalRoadLength t) (truthy_values length_of fs)"
  "bikePathLength (foldl (stats_step ar) t fs) =
     foldl (js_add ar) (bikePathLength t) (truthy_values length_of (filter has_bike_lane fs))"
  by (induction fs arbitrary: t) (simp_all add: stats_step_simps truthy_values_def)

lemma foldl_income:
  "totalIncome (foldl (stats_step ar) t fs) =
     foldl (js_add ar) (totalIncome t) (truthy_values income_of fs)"
  "incomeCount (foldl (stats_step ar) t fs) = incomeCount t + length (truthy_values income_of fs)"
  by (induction fs arbitrary: t) (simp_all add: stats_step_simps truthy_values_def)

lemma foldl_population:
  "totalPopulation (foldl (stats_step ar) t fs) =
     foldl (js_add ar) (totalPopulation t) (truthy_values population_of fs)"
  "populationCount (foldl (stats_step ar) t fs) =
     populationCount t + length (truthy_values population_of fs)"
  by (induction fs arbitrary: t) (simp_all add: stats_step_simps truthy_values_def)

lemma foldl_bike_commute:
  "totalBikeCommute (foldl (stats_step ar) t fs) =
     foldl (js_add ar) (totalBikeCommute t) (truthy_values bike_commute_of fs)"
  "bikeCommuteCount (foldl (stats_step ar) t fs) =
     bikeCommuteCount t + length (truthy_values bike_commute_of fs)"
  by (induction fs arbitrary: t) (simp_all add: stats_step_simps truthy_values_def)

lemma foldl_education:
  "totalEducation (foldl (stats_step ar) t fs) =
     foldl (js_add ar) (totalEducation t) (truthy_values education_of fs)"
  "educationCount (foldl (stats_step ar) t fs) =
     educationCount t + length (truthy_values education_of fs)"
  by (induction fs arbitrary: t) (simp_all add: stats_step_simps truthy_values_def)

lemma statistics_of_coverage: "bikeLaneCoverage (statistics_of ar fs) = coverage_of ar fs"
  by (simp add: statistics_of_def Let_def foldl_lengths initial_totals_def coverage_of_def
      js_sum_def)

lemma statistics_of_means:
  "averageIncome (statistics_of ar fs) = rounded_mean ar (truthy_values income_of fs)"
  "averagePopulation (statistics_of ar fs) = rounded_mean ar (truthy_values population_of fs)"
  "averageBikeCommute (statistics_of ar fs) = rounded_mean ar (truthy_values bike_commute_of fs)"
  "averageEducation (statistics_of ar fs) = rounded_mean ar (truthy_values education_of fs)"
  by (simp_all add: statistics_of_def Let_def foldl_income foldl_population foldl_bike_commute
      foldl_education initial_totals_def rounded_mean_def js_sum_def)

subsection \<open>The arithmetic of doubles\<close>

text \<open>\<open>binade x\<close> is the exponent of \<open>x\<close>, \<open>round_even\<close> rounds to a nearest integer, a
  tie to the even one, and \<open>double_round x\<close> is within half a unit in the last place
  of \<open>x\<close>.\<close>

lemma pow2_nat: "pow2 (int k) = 2 ^ k"
  by (simp add: pow2_def)

lemma pow2_neg: "pow2 (- int k) = 1 / 2 ^ k"
  by (cases k) (simp_all add: pow2_def nat_add_distrib)

lemma binade_bounds:
  assumes "0 < x"
  shows "pow2 (binade x) \<le> x" "x < pow2 (binade x + 1)"
proof -
  show "pow2 (binade x) \<le> x"
  proof (cases "1 \<le> x")
    case True
    let ?n = "nat \<lfloor>x\<rfloor>"
    let ?k = "floorlog 2 ?n"
    from True have n: "0 < ?n" by simp
    from floorlog_bounds [of ?n 2] n have b: "2 ^ (?k - 1) \<le> ?n" "?n < 2 ^ ?k" by simp_all
    from n have k: "0 < ?k" by (simp add: floorlog_def)
    have "pow2 (binade x) = 2 ^ (?k - 1)"
      using True k pow2_nat [of "?k - 1"] by (simp add: binade_def of_nat_diff)
    also have "\<dots> \<le> of_nat ?n" using b(1)
      by (metis of_nat_le_iff of_nat_numeral of_nat_power)
    also have "\<dots> \<le> x" using True by simp
    finally show ?thesis .
  next
    case False
    let ?y = "1 / x"
    let ?m = "nat (- \<lfloor>- ?y\<rfloor> - 1)"
    let ?k = "floorlog 2 ?m"
    from False assms have y: "1 < ?y" by simp
    have c: "- \<lfloor>- ?y\<rfloor> = \<lceil>?y\<rceil>" by (simp add: ceiling_def)
    from y have "1 < \<lceil>?y\<rceil>" by (simp only: less_ceiling_iff of_int_1)
    then have m: "0 < ?m" and mc: "int ?m = \<lceil>?y\<rceil> - 1"
      by (simp_all only: c)
    from floorlog_bounds [of ?m 2] m have b: "2 ^ (?k - 1) \<le> ?m" "?m < 2 ^ ?k" by simp_all
    have "?y \<le> of_int \<lceil>?y\<rceil>" by simp
    also have "\<dots> = of_nat ?m + 1" using mc by (metis add.commute diff_add_cancel of_int_1 of_int_add of_int_of_nat_eq)
    also have "\<dots> \<le> 2 ^ ?k"
    proof -
      from b(2) have "Suc ?m \<le> 2 ^ ?k" by (rule Suc_leI)
      then have "(of_nat (Suc ?m) :: rat) \<le> of_nat (2 ^ ?k)" by (simp only: of_nat_le_iff)
      then show ?thesis by (simp only: of_nat_Suc of_nat_power of_nat_numeral add.commute)
    qed
    finally have "?y \<le> 2 ^ ?k" .
    then have "1 / 2 ^ ?k \<le> x" using assms
      by (simp add: field_simps)
    moreover have "pow2 (binade x) = 1 / 2 ^ ?k"
      using False pow2_neg [of ?k] by (simp add: binade_def)
    ultimately show ?thesis by simp
  qed
  show "x < pow2 (binade x + 1)"
  proof (cases "1 \<le> x")
    case True
    let ?n = "nat \<lfloor>x\<rfloor>"
    let ?k = "floorlog 2 ?n"
    from True have n: "0 < ?n" by simp
    from floorlog_bounds [of ?n 2] n have b: "2 ^ (?k - 1) \<le> ?n" "?n < 2 ^ ?k" by simp_all
    from b(2) have "Suc ?n \<le> 2 ^ ?k" by (rule Suc_leI)
    then have le: "(of_nat (Suc ?n) :: rat) \<le> of_nat (2 ^ ?k)" by (simp only: of_nat_le_iff)
    have "x < of_int \<lfloor>x\<rfloor> + 1" by linarith
    also have "\<dots> = of_nat (Suc ?n)" using True by simp
    also note le
    finally have "x < 2 ^ ?k" by (simp only: of_nat_power of_nat_numeral)
    moreover have "pow2 (binade x + 1) = 2 ^ ?k"
      using True pow2_nat [of ?k] by (simp add: binade_def)
    ultimately show ?thesis by simp
  next
    case False
    let ?y = "1 / x"
    let ?m = "nat (- \<lfloor>- ?y\<rfloor> - 1)"
    let ?k = "floorlog 2 ?m"
    from False assms have y: "1 < ?y" by simp
    have c: "- \<lfloor>- ?y\<rfloor> = \<lceil>?y\<rceil>" by (simp add: ceiling_def)
    from y have "1 < \<lceil>?y\<rceil>" by (simp only: less_ceiling_iff of_int_1)
    then have m: "0 < ?m" and mc: "int ?m = \<lceil>?y\<rceil> - 1"
      by (simp_all only: c)
    from floorlog_bounds [of ?m 2] m have b: "2 ^ (?k - 1) \<le> ?m" "?m < 2 ^ ?k" by simp_all
    from m have k: "0 < ?k" by (simp add: floorlog_def)
    have "(2::rat) ^ (?k - 1) \<le> of_nat ?m" using b(1)
      by (metis of_nat_le_iff of_nat_numeral of_nat_power)
    also have "\<dots> = of_int (\<lceil>?y\<rceil> - 1)" using mc by (metis of_int_of_nat_eq)
    also have "\<dots> < ?y" by linarith
    finally have "2 ^ (?k - 1) < ?y" .
    then have "x < 1 / 2 ^ (?k - 1)" using assms by (simp add: field_simps)
    moreover have "pow2 (binade x + 1) = 1 / 2 ^ (?k - 1)"
    proof -
      have "binade x + 1 = - int (?k - 1)" using False k by (simp add: binade_def of_nat_diff)
      then show ?thesis using pow2_neg [of "?k - 1"] by simp
    qed
    ultimately show ?thesis by simp
  qed
qed

lemma round_even_nearest: "\<bar>of_int (round_even x) - x\<bar> \<le> 1 / 2"
proof -
  have f: "of_int \<lfloor>x\<rfloor> \<le> x" "x < of_int \<lfloor>x\<rfloor> + 1" by linarith+
  show ?thesis
  proof (cases "x - of_int \<lfloor>x\<rfloor> < 1 / 2")
    case True
    with f show ?thesis by (simp add: round_even_def Let_def abs_le_iff)
  next
    case False
    with f show ?thesis by (auto simp: round_even_def Let_def abs_le_iff)
  qed
qed

lemma round_even_tie: "x - of_int \<lfloor>x\<rfloor> = 1 / 2 \<Longrightarrow> even (round_even x)"
  by (simp add: round_even_def Let_def)

lemma pow2_pos: "0 < pow2 e"
  by (simp add: pow2_def)

lemma double_round_nearest:
  "\<bar>double_round x - x\<bar> \<le> pow2 (max (binade \<bar>x\<bar>) (- 1022) - 52) / 2"
proof (cases "x = 0")
  case True
  then show ?thesis using pow2_pos [of "max (binade \<bar>x\<bar>) (- 1022) - 52"]
    by (simp add: double_round_def)
next
  case False
  let ?u = "pow2 (max (binade \<bar>x\<bar>) (- 1022) - 52)"
  have u: "0 < ?u" by (rule pow2_pos)
  have "double_round x - x = (of_int (round_even (x / ?u)) - x / ?u) * ?u"
    using False u by (simp add: double_round_def Let_def algebra_simps)
  then have "\<bar>double_round x - x\<bar> = \<bar>of_int (round_even (x / ?u)) - x / ?u\<bar> * ?u"
    using u by (simp add: abs_mult)
  also have "\<dots> \<le> 1 / 2 * ?u"
    using round_even_nearest [of "x / ?u"] u by (intro mult_right_mono) simp_all
  finally show ?thesis by simp
qed

text \<open>Evaluating the arithmetic of doubles on numerals.\<close>

lemma floor_rat_numeral:
  "\<lfloor>(numeral a::rat) / numeral b\<rfloor> = numeral a div numeral b"
  "\<lfloor>- ((numeral a::rat) / numeral b)\<rfloor> = - numeral a div numeral b"
  using floor_divide_of_int_eq [of "numeral a" "numeral b", where ?'a = rat]
    floor_divide_of_int_eq [of "- numeral a" "numeral b", where ?'a = rat]
  by simp_all

lemmas double_eval = double_def double_round_def binade_def round_even_def pow2_def Let_def
  compute_floorlog floor_rat_numeral

lemma double_examples:
  "js_add double 0 23 = 23" "js_add double 23 17 = 40"
  "js_div double 23 40 = 2589569785738035 / 4503599627370496"
  "js_mul double (2589569785738035 / 4503599627370496) 100 =
     8092405580431359 / 140737488355328"
  "js_mul double 100 23 = 2300" "js_div double 2300 40 = 115 / 2"
  "js_add double 0 120 = 120" "js_div double 120 120 = 1" "js_mul double 1 100 = 100"
  "js_mul double 100 0 = 0" "js_div double 0 120 = 0"
  "js_add double 0 50000 = 50000" "js_add double 50000 70000 = 120000"
  "js_div double 120000 2 = 60000"
  by (simp_all add: double_eval)

subsection \<open>Allocation and copying\<close>

lemma same_objects_iff:
  "same_objects h h' \<longleftrightarrow>
     (\<forall>a < next_addr h. feature_at h' a = feature_at h a \<and> collection_at h' a = collection_at h a)"
  by (auto simp: same_objects_def list_all_iff)

lemma alloc_feature_simps [simp]:
  "fst (alloc_feature f h) = next_addr h"
  "next_addr (snd (alloc_feature f h)) = Suc (next_addr h)"
  "collection_at (snd (alloc_feature f h)) = collection_at h"
  "feature_at (snd (alloc_feature f h)) = (feature_at h)(next_addr h := f)"
  by (simp_all add: alloc_feature_def)

lemma alloc_features_Cons [simp]:
  "alloc_features (f # fs) h =
     (next_addr h # fst (alloc_features fs (snd (alloc_feature f h))),
      snd (alloc_features fs (snd (alloc_feature f h))))"
  by (simp add: split_def Let_def)

declare alloc_features.simps(2) [simp del]

lemma alloc_features_next [simp]:
  "next_addr (snd (alloc_features fs h)) = next_addr h + length fs"
  by (induction fs arbitrary: h) simp_all

lemma alloc_features_collections [simp]:
  "collection_at (snd (alloc_features fs h)) = collection_at h"
  by (induction fs arbitrary: h) simp_all

lemma alloc_features_old [simp]:
  "a < next_addr h \<Longrightarrow> feature_at (snd (alloc_features fs h)) a = feature_at h a"
  by (induction fs arbitrary: h) simp_all

lemma alloc_features_addrs:
  "fst (alloc_features fs h) = [next_addr h ..< next_addr h + length fs]"
proof (induction fs arbitrary: h)
  case Nil
  show ?case by simp
next
  case (Cons f fs)
  have "[next_addr h ..< next_addr h + length (f # fs)] =
          next_addr h # [Suc (next_addr h) ..< Suc (next_addr h) + length fs]"
    by (simp add: upt_conv_Cons del: upt_Suc)
  with Cons show ?case by simp
qed

lemma alloc_features_contents:
  "map (feature_at (snd (alloc_features fs h))) (fst (alloc_features fs h)) = fs"
  by (induction fs arbitrary: h) simp_all

lemma alloc_collection_next:
  "next_addr (snd (alloc_collection d h)) = Suc (next_addr h + (case features d of None \<Rightarrow> 0 | Some fs \<Rightarrow> length fs))"
  by (simp add: alloc_collection_def split_def Let_def split: option.splits)

lemma alloc_collection_fst:
  "fst (alloc_collection d h) = next_addr h + (case features d of None \<Rightarrow> 0 | Some fs \<Rightarrow> length fs)"
  by (simp add: alloc_collection_def split_def Let_def split: option.splits)

lemma alloc_collection_same: "same_objects h (snd (alloc_collection d h))"
  by (simp add: same_objects_iff alloc_collection_def split_def Let_def split: option.splits)

lemma alloc_collection_at:
  "collection_at (snd (alloc_collection d h)) (fst (alloc_collection d h)) =
     map_option (\<lambda>fs. [next_addr h ..< next_addr h + length fs]) (features d)"
  by (simp add: alloc_collection_def split_def Let_def alloc_features_addrs split: option.splits)

lemma alloc_collection_features:
  "features_of (snd (alloc_collection d h)) (fst (alloc_collection d h)) = features d"
proof (cases "features d")
  case None
  then show ?thesis by (simp add: features_of_def alloc_collection_def)
next
  case (Some fs)
  have "map (feature_at (snd (alloc_features fs h))) (fst (alloc_features fs h)) = fs"
    by (rule alloc_features_contents)
  with Some show ?thesis
    by (simp add: features_of_def alloc_collection_def split_def Let_def)
qed

lemma alloc_collection_feature_at:
  "feature_at (snd (alloc_collection d h)) =
     (case features d of None \<Rightarrow> feature_at h | Some fs \<Rightarrow> feature_at (snd (alloc_features fs h)))"
  by (simp add: alloc_collection_def split_def Let_def split: option.splits)

lemma json_copy_fst:
  "fst (json_copy r h) =
     next_addr h + (case collection_at h r of None \<Rightarrow> 0 | Some as \<Rightarrow> length as)"
  by (simp add: json_copy_def alloc_collection_fst features_of_def split: option.splits)

lemma json_copy_next:
  "next_addr (snd (json_copy r h)) = Suc (fst (json_copy r h))"
  by (simp add: json_copy_def alloc_collection_fst alloc_collection_next)

lemma json_copy_at:
  "collection_at (snd (json_copy r h)) (fst (json_copy r h)) =
     map_option (\<lambda>as. [next_addr h ..< next_addr h + length as]) (collection_at h r)"
  by (simp add: json_copy_def alloc_collection_at features_of_def option.map_comp comp_def)

lemma json_copy_same: "same_objects h (snd (json_copy r h))"
  by (simp add: json_copy_def alloc_collection_same)

lemma json_copy_features:
  "features_of (snd (json_copy r h)) (fst (json_copy r h)) = features_of h r"
  using alloc_collection_features [of "\<lparr> features = features_of h r \<rparr>" h]
  by (simp add: json_copy_def)

lemma filtered_copy_None:
  "collection_at h r = None \<Longrightarrow>
     filtered_copy passes r h = (Inl TypeError, snd (json_copy r h))"
  using json_copy_at [of r h] by (simp add: filtered_copy_def split_def Let_def)

lemma filtered_copy_Some:
  "collection_at h r = Some as \<Longrightarrow>
     filtered_copy passes r h =
       (Inr (Some (fst (json_copy r h))),
        (snd (json_copy r h))
          \<lparr> collection_at :=
              (collection_at (snd (json_copy r h)))
                (fst (json_copy r h) :=
                   Some (filter (\<lambda>a. passes (feature_at (snd (json_copy r h)) a))
                           [next_addr h ..< next_addr h + length as])) \<rparr>)"
  using json_copy_at [of r h] by (simp add: filtered_copy_def split_def Let_def)

lemma filtered_copy_same: "same_objects h (snd (filtered_copy passes r h))"
proof (cases "collection_at h r")
  case None
  then show ?thesis by (simp add: filtered_copy_None json_copy_same)
next
  case (Some as)
  have "fst (json_copy r h) \<ge> next_addr h" by (simp add: json_copy_fst)
  with json_copy_same [of h r] show ?thesis
    by (auto simp: filtered_copy_Some [OF Some] same_objects_iff)
qed

lemma filtered_copy_fresh:
  assumes "fst (filtered_copy passes r h) = Inr (Some c)"
  shows "fresh_copy h (snd (filtered_copy passes r h)) c"
proof (cases "collection_at h r")
  case None
  with assms show ?thesis by (simp add: filtered_copy_None)
next
  case (Some as)
  with assms have c: "c = next_addr h + length as"
    by (simp add: filtered_copy_Some json_copy_fst)
  then have "fst (json_copy r h) = c" using Some by (simp add: json_copy_fst)
  then show ?thesis
    using c json_copy_next [of r h]
    by (auto simp: filtered_copy_Some [OF Some] fresh_copy_def fresh_in_def list_all_iff)
qed

lemma filtered_copy_features:
  assumes "fst (filtered_copy passes r h) = Inr (Some c)"
  shows "features_of (snd (filtered_copy passes r h)) c =
           map_option (filter passes) (features_of h r)"
proof (cases "collection_at h r")
  case None
  with assms show ?thesis by (simp add: filtered_copy_None)
next
  case (Some as)
  let ?h1 = "snd (json_copy r h)"
  let ?bs = "[next_addr h ..< next_addr h + length as]"
  from assms Some have c: "fst (json_copy r h) = c"
    by (simp add: filtered_copy_Some)
  have "features_of ?h1 c = features_of h r"
    using json_copy_features [of r h] c by simp
  moreover have "collection_at ?h1 c = Some ?bs"
    using json_copy_at [of r h] c Some by simp
  ultimately have copy: "map (feature_at ?h1) ?bs = map (feature_at h) as"
    using Some by (simp add: features_of_def)
  have "features_of (snd (filtered_copy passes r h)) c =
          Some (map (feature_at ?h1) (filter (\<lambda>a. passes (feature_at ?h1 a)) ?bs))"
    using c by (simp add: filtered_copy_Some [OF Some] features_of_def)
  also have "map (feature_at ?h1) (filter (\<lambda>a. passes (feature_at ?h1 a)) ?bs) =
               filter passes (map (feature_at ?h1) ?bs)"
    by (simp add: filter_map comp_def)
  finally show ?thesis using copy Some by (simp add: features_of_def)
qed

lemma same_objects_features:
  assumes "same_objects h h'" "allocated h (Some r)"
  shows "features_of h' r = features_of h r"
proof -
  from assms have r: "r < next_addr h" by (simp add: allocated_def)
  with assms(1) have c: "collection_at h' r = collection_at h r"
    by (simp add: same_objects_iff)
  show ?thesis
  proof (cases "collection_at h r")
    case None
    with c show ?thesis by (simp add: features_of_def)
  next
    case (Some as)
    with assms(2) have "\<forall>a\<in>set as. a < next_addr h"
      by (simp add: allocated_def list_all_iff)
    with assms(1) have "map (feature_at h') as = map (feature_at h) as"
      by (simp add: same_objects_iff)
    with c Some show ?thesis by (simp add: features_of_def)
  qed
qed

lemma same_objects_refl [simp]: "same_objects h h"
  by (simp add: same_objects_iff)

lemma alloc_collection_allocated:
  "allocated (snd (alloc_collection d h)) (Some (fst (alloc_collection d h)))"
  using alloc_collection_at [of d h]
  by (auto simp: allocated_def alloc_collection_fst alloc_collection_next list_all_iff
      split: option.splits)

subsection \<open>The filters and the store\<close>

lemma getFilteredRoadData_eq:
  "getFilteredRoadData fl w =
     (case roadNetworkData (dataState w) of
        None \<Rightarrow> (Inr None, w)
      | Some r \<Rightarrow> (fst (filtered_copy (road_passes fl) r (road_heap w)),
                   w\<lparr> road_heap := snd (filtered_copy (road_passes fl) r (road_heap w)) \<rparr>))"
  by (simp add: getFilteredRoadData_def split_def Let_def split: option.splits)

lemma getFilteredCounterData_eq:
  "getFilteredCounterData fl w =
     (case counterPointsData (dataState w) of
        None \<Rightarrow> (Inr None, w)
      | Some r \<Rightarrow> (fst (filtered_copy (counter_passes fl) r (counter_heap w)),
                   w\<lparr> counter_heap := snd (filtered_copy (counter_passes fl) r (counter_heap w)) \<rparr>))"
  by (simp add: getFilteredCounterData_def split_def Let_def split: option.splits)

lemma road_filter_frame:
  "dataState (snd (getFilteredRoadData fl w)) = dataState w"
  "counter_heap (snd (getFilteredRoadData fl w)) = counter_heap w"
  "draws (snd (getFilteredRoadData fl w)) = draws w"
  "same_objects (road_heap w) (road_heap (snd (getFilteredRoadData fl w)))"
  by (simp_all add: getFilteredRoadData_eq filtered_copy_same split: option.splits)

lemma counter_filter_frame:
  "dataState (snd (getFilteredCounterData fl w)) = dataState w"
  "road_heap (snd (getFilteredCounterData fl w)) = road_heap w"
  "draws (snd (getFilteredCounterData fl w)) = draws w"
  "same_objects (counter_heap w) (counter_heap (snd (getFilteredCounterData fl w)))"
  by (simp_all add: getFilteredCounterData_eq filtered_copy_same split: option.splits)

lemma road_filter_stored:
  assumes "allocated (road_heap w) (roadNetworkData (dataState w))"
  shows "stored_road_features (snd (getFilteredRoadData fl w)) = stored_road_features w"
proof (cases "roadNetworkData (dataState w)")
  case None
  then show ?thesis by (simp add: getFilteredRoadData_eq)
next
  case (Some r)
  with assms have "features_of (road_heap (snd (getFilteredRoadData fl w))) r =
                     features_of (road_heap w) r"
    using same_objects_features [OF road_filter_frame(4)] by simp
  with Some show ?thesis
    by (simp add: stored_road_features_def road_filter_frame(1))
qed

lemma counter_filter_stored:
  assumes "allocated (counter_heap w) (counterPointsData (dataState w))"
  shows "stored_counter_features (snd (getFilteredCounterData fl w)) = stored_counter_features w"
proof (cases "counterPointsData (dataState w)")
  case None
  then show ?thesis by (simp add: getFilteredCounterData_eq)
next
  case (Some r)
  with assms have "features_of (counter_heap (snd (getFilteredCounterData fl w))) r =
                     features_of (counter_heap w) r"
    using same_objects_features [OF counter_filter_frame(4)] by simp
  with Some show ?thesis
    by (simp add: stored_counter_features_def counter_filter_frame(1))
qed

lemma road_filter_copy:
  "copy_of (road_heap w) (road_heap (snd (getFilteredRoadData fl w)))
     (filter (road_passes fl) (stored_road_features w)) (fst (getFilteredRoadData fl w))"
proof (cases "roadNetworkData (dataState w)")
  case None
  then show ?thesis by (simp add: getFilteredRoadData_eq copy_of_def)
next
  case (Some r)
  show ?thesis
  proof (cases "fst (filtered_copy (road_passes fl) r (road_heap w))")
    case (Inl e)
    with Some show ?thesis by (simp add: getFilteredRoadData_eq copy_of_def)
  next
    case (Inr res)
    show ?thesis
    proof (cases res)
      case None
      with Inr Some show ?thesis by (simp add: getFilteredRoadData_eq copy_of_def)
    next
      case (Some c)
      with Inr have c: "fst (filtered_copy (road_passes fl) r (road_heap w)) = Inr (Some c)"
        by simp
      from filtered_copy_features [OF c]
      have "features_of (snd (filtered_copy (road_passes fl) r (road_heap w))) c =
              Some (filter (road_passes fl) (stored_road_features w))"
        using c \<open>roadNetworkData (dataState w) = Some r\<close>
        by (cases "collection_at (road_heap w) r")
           (simp_all add: stored_road_features_def features_of_def filtered_copy_None)
      with filtered_copy_fresh [OF c] c \<open>roadNetworkData (dataState w) = Some r\<close>
      show ?thesis by (simp add: getFilteredRoadData_eq copy_of_def)
    qed
  qed
qed

lemma counter_filter_copy:
  "copy_of (counter_heap w) (counter_heap (snd (getFilteredCounterData fl w)))
     (filter (counter_passes fl) (stored_counter_features w)) (fst (getFilteredCounterData fl w))"
proof (cases "counterPointsData (dataState w)")
  case None
  then show ?thesis by (simp add: getFilteredCounterData_eq copy_of_def)
next
  case (Some r)
  show ?thesis
  proof (cases "fst (filtered_copy (counter_passes fl) r (counter_heap w))")
    case (Inl e)
    with Some show ?thesis by (simp add: getFilteredCounterData_eq copy_of_def)
  next
    case (Inr res)
    show ?thesis
    proof (cases res)
      case None
      with Inr Some show ?thesis by (simp add: getFilteredCounterData_eq copy_of_def)
    next
      case (Some c)
      with Inr have c: "fst (filtered_copy (counter_passes fl) r (counter_heap w)) = Inr (Some c)"
        by simp
      from filtered_copy_features [OF c]
      have "features_of (snd (filtered_copy (counter_passes fl) r (counter_heap w))) c =
              Some (filter (counter_passes fl) (stored_counter_features w))"
        using c \<open>counterPointsData (dataState w) = Some r\<close>
        by (cases "collection_at (counter_heap w) r")
           (simp_all add: stored_counter_features_def features_of_def filtered_copy_None)
      with filtered_copy_fresh [OF c] c \<open>counterPointsData (dataState w) = Some r\<close>
      show ?thesis by (simp add: getFilteredCounterData_eq copy_of_def)
    qed
  qed
qed

text \<open>
  Claim C6. For every filter argument and every state, \<open>getFilteredRoadData\<close> and
  \<open>getFilteredCounterData\<close> leave \<^verbatim>\<open>dataState\<close> and every object that was allocated
  before the call as they were (\<open>same_objects\<close>), so the stored collections, which are
  among these objects, have the same features after the call as before. What they
  return is an independent deep copy: a new collection object, all of whose features
  are new objects, holding the features of the stored collection that pass the filter.
\<close>

theorem filters_keep_store:
  "dataState (snd (getFilteredRoadData fl w)) = dataState w \<and>
   counter_heap (snd (getFilteredRoadData fl w)) = counter_heap w \<and>
   same_objects (road_heap w) (road_heap (snd (getFilteredRoadData fl w))) \<and>
   (allocated (road_heap w) (roadNetworkData (dataState w)) \<longrightarrow>
      stored_road_features (snd (getFilteredRoadData fl w)) = stored_road_features w) \<and>
   copy_of (road_heap w) (road_heap (snd (getFilteredRoadData fl w)))
     (filter (road_passes fl) (stored_road_features w)) (fst (getFilteredRoadData fl w)) \<and>
   dataState (snd (getFilteredCounterData fl w)) = dataState w \<and>
   road_heap (snd (getFilteredCounterData fl w)) = road_heap w \<and>
   same_objects (counter_heap w) (counter_heap (snd (getFilteredCounterData fl w))) \<and>
   (allocated (counter_heap w) (counterPointsData (dataState w)) \<longrightarrow>
      stored_counter_features (snd (getFilteredCounterData fl w)) = stored_counter_features w) \<and>
   copy_of (counter_heap w) (counter_heap (snd (getFilteredCounterData fl w)))
     (filter (counter_passes fl) (stored_counter_features w)) (fst (getFilteredCounterData fl w))"
  by (simp add: road_filter_frame counter_filter_frame road_filter_stored
      counter_filter_stored road_filter_copy counter_filter_copy)

lemma store_loaded_simps:
  "roadNetworkData (dataState (store_loaded rd cd nd sd pd w)) =
     Some (fst (alloc_collection rd (road_heap w)))"
  "counterPointsData (dataState (store_loaded rd cd nd sd pd w)) =
     Some (fst (alloc_collection cd (counter_heap w)))"
  "predictionsData (dataState (store_loaded rd cd nd sd pd w)) = Some pd"
  "censusData (dataState (store_loaded rd cd nd sd pd w)) = Some sd"
  "neighborhoodBoundaries (dataState (store_loaded rd cd nd sd pd w)) = Some nd"
  "road_heap (store_loaded rd cd nd sd pd w) = snd (alloc_collection rd (road_heap w))"
  "counter_heap (store_loaded rd cd nd sd pd w) = snd (alloc_collection cd (counter_heap w))"
  "draws (store_loaded rd cd nd sd pd w) = draws w"
  "temporalPredictions (dataState (store_loaded rd cd nd sd pd w)) =
     temporalPredictions (dataState w)"
  by (simp_all add: store_loaded_def split_def Let_def)

lemma store_loaded_features:
  "stored_road_features (store_loaded rd cd nd sd pd w) =
     (case features rd of None \<Rightarrow> [] | Some fs \<Rightarrow> fs)"
  "stored_counter_features (store_loaded rd cd nd sd pd w) =
     (case features cd of None \<Rightarrow> [] | Some fs \<Rightarrow> fs)"
  by (simp_all add: stored_road_features_def stored_counter_features_def store_loaded_simps
      alloc_collection_features)

lemma store_loaded_allocated:
  "allocated (road_heap (store_loaded rd cd nd sd pd w))
     (roadNetworkData (dataState (store_loaded rd cd nd sd pd w)))"
  "allocated (counter_heap (store_loaded rd cd nd sd pd w))
     (counterPointsData (dataState (store_loaded rd cd nd sd pd w)))"
  by (simp_all add: store_loaded_simps alloc_collection_allocated)

subsection \<open>The counter update\<close>

lemma filler_range:
  assumes "0 \<le> r" "r < 1"
  shows "20 \<le> Math_floor (r * 80) + 20" "Math_floor (r * 80) + 20 \<le> 99"
proof -
  from assms have "0 \<le> r * 80" "r * 80 < 80" by simp_all
  then have "0 \<le> \<lfloor>r * 80\<rfloor>" "\<lfloor>r * 80\<rfloor> < 80" by (simp_all add: floor_less_iff)
  then have "0 \<le> \<lfloor>r * 80\<rfloor>" "\<lfloor>r * 80\<rfloor> \<le> 79" by simp_all
  then have "(0::rat) \<le> of_int \<lfloor>r * 80\<rfloor>" "(of_int \<lfloor>r * 80\<rfloor> :: rat) \<le> 79"
    by (simp_all add: of_int_le_iff [where 'a = rat and w = "\<lfloor>r * 80\<rfloor>" and z = 79, simplified])
  then show "20 \<le> Math_floor (r * 80) + 20" "Math_floor (r * 80) + 20 \<le> 99"
    by (simp_all add: Math_floor_def)
qed

lemma update_counter_ok:
  assumes "unit_interval random"
  shows "COUNT (fst (update_counter random m (p, n))) =
           OBSERVED_COUNT_c (fst (update_counter random m (p, n)))"
    and "truthy_num (COUNT (fst (update_counter random m (p, n))))"
proof -
  from assms have r: "0 \<le> random n" "random n < 1" by (simp_all add: unit_interval_def)
  show "COUNT (fst (update_counter random m (p, n))) =
           OBSERVED_COUNT_c (fst (update_counter random m (p, n)))"
    by (simp add: update_counter_def Let_def)
  have "Math_floor (random n * 80) + 20 \<noteq> 0"
    using filler_range(1) [OF r] by simp
  then show "truthy_num (COUNT (fst (update_counter random m (p, n))))"
    by (simp add: update_counter_def Let_def) (simp add: truthy_num_def)
qed

lemma counter_loop_step_at:
  "unit_interval random \<Longrightarrow>
     counter_ok (feature_at (fst (counter_loop_step random m hn a)) a)"
  using update_counter_ok [of random m "properties (feature_at (fst hn) a)" "snd hn"]
  by (simp add: counter_loop_step_def Let_def counter_ok_def)

lemma counter_loop_step_other:
  "b \<noteq> a \<Longrightarrow> feature_at (fst (counter_loop_step random m hn a)) b = feature_at (fst hn) b"
  by (simp add: counter_loop_step_def Let_def)

lemma counter_loop_step_frame [simp]:
  "collection_at (fst (counter_loop_step random m hn a)) = collection_at (fst hn)"
  "next_addr (fst (counter_loop_step random m hn a)) = next_addr (fst hn)"
  by (simp_all add: counter_loop_step_def Let_def)

lemma counter_loop_frame [simp]:
  "collection_at (fst (foldl (counter_loop_step random m) hn as)) = collection_at (fst hn)"
  "next_addr (fst (foldl (counter_loop_step random m) hn as)) = next_addr (fst hn)"
  by (induction as arbitrary: hn) simp_all

lemma counter_loop_ok:
  assumes "unit_interval random"
  shows "\<forall>a\<in>set as. counter_ok (feature_at (fst (foldl (counter_loop_step random m) hn as)) a)"
proof (induction as rule: rev_induct)
  case Nil
  show ?case by simp
next
  case (snoc a as)
  show ?case
  proof
    fix b assume "b \<in> set (as @ [a])"
    show "counter_ok (feature_at (fst (foldl (counter_loop_step random m) hn (as @ [a]))) b)"
    proof (cases "b = a")
      case True
      then show ?thesis using counter_loop_step_at [OF assms] by simp
    next
      case False
      with \<open>b \<in> set (as @ [a])\<close> have "b \<in> set as" by simp
      with snoc have "counter_ok (feature_at (fst (foldl (counter_loop_step random m) hn as)) b)"
        by blast
      with False show ?thesis by (simp add: counter_loop_step_other)
    qed
  qed
qed

lemma update_counters_ok:
  assumes "unit_interval random" "updateCounterPointsWithObservedData random w = Inr w'"
  shows "list_all counter_ok (stored_counter_features w')"
proof -
  from assms(2) obtain rows where rows: "predictionsData (dataState w) = Some rows"
    by (auto simp: updateCounterPointsWithObservedData_def split: option.splits)
  let ?m = "foldl observed_step Map.empty rows"
  show ?thesis
  proof (cases "counterPointsData (dataState w)")
    case None
    with assms(2) rows have "w' = w" by (simp add: updateCounterPointsWithObservedData_def)
    with None show ?thesis by (simp add: stored_counter_features_def)
  next
    case (Some c)
    show ?thesis
    proof (cases "collection_at (counter_heap w) c")
      case None
      with assms(2) rows Some have "w' = w"
        by (simp add: updateCounterPointsWithObservedData_def)
      with None Some show ?thesis by (simp add: stored_counter_features_def features_of_def)
    next
      case (Some as)
      let ?hn = "foldl (counter_loop_step random ?m) (counter_heap w, draws w) as"
      from assms(2) rows \<open>counterPointsData (dataState w) = Some c\<close> Some
      have w': "w' = w\<lparr> counter_heap := fst ?hn, draws := snd ?hn \<rparr>"
        by (simp add: updateCounterPointsWithObservedData_def Let_def)
      have "stored_counter_features w' = map (feature_at (fst ?hn)) as"
        using \<open>counterPointsData (dataState w) = Some c\<close> Some
        by (simp add: w' stored_counter_features_def features_of_def)
      then show ?thesis
        using counter_loop_ok [OF assms(1), of as ?m "(counter_heap w, draws w)"]
        by (simp add: list_all_iff)
    qed
  qed
qed


subsection \<open>The loaders\<close>

lemmas promise_defs = catch_p_def then_p_def fetch_def check_ok_def json_def

lemma failed_fetch_rejects:
  "fetch_failed r \<Longrightarrow> \<exists>err. then_p (fetch r) (check_ok message) = Rejected err"
  by (auto simp: fetch_failed_def promise_defs split: option.splits)

lemma good_fetch_resolves:
  "\<not> fetch_failed r \<Longrightarrow> then_p (fetch r) (check_ok message) = Resolved (the (body (the r)))"
  by (auto simp: fetch_failed_def promise_defs split: option.splits)

lemma road_fallback:
  "fetch_failed (segments_wgs84 e) \<Longrightarrow>
     loadRoadNetworkData e =
       (if fetch_failed (network_wgs84 e) then Resolved (as_parsed defaultRoadNetworkData)
        else Resolved (the (body (the (network_wgs84 e)))))"
  by (auto simp: loadRoadNetworkData_def fetch_failed_def promise_defs split: option.splits)

lemma counter_fallback:
  "fetch_failed (combined_counters_wgs84 e) \<Longrightarrow>
     loadCounterPointsData e = Resolved defaultCounterData"
  by (auto simp: loadCounterPointsData_def fetch_failed_def promise_defs split: option.splits)

lemma neighborhood_fallback:
  "fetch_failed (DC_Health_Planning_Neighborhoods e) \<Longrightarrow>
     loadNeighborhoodBoundaries e = Resolved defaultNeighborhoodData"
  by (auto simp: loadNeighborhoodBoundaries_def fetch_failed_def promise_defs split: option.splits)

lemma census_fallback:
  "fetch_failed (selected_seg_census_wgs84_with_white e) \<Longrightarrow>
     loadCensusData e = Resolved defaultCensusData"
  by (auto simp: loadCensusData_def fetch_failed_def promise_defs split: option.splits)

lemma predictions_fallback:
  "fetch_failed (spatial_predictions e) \<Longrightarrow>
     loadPredictionsData e = Resolved defaultPredictionsData"
  by (auto simp: loadPredictionsData_def fetch_failed_def promise_defs split: option.splits)

lemma temporal_fallback:
  "fetch_failed (time_predictions_nogeom e) \<Longrightarrow>
     loadTemporalPredictions e ds = (Resolved (), ds\<lparr> temporalPredictions := Map.empty \<rparr>)"
  by (auto simp: loadTemporalPredictions_def fetch_failed_def promise_defs split: option.splits)

lemma catch_resolves:
  "(\<And>err. \<exists>d. f err = Resolved d) \<Longrightarrow> \<exists>d. catch_p p f = Resolved d"
  by (cases p) (simp_all add: catch_p_def)

lemma road_resolves: "\<exists>d. loadRoadNetworkData e = Resolved d"
  unfolding loadRoadNetworkData_def
  by (intro catch_resolves) simp

lemma counter_resolves: "\<exists>d. loadCounterPointsData e = Resolved d"
  unfolding loadCounterPointsData_def by (intro catch_resolves) simp

lemma neighborhood_resolves: "\<exists>d. loadNeighborhoodBoundaries e = Resolved d"
  unfolding loadNeighborhoodBoundaries_def by (intro catch_resolves) simp

lemma census_resolves: "\<exists>d. loadCensusData e = Resolved d"
  unfolding loadCensusData_def by (intro catch_resolves) simp

lemma predictions_resolves: "\<exists>d. loadPredictionsData e = Resolved d"
  unfolding loadPredictionsData_def by (intro catch_resolves) simp

lemma temporal_resolves: "fst (loadTemporalPredictions e ds) = Resolved ()"
  by (simp add: loadTemporalPredictions_def split: promise.splits)

lemma default_nonempty:
  "features defaultRoadNetworkData \<noteq> None \<and> features defaultRoadNetworkData \<noteq> Some []"
  "features defaultCounterData \<noteq> None \<and> features defaultCounterData \<noteq> Some []"
  "features defaultNeighborhoodData \<noteq> None \<and> features defaultNeighborhoodData \<noteq> Some []"
  "features defaultCensusData \<noteq> None \<and> features defaultCensusData \<noteq> Some []"
  "defaultPredictionsData \<noteq> []"
  by (simp_all add: defaultRoadNetworkData_def defaultCounterData_def defaultNeighborhoodData_def
      defaultCensusData_def defaultPredictionsData_def)

text \<open>The counters the loader resolves with, read from a file or built in, have
  properties by their type; of a parsed road collection the store takes the form
  with properties.\<close>

lemma null_properties_as_parsed: "\<not> null_properties (as_parsed d)"
  by (cases "features d") (simp_all add: null_properties_def as_parsed_def list_ex_iff)

lemma stored_form_None: "stored_form d = None \<longleftrightarrow> null_properties d"
  by (cases "features d") (simp_all add: stored_form_def null_properties_def with_properties_def)

lemma stored_form_features:
  "stored_form d = Some roads \<Longrightarrow>
     features roads =
       map_option (map (\<lambda>f. \<lparr> properties = the (properties f), geometry = geometry f \<rparr>))
         (features d)"
  by (cases "features d")
     (auto simp: stored_form_def with_properties_def split: if_splits)

lemma stored_form_as_parsed: "stored_form (as_parsed d) = Some d"
proof (cases "features d")
  case None
  then show ?thesis by (simp add: stored_form_def as_parsed_def)
next
  case (Some fs)
  have "map ((\<lambda>f. \<lparr> properties = the (properties f), geometry = geometry f \<rparr>) \<circ>
             (\<lambda>f. \<lparr> properties = Some (properties f), geometry = geometry f \<rparr>)) fs = fs"
    by (induction fs) simp_all
  with Some show ?thesis
    by (simp add: stored_form_def as_parsed_def with_properties_def list_ex_iff)
qed

lemma default_properties:
  "\<not> null_properties (as_parsed defaultRoadNetworkData)"
  "\<not> null_properties defaultCensusData"
  by (rule null_properties_as_parsed) (simp add: null_properties_def defaultCensusData_def)

subsection \<open>The census lookup and \<open>processData\<close>\<close>

text \<open>\<^verbatim>\<open>createCensusLookup\<close> throws exactly on a collection with a feature without
  properties.\<close>

lemma census_step_simps:
  "census_step (Inl err) f = Inl err"
  "properties f = None \<Longrightarrow> census_step (Inr L) f = Inl TypeError"
  "properties f = Some props \<Longrightarrow> \<exists>L'. census_step (Inr L) f = Inr L'"
  by (simp_all add: census_step_def)

lemma foldl_census_step_Inl: "foldl census_step (Inl err) fs = Inl err"
  by (induction fs) (simp_all add: census_step_simps(1))

lemma foldl_census_step_throws:
  "list_ex (\<lambda>f. properties f = None) fs \<Longrightarrow> foldl census_step (Inr L) fs = Inl TypeError"
proof (induction fs arbitrary: L)
  case Nil
  then show ?case by simp
next
  case (Cons f fs)
  show ?case
  proof (cases "properties f")
    case None
    then show ?thesis by (simp add: census_step_simps(2) foldl_census_step_Inl)
  next
    case (Some props)
    with Cons.prems have rest: "list_ex (\<lambda>f. properties f = None) fs" by simp
    from census_step_simps(3) [OF Some] obtain L' where "census_step (Inr L) f = Inr L'"
      by blast
    with Cons.IH [OF rest] show ?thesis by simp
  qed
qed

lemma foldl_census_step_returns:
  "\<not> list_ex (\<lambda>f. properties f = None) fs \<Longrightarrow> \<exists>L'. foldl census_step (Inr L) fs = Inr L'"
proof (induction fs arbitrary: L)
  case Nil
  then show ?case by simp
next
  case (Cons f fs)
  then obtain props where p: "properties f = Some props"
    and rest: "\<not> list_ex (\<lambda>f. properties f = None) fs" by auto
  from census_step_simps(3) [OF p] obtain L' where "census_step (Inr L) f = Inr L'"
    by blast
  with Cons.IH [OF rest] show ?case by simp
qed

lemma createCensusLookup_throws:
  "null_properties c \<Longrightarrow> createCensusLookup (Some c) = Inl TypeError"
  by (cases "features c")
     (simp_all add: createCensusLookup_def null_properties_def foldl_census_step_throws)

lemma createCensusLookup_returns:
  "\<not> null_properties c \<Longrightarrow> \<exists>L. createCensusLookup (Some c) = Inr L"
  by (cases "features c")
     (simp_all add: createCensusLookup_def null_properties_def foldl_census_step_returns)

lemma processRoadNetworkData_skip:
  "processRoadNetworkData None cd pd sd w = Inr w"
  "collection_at (road_heap w) r = None \<Longrightarrow> processRoadNetworkData (Some r) cd pd sd w = Inr w"
  by (simp_all add: processRoadNetworkData_def)

lemma processRoadNetworkData_throws:
  "collection_at (road_heap w) r = Some as \<Longrightarrow> createCensusLookup sd = Inl err \<Longrightarrow>
     processRoadNetworkData (Some r) cd pd sd w = Inl err"
  by (simp add: processRoadNetworkData_def Let_def)

lemma processRoadNetworkData_returns:
  "collection_at (road_heap w) r = Some as \<Longrightarrow> createCensusLookup sd = Inr L \<Longrightarrow>
     processRoadNetworkData (Some r) cd pd sd w =
       Inr (w\<lparr> road_heap :=
              foldl (update_feature
                       (processRoadFeature (createPredictedLookup pd)
                          (createCounterLookup (case cd of None \<Rightarrow> None
                                                | Some c \<Rightarrow> features_of (counter_heap w) c))
                          L))
                (road_heap w) as \<rparr>)"
  by (simp add: processRoadNetworkData_def Let_def)

lemma update_counters_returns:
  "predictionsData (dataState w) \<noteq> None \<Longrightarrow>
     \<exists>w'. updateCounterPointsWithObservedData random w = Inr w'"
  by (auto simp: updateCounterPointsWithObservedData_def Let_def split: option.splits)

lemma update_counters_frame:
  assumes "updateCounterPointsWithObservedData random w = Inr w'"
  shows "dataState w' = dataState w" "road_heap w' = road_heap w"
  using assms
  by (auto simp: updateCounterPointsWithObservedData_def Let_def split: option.splits)

lemma processData_eq:
  assumes "updateCounterPointsWithObservedData random w = Inr wc"
    and "counterPointsData (dataState w) \<noteq> None" "predictionsData (dataState w) \<noteq> None"
  shows "processData random w =
           (if roadNetworkData (dataState wc) \<noteq> None \<and> counterPointsData (dataState wc) \<noteq> None \<and>
               predictionsData (dataState wc) \<noteq> None \<and> censusData (dataState wc) \<noteq> None
            then processRoadNetworkData (roadNetworkData (dataState wc))
                   (counterPointsData (dataState wc)) (predictionsData (dataState wc))
                   (censusData (dataState wc)) wc
            else Inr wc)"
proof -
  have "(if counterPointsData (dataState w) \<noteq> None \<and> predictionsData (dataState w) \<noteq> None
         then updateCounterPointsWithObservedData random w else Inr w) = Inr wc"
    using assms by (simp only: simp_thms if_True)
  then show ?thesis
    unfolding processData_def by (simp only: sum.case)
qed

text \<open>\<open>processData\<close> on the state the callback of \<open>initData\<close> has stored: it throws
  exactly when the road collection has \<^verbatim>\<open>features\<close> and the census collection has a
  feature without properties.\<close>

lemma processData_stored:
  "processData random (store_loaded roads cd nd census pd w0) =
     (case updateCounterPointsWithObservedData random (store_loaded roads cd nd census pd w0) of
        Inl err \<Rightarrow> Inl err
      | Inr wc \<Rightarrow>
          processRoadNetworkData (Some (fst (alloc_collection roads (road_heap w0))))
            (Some (fst (alloc_collection cd (counter_heap w0)))) (Some pd) (Some census) wc)"
proof -
  let ?w1 = "store_loaded roads cd nd census pd w0"
  obtain wc where wc: "updateCounterPointsWithObservedData random ?w1 = Inr wc"
    using update_counters_returns [of ?w1 random] by (auto simp: store_loaded_simps)
  have ds: "dataState wc = dataState ?w1"
    using update_counters_frame [OF wc] by blast
  have "processData random ?w1 =
          processRoadNetworkData (roadNetworkData (dataState wc))
            (counterPointsData (dataState wc)) (predictionsData (dataState wc))
            (censusData (dataState wc)) wc"
    using processData_eq [OF wc] by (simp add: ds store_loaded_simps)
  then show ?thesis by (simp add: wc ds store_loaded_simps)
qed

lemma processData_stored_throws:
  assumes "features roads \<noteq> None" "null_properties census"
  shows "processData random (store_loaded roads cd nd census pd w0) = Inl TypeError"
proof -
  let ?w1 = "store_loaded roads cd nd census pd w0"
  let ?r = "fst (alloc_collection roads (road_heap w0))"
  obtain wc where wc: "updateCounterPointsWithObservedData random ?w1 = Inr wc"
    using update_counters_returns [of ?w1 random] by (auto simp: store_loaded_simps)
  have "collection_at (road_heap ?w1) ?r \<noteq> None"
    using assms(1) alloc_collection_at [of roads "road_heap w0"]
    by (auto simp: store_loaded_simps)
  then obtain as where "collection_at (road_heap wc) ?r = Some as"
    using update_counters_frame(2) [OF wc] by auto
  from processRoadNetworkData_throws [OF this createCensusLookup_throws [OF assms(2)]]
  show ?thesis by (simp add: processData_stored wc)
qed

lemma processData_stored_returns:
  assumes "features roads = None \<or> \<not> null_properties census"
  shows "\<exists>w2. processData random (store_loaded roads cd nd census pd w0) = Inr w2"
proof -
  let ?w1 = "store_loaded roads cd nd census pd w0"
  let ?r = "fst (alloc_collection roads (road_heap w0))"
  obtain wc where wc: "updateCounterPointsWithObservedData random ?w1 = Inr wc"
    using update_counters_returns [of ?w1 random] by (auto simp: store_loaded_simps)
  have c: "collection_at (road_heap wc) ?r =
             map_option (\<lambda>fs. [next_addr (road_heap w0) ..< next_addr (road_heap w0) + length fs])
               (features roads)"
    using update_counters_frame(2) [OF wc] alloc_collection_at [of roads "road_heap w0"]
    by (simp add: store_loaded_simps)
  show ?thesis
  proof (cases "features roads")
    case None
    with c have "collection_at (road_heap wc) ?r = None" by simp
    from processRoadNetworkData_skip(2) [OF this] show ?thesis
      by (simp add: processData_stored wc)
  next
    case (Some fs)
    with assms obtain L where L: "createCensusLookup (Some census) = Inr L"
      using createCensusLookup_returns by auto
    from c Some obtain as where "collection_at (road_heap wc) ?r = Some as" by simp
    from processRoadNetworkData_returns [OF this L] show ?thesis
      by (simp add: processData_stored wc)
  qed
qed

subsection \<open>\<^verbatim>\<open>initData\<close>\<close>

text \<open>\<open>initData\<close> on a state that is not initialized, in terms of what the loaders
  resolve with.\<close>

lemma initData_eq:
  assumes "\<not> isInitialized (dataState w)"
    and "loadRoadNetworkData e = Resolved roadData"
    and "loadCounterPointsData e = Resolved counterData"
    and "loadNeighborhoodBoundaries e = Resolved neighborhoodData"
    and "loadCensusData e = Resolved census"
    and "loadPredictionsData e = Resolved predictions"
    and "loadTemporalPredictions e (dataState w) = (Resolved (), ds)"
  shows "initData e random ar w =
           (case stored_form roadData of
              None \<Rightarrow> Rejected TypeError
            | Some roads \<Rightarrow>
                (case processData random
                        (store_loaded roads counterData neighborhoodData census predictions
                           (w\<lparr> dataState := ds \<rparr>)) of
                   Inl err \<Rightarrow> Rejected err
                 | Inr w2 \<Rightarrow>
                     Resolved
                       ((calculateStatistics ar
                           (if features neighborhoodData \<noteq> None
                            then w2\<lparr> dataState := (dataState w2)
                                    \<lparr> neighborhoodsList :=
                                        extractNeighborhoodsList (Some neighborhoodData) \<rparr> \<rparr>
                            else w2))
                        \<lparr> dataState :=
                            (dataState (calculateStatistics ar
                               (if features neighborhoodData \<noteq> None
                                then w2\<lparr> dataState := (dataState w2)
                                        \<lparr> neighborhoodsList :=
                                            extractNeighborhoodsList (Some neighborhoodData) \<rparr> \<rparr>
                                else w2)))
                            \<lparr> isInitialized := True \<rparr> \<rparr>)))"
  using assms(1)
  by (simp add: initData_def assms(2-7) then_p_def catch_p_def Let_def
      split: option.splits sum.splits)

lemma join_throws_eq:
  assumes "loadRoadNetworkData e = Resolved roadData" "loadCensusData e = Resolved census"
  shows "join_throws e \<longleftrightarrow>
           features roadData \<noteq> None \<and> (null_properties roadData \<or> null_properties census)"
  by (simp add: join_throws_def assms)

lemma initData_result:
  assumes "\<not> isInitialized (dataState w)"
  shows "join_throws e \<Longrightarrow> initData e random ar w = Rejected TypeError"
    and "\<not> join_throws e \<Longrightarrow> \<exists>w'. initData e random ar w = Resolved w'"
proof -
  obtain roadData where 1: "loadRoadNetworkData e = Resolved roadData"
    using road_resolves by blast
  obtain counterData where 2: "loadCounterPointsData e = Resolved counterData"
    using counter_resolves by blast
  obtain neighborhoodData where 3: "loadNeighborhoodBoundaries e = Resolved neighborhoodData"
    using neighborhood_resolves by blast
  obtain census where 4: "loadCensusData e = Resolved census"
    using census_resolves by blast
  obtain predictions where 5: "loadPredictionsData e = Resolved predictions"
    using predictions_resolves by blast
  obtain ds where 6: "loadTemporalPredictions e (dataState w) = (Resolved (), ds)"
    using temporal_resolves [of e "dataState w"]
    by (cases "loadTemporalPredictions e (dataState w)") simp
  note eq = initData_eq [OF assms 1 2 3 4 5 6, of random ar]
  note jt = join_throws_eq [OF 1 4]
  have np: "null_properties roadData \<Longrightarrow> features roadData \<noteq> None"
    by (cases "features roadData") (simp_all add: null_properties_def)
  {
    assume t: "join_throws e"
    show "initData e random ar w = Rejected TypeError"
    proof (cases "stored_form roadData")
      case None
      then show ?thesis by (simp add: eq)
    next
      case (Some roads)
      then have "\<not> null_properties roadData" using stored_form_None [of roadData] by simp
      with t jt have f: "features roadData \<noteq> None" and c: "null_properties census" by simp_all
      from f stored_form_features [OF Some] have "features roads \<noteq> None" by auto
      from processData_stored_throws [OF this c] Some show ?thesis by (simp add: eq)
    qed
  }
  {
    assume t: "\<not> join_throws e"
    show "\<exists>w'. initData e random ar w = Resolved w'"
    proof (cases "stored_form roadData")
      case None
      then have "null_properties roadData" using stored_form_None [of roadData] by simp
      with np jt t show ?thesis by simp
    next
      case (Some roads)
      have "features roads = None \<or> \<not> null_properties census"
        using t jt stored_form_features [OF Some] by auto
      from processData_stored_returns [OF this]
      obtain w2 where "processData random
                         (store_loaded roads counterData neighborhoodData census predictions
                            (w\<lparr> dataState := ds \<rparr>)) = Inr w2"
        by blast
      with Some show ?thesis by (simp add: eq)
    qed
  }
qed

lemma failed_roads_and_census:
  assumes "fetch_failed (segments_wgs84 e)" "fetch_failed (network_wgs84 e)"
    and "fetch_failed (selected_seg_census_wgs84_with_white e)"
  shows "\<not> join_throws e"
  using assms
  by (simp add: join_throws_def road_fallback census_fallback default_properties)

text \<open>
  Claim C9, as the code has it. When the fetch of a loader fails (the request fails,
  the status is not a success, or the body cannot be parsed), the loader resolves
  with its fallback: for the road network the data of the backup path, and when that
  fetch fails too the built-in collection; for the counters, the neighbourhoods, the
  census areas and the predictions the built-in data, none of which is empty; for
  the temporal predictions the empty table. Whatever the fetches give, every loader
  resolves, so no loader makes \<^verbatim>\<open>Promise.all\<close> reject. \<open>initData\<close> then resolves unless
  the join throws: it rejects with a \<^verbatim>\<open>TypeError\<close> exactly when the state is not
  initialized, the road collection that was loaded has \<^verbatim>\<open>features\<close>, and that
  collection or the census collection has a feature whose \<^verbatim>\<open>properties\<close> are \<^verbatim>\<open>null\<close>.
  The built-in collections have no such feature, so when the road files and the
  census file fail, \<open>initData\<close> resolves.
\<close>

theorem loaders_fall_back:
  "(fetch_failed (segments_wgs84 e) \<longrightarrow>
      loadRoadNetworkData e =
        (if fetch_failed (network_wgs84 e) then Resolved (as_parsed defaultRoadNetworkData)
         else Resolved (the (body (the (network_wgs84 e)))))) \<and>
   (fetch_failed (combined_counters_wgs84 e) \<longrightarrow>
      loadCounterPointsData e = Resolved defaultCounterData) \<and>
   (fetch_failed (DC_Health_Planning_Neighborhoods e) \<longrightarrow>
      loadNeighborhoodBoundaries e = Resolved defaultNeighborhoodData) \<and>
   (fetch_failed (selected_seg_census_wgs84_with_white e) \<longrightarrow>
      loadCensusData e = Resolved defaultCensusData) \<and>
   (fetch_failed (spatial_predictions e) \<longrightarrow>
      loadPredictionsData e = Resolved defaultPredictionsData) \<and>
   (fetch_failed (time_predictions_nogeom e) \<longrightarrow>
      loadTemporalPredictions e ds = (Resolved (), ds\<lparr> temporalPredictions := Map.empty \<rparr>)) \<and>
   features defaultRoadNetworkData \<noteq> None \<and> features defaultRoadNetworkData \<noteq> Some [] \<and>
   features defaultCounterData \<noteq> None \<and> features defaultCounterData \<noteq> Some [] \<and>
   features defaultNeighborhoodData \<noteq> None \<and> features defaultNeighborhoodData \<noteq> Some [] \<and>
   features defaultCensusData \<noteq> None \<and> features defaultCensusData \<noteq> Some [] \<and>
   defaultPredictionsData \<noteq> [] \<and>
   (\<exists>d. loadRoadNetworkData e = Resolved d) \<and>
   (\<exists>d. loadCounterPointsData e = Resolved d) \<and>
   (\<exists>d. loadNeighborhoodBoundaries e = Resolved d) \<and>
   (\<exists>d. loadCensusData e = Resolved d) \<and>
   (\<exists>d. loadPredictionsData e = Resolved d) \<and>
   fst (loadTemporalPredictions e ds) = Resolved () \<and>
   (isInitialized (dataState w) \<or> \<not> join_throws e \<longrightarrow>
      (\<exists>w'. initData e random ar w = Resolved w')) \<and>
   (\<not> isInitialized (dataState w) \<and> join_throws e \<longrightarrow>
      initData e random ar w = Rejected TypeError) \<and>
   (fetch_failed (segments_wgs84 e) \<and> fetch_failed (network_wgs84 e) \<and>
    fetch_failed (selected_seg_census_wgs84_with_white e) \<longrightarrow> \<not> join_throws e)"
proof -
  have r: "isInitialized (dataState w) \<or> \<not> join_throws e \<longrightarrow>
             (\<exists>w'. initData e random ar w = Resolved w')"
  proof (cases "isInitialized (dataState w)")
    case True
    then show ?thesis by (simp add: initData_def)
  next
    case False
    with initData_result(2) [OF False] show ?thesis by simp
  qed
  have t: "\<not> isInitialized (dataState w) \<and> join_throws e \<longrightarrow>
             initData e random ar w = Rejected TypeError"
    using initData_result(1) by simp
  have f: "fetch_failed (segments_wgs84 e) \<and> fetch_failed (network_wgs84 e) \<and>
           fetch_failed (selected_seg_census_wgs84_with_white e) \<longrightarrow> \<not> join_throws e"
    using failed_roads_and_census by simp
  from r t f default_nonempty show ?thesis
    by (simp add: road_fallback counter_fallback neighborhood_fallback census_fallback
        predictions_fallback temporal_fallback road_resolves counter_resolves
        neighborhood_resolves census_resolves predictions_resolves temporal_resolves)
qed

lemma env_404_failed:
  "fetch_failed (segments_wgs84 env_404)" "fetch_failed (network_wgs84 env_404)"
  "fetch_failed (combined_counters_wgs84 env_404)"
  "fetch_failed (DC_Health_Planning_Neighborhoods env_404)"
  "fetch_failed (selected_seg_census_wgs84_with_white env_404)"
  "fetch_failed (spatial_predictions env_404)"
  "fetch_failed (time_predictions_nogeom env_404)"
  by (simp_all add: env_404_def not_found_def fetch_failed_def)

lemma env_null_census_failed:
  "fetch_failed (segments_wgs84 env_null_census)" "fetch_failed (network_wgs84 env_null_census)"
  "\<not> fetch_failed (selected_seg_census_wgs84_with_white env_null_census)"
  by (simp_all add: env_null_census_def env_404_def not_found_def fetch_failed_def)

lemma env_null_census_loads:
  "loadRoadNetworkData env_null_census = Resolved (as_parsed defaultRoadNetworkData)"
  "loadCensusData env_null_census = Resolved census_without_properties"
proof -
  show "loadRoadNetworkData env_null_census = Resolved (as_parsed defaultRoadNetworkData)"
    using road_fallback [of env_null_census] env_null_census_failed by simp
  show "loadCensusData env_null_census = Resolved census_without_properties"
    by (simp add: loadCensusData_def env_null_census_def promise_defs
        census_without_properties_def)
qed

lemma env_null_census_throws: "join_throws env_null_census"
  by (simp add: join_throws_def env_null_census_loads)
     (simp add: as_parsed_def defaultRoadNetworkData_def null_properties_def
        census_without_properties_def)

lemma initial_world_fresh: "\<not> isInitialized (dataState initial_world)"
  by (simp add: initial_world_def initial_dataState_def)

text \<open>With every file answering 404, every loader gives its fallback and \<open>initData\<close>
  resolves. With the census file read and holding an area without properties,
  \<open>initData\<close> rejects.\<close>

theorem loaders_fall_back_witness:
  "fetch_failed (segments_wgs84 env_404) \<and> fetch_failed (network_wgs84 env_404) \<and>
   fetch_failed (combined_counters_wgs84 env_404) \<and>
   fetch_failed (DC_Health_Planning_Neighborhoods env_404) \<and>
   fetch_failed (selected_seg_census_wgs84_with_white env_404) \<and>
   fetch_failed (spatial_predictions env_404) \<and>
   fetch_failed (time_predictions_nogeom env_404) \<and>
   loadRoadNetworkData env_404 = Resolved (as_parsed defaultRoadNetworkData) \<and>
   loadCounterPointsData env_404 = Resolved defaultCounterData \<and>
   loadNeighborhoodBoundaries env_404 = Resolved defaultNeighborhoodData \<and>
   loadCensusData env_404 = Resolved defaultCensusData \<and>
   loadPredictionsData env_404 = Resolved defaultPredictionsData \<and>
   loadTemporalPredictions env_404 initial_dataState =
     (Resolved (), initial_dataState\<lparr> temporalPredictions := Map.empty \<rparr>) \<and>
   \<not> join_throws env_404 \<and>
   (\<exists>w'. initData env_404 half_random double initial_world = Resolved w') \<and>
   \<not> isInitialized (dataState initial_world) \<and> join_throws env_null_census \<and>
   initData env_null_census half_random double initial_world = Rejected TypeError"
  using loaders_fall_back [of env_404 initial_dataState initial_world half_random double]
    loaders_fall_back [of env_null_census initial_dataState initial_world half_random double]
    env_404_failed env_null_census_throws initial_world_fresh
  by simp

text \<open>
  Claim C9 as stated fails in two places. The fallback of the temporal loader is not
  a built-in dataset that is not empty: it is the empty table. And a loader failure
  with its fallback does not make \<open>initData\<close> resolve whatever the other files hold:
  with the road files answering 404, so that the road loader falls back to the
  built-in collection, and a census file that holds one area whose \<^verbatim>\<open>properties\<close> are
  \<^verbatim>\<open>null\<close>, \<open>initData\<close> rejects with a \<^verbatim>\<open>TypeError\<close>.
\<close>

theorem loaders_fall_back_counterexample:
  "fetch_failed (time_predictions_nogeom env_404) \<and>
   fst (loadTemporalPredictions env_404 initial_dataState) = Resolved () \<and>
   dom (temporalPredictions (snd (loadTemporalPredictions env_404 initial_dataState))) = {} \<and>
   fetch_failed (segments_wgs84 env_null_census) \<and>
   fetch_failed (network_wgs84 env_null_census) \<and>
   loadRoadNetworkData env_null_census = Resolved (as_parsed defaultRoadNetworkData) \<and>
   loadCensusData env_null_census = Resolved census_without_properties \<and>
   initData env_null_census half_random double initial_world = Rejected TypeError"
  using initData_result(1) [OF initial_world_fresh env_null_census_throws]
  by (simp add: env_404_failed temporal_fallback env_null_census_failed env_null_census_loads)

subsection \<open>The statistics of the stored roads\<close>

lemma calculateStatistics_statistics:
  "statistics (dataState (calculateStatistics ar w)) = statistics_of ar (stored_road_features w)"
  by (simp add: calculateStatistics_def)

lemma unknown_lane_values:
  "stored_road_features unknown_lane_world = [segment_unknown_lane]"
  "bikeFacility_of (properties segment_unknown_lane) = ''Unknown''"
  "truthy_values length_of [segment_unknown_lane] = [120]"
  by (simp_all add: unknown_lane_world_def store_loaded_features bikeFacility_of_def
      truthy_values_def length_of_def segment_unknown_lane_def empty_road_props_def js_defs)

lemma truthy_values_Nil: "truthy_values field [] = []"
  by (simp add: truthy_values_def)

lemma unknown_lane_coverage:
  "coverage_of double [segment_unknown_lane] = 100"
  "claimed_coverage double [segment_unknown_lane] = 0"
  by (simp_all add: coverage_of_def claimed_coverage_def has_bike_lane_def
      claimed_bike_lane_def unknown_lane_values js_sum_def double_examples Math_round_def
      truthy_values_Nil floor_eq_iff)

lemma lane_world_values:
  "stored_road_features lane_world = lane_23_of_40"
  "truthy_values length_of lane_23_of_40 = [23, 17]"
  "filter has_bike_lane lane_23_of_40 = [segment_of_length 23 ''Protected'']"
  "filter claimed_bike_lane lane_23_of_40 = [segment_of_length 23 ''Protected'']"
  "truthy_values length_of [segment_of_length 23 ''Protected''] = [23]"
  by (simp_all add: lane_world_def store_loaded_features lane_23_of_40_def bikeFacility_of_def
      has_bike_lane_def claimed_bike_lane_def truthy_values_def length_of_def
      segment_of_length_def empty_road_props_def js_defs)

text \<open>Lengths 23 and 17, the first with a bike lane: the quotient \<^verbatim>\<open>23 / 40\<close> is the
  double below 0.575, and its product with 100 the double below 57.5, which
  \<^verbatim>\<open>Math.round\<close> makes 57; \<^verbatim>\<open>100 * 23 / 40\<close> is 57.5, which it makes 58.\<close>

lemma lane_coverage:
  "coverage_of double lane_23_of_40 = 57"
  "claimed_coverage double lane_23_of_40 = 58"
  by (simp_all add: coverage_of_def claimed_coverage_def lane_world_values js_sum_def
      double_examples Math_round_def floor_eq_iff)

text \<open>
  Claim C4, as the code has it. The bike lane coverage is
  \<^verbatim>\<open>Math.round((bike / total) * 100)\<close>, the quotient first and then the product, each
  as the arithmetic of numbers gives it. \<open>total\<close> is the running sum of the lengths of
  the segments whose length is not 0, in the order of the collection, and \<open>bike\<close> the
  running sum of the lengths of those among them whose bike facility type is not
  empty, \<open>None\<close> or \<open>NA\<close>; the coverage is 0 when \<open>total\<close> is 0. The length of a segment
  is \<open>SEG_LEN\<close>, else \<open>segment_length\<close>; its facility type is \<open>BIKE_FT\<close>, else
  \<open>bike_facility_type\<close>, else empty. This holds whatever the operations round to.
\<close>

theorem bike_lane_coverage:
  "bikeLaneCoverage (statistics (dataState (calculateStatistics ar w))) =
     coverage_of ar (stored_road_features w)"
  by (simp add: calculateStatistics_statistics statistics_of_coverage)

text \<open>Claim C4 as stated fails in two ways. One segment of length 120 whose facility
  type is \<open>Unknown\<close> has the coverage 100, where leaving \<open>Unknown\<close> out would give 0.
  And with the lengths 23 and 17, the first with a bike lane, the coverage is 57 in the
  arithmetic of doubles, where \<open>round (100 * bike / total)\<close> is 58.\<close>

theorem bike_lane_coverage_counterexample:
  "bikeFacility_of (properties segment_unknown_lane) = ''Unknown'' \<and>
   bikeLaneCoverage (statistics (dataState (calculateStatistics double unknown_lane_world))) = 100 \<and>
   claimed_coverage double (stored_road_features unknown_lane_world) = 0 \<and>
   bikeLaneCoverage (statistics (dataState (calculateStatistics double lane_world))) = 57 \<and>
   claimed_coverage double (stored_road_features lane_world) = 58"
  by (simp add: calculateStatistics_statistics statistics_of_coverage unknown_lane_values
      unknown_lane_coverage lane_world_values(1) lane_coverage)

lemma truthy_values_skip:
  "\<not> truthy_num (field (properties f)) \<Longrightarrow>
     truthy_values field (fs @ f # gs) = truthy_values field (fs @ gs)"
  by (simp add: truthy_values_def)

text \<open>
  Claim C8. Each of the four averages is the rounded mean of the values of its field
  over the segments where the field (under either of its two names) is present and
  truthy, 0 when there is no such segment. A segment whose field is missing or 0 is
  not among these values: it adds neither to the sum nor to the number divided by.
  The mean is the running sum of the values divided by their number, whatever the
  operations round to.
\<close>

theorem census_averages:
  "averageIncome (statistics (dataState (calculateStatistics ar w))) =
     rounded_mean ar (truthy_values income_of (stored_road_features w)) \<and>
   averagePopulation (statistics (dataState (calculateStatistics ar w))) =
     rounded_mean ar (truthy_values population_of (stored_road_features w)) \<and>
   averageBikeCommute (statistics (dataState (calculateStatistics ar w))) =
     rounded_mean ar (truthy_values bike_commute_of (stored_road_features w)) \<and>
   averageEducation (statistics (dataState (calculateStatistics ar w))) =
     rounded_mean ar (truthy_values education_of (stored_road_features w)) \<and>
   (\<not> truthy_num (field (properties f)) \<longrightarrow>
      truthy_values field (fs @ f # gs) = truthy_values field (fs @ gs))"
  by (simp add: calculateStatistics_statistics statistics_of_means truthy_values_skip)

text \<open>Incomes 50000, 0 and 70000 have the average 60000: the segment with the income
  0 does not count.\<close>

theorem census_averages_witness:
  "\<not> truthy_num (income_of (properties (segment_with_income 0))) \<and>
   truthy_values income_of
     ([segment_with_income 50000] @ segment_with_income 0 # [segment_with_income 70000]) =
   truthy_values income_of ([segment_with_income 50000] @ [segment_with_income 70000]) \<and>
   averageIncome (statistics (dataState (calculateStatistics double income_world))) = 60000"
proof -
  have z: "\<not> truthy_num (income_of (properties (segment_with_income 0)))"
    by (simp add: income_of_def segment_with_income_def empty_road_props_def js_defs)
  have fs: "stored_road_features income_world =
              [segment_with_income 50000] @ segment_with_income 0 # [segment_with_income 70000]"
    by (simp add: income_world_def store_loaded_features)
  have v: "truthy_values income_of ([segment_with_income 50000] @ [segment_with_income 70000]) =
             [50000, 70000]"
    by (simp add: truthy_values_def income_of_def segment_with_income_def empty_road_props_def
        js_defs)
  have m: "rounded_mean double [50000, 70000] = 60000"
    by (simp add: rounded_mean_def js_sum_def double_examples Math_round_def floor_eq_iff)
  from census_averages [of double income_world income_of "segment_with_income 0"
        "[segment_with_income 50000]" "[segment_with_income 70000]"] z
  have a: "averageIncome (statistics (dataState (calculateStatistics double income_world))) =
             rounded_mean double (truthy_values income_of (stored_road_features income_world))"
    and s: "truthy_values income_of
              ([segment_with_income 50000] @ segment_with_income 0 # [segment_with_income 70000]) =
            truthy_values income_of ([segment_with_income 50000] @ [segment_with_income 70000])"
    by blast+
  from a have "averageIncome (statistics (dataState (calculateStatistics double income_world))) =
                 60000"
    by (simp only: fs s v m)
  with z s show ?thesis by blast
qed

subsection \<open>Examples on the built-in collections\<close>

text \<open>The state that holds the built-in collections: its stored collections are
  allocated, and a filter call leaves their features as they were.\<close>

theorem filters_keep_store_witness:
  "allocated (road_heap default_world) (roadNetworkData (dataState default_world)) \<and>
   stored_road_features (snd (getFilteredRoadData downtown_filters default_world)) =
     stored_road_features default_world \<and>
   allocated (counter_heap default_world) (counterPointsData (dataState default_world)) \<and>
   stored_counter_features (snd (getFilteredCounterData downtown_filters default_world)) =
     stored_counter_features default_world"
proof -
  have r: "allocated (road_heap default_world) (roadNetworkData (dataState default_world))"
    and c: "allocated (counter_heap default_world) (counterPointsData (dataState default_world))"
    by (simp_all add: default_world_def store_loaded_allocated)
  with filters_keep_store [of downtown_filters default_world] show ?thesis by blast
qed

lemma default_world_roads:
  "stored_road_features default_world = the (features defaultRoadNetworkData)"
  by (simp add: default_world_def store_loaded_features defaultRoadNetworkData_def)

lemma downtown_roads:
  "map (\<lambda>f. SUBBLOCKKEY (properties f))
     (filter (road_passes downtown_filters) (stored_road_features default_world)) =
   [Some ''sample_road_1'']"
  by (simp add: default_world_roads defaultRoadNetworkData_def road_passes_def
      downtown_filters_def empty_road_props_def Let_def)








subsection \<open>From \<^verbatim>\<open>initData\<close> to the stored collections\<close>

text \<open>What \<open>processData\<close> and \<open>initData\<close> leave in the store when they return: the
  road features are the loaded ones, each passed through the callback of the join
  once, and the counters are as the counter update leaves them.\<close>

text \<open>\<open>processRoadNetworkData\<close> applies the callback once to every feature of a
  collection without repeated features, so the properties proved of
  \<open>processRoadFeature\<close> hold of every stored segment after the join.\<close>

lemma update_feature_simps [simp]:
  "collection_at (update_feature g h a) = collection_at h"
  "next_addr (update_feature g h a) = next_addr h"
  "feature_at (update_feature g h a) = (feature_at h)(a := g (feature_at h a))"
  by (simp_all add: update_feature_def)

lemma foldl_update_feature_frame [simp]:
  "collection_at (foldl (update_feature g) h as) = collection_at h"
  "next_addr (foldl (update_feature g) h as) = next_addr h"
  by (induction as arbitrary: h) simp_all

lemma foldl_update_feature_other:
  "a \<notin> set as \<Longrightarrow> feature_at (foldl (update_feature g) h as) a = feature_at h a"
  by (induction as arbitrary: h) auto

lemma foldl_update_feature_distinct:
  "distinct as \<Longrightarrow>
     map (feature_at (foldl (update_feature g) h as)) as = map (\<lambda>a. g (feature_at h a)) as"
proof (induction as arbitrary: h)
  case Nil
  show ?case by simp
next
  case (Cons a as)
  then have a: "a \<notin> set as" and d: "distinct as" by simp_all
  have "map (feature_at (foldl (update_feature g) (update_feature g h a) as)) as =
          map (\<lambda>b. g (feature_at (update_feature g h a) b)) as"
    using Cons.IH [OF d] .
  also have "\<dots> = map (\<lambda>b. g (feature_at h b)) as"
    using a by auto
  finally show ?case
    using a by (simp add: foldl_update_feature_other)
qed

lemma processRoadNetworkData_frame:
  assumes "processRoadNetworkData rd cd pd sd w = Inr w'"
  shows "dataState w' = dataState w" "counter_heap w' = counter_heap w" "draws w' = draws w"
    "collection_at (road_heap w') = collection_at (road_heap w)"
    "next_addr (road_heap w') = next_addr (road_heap w)"
  using assms
  by (auto simp: processRoadNetworkData_def Let_def split: option.splits sum.splits)

lemma processRoadNetworkData_features:
  assumes "distinct_features (road_heap w) (roadNetworkData (dataState w))"
    and "processRoadNetworkData (roadNetworkData (dataState w))
           (counterPointsData (dataState w)) (predictionsData (dataState w))
           (censusData (dataState w)) w = Inr w'"
  shows "stored_road_features w' = map (road_callback w) (stored_road_features w)"
proof (cases "roadNetworkData (dataState w)")
  case None
  with assms(2) have "w' = w" by (simp add: processRoadNetworkData_skip)
  with None show ?thesis by (simp add: stored_road_features_def)
next
  case (Some r)
  show ?thesis
  proof (cases "collection_at (road_heap w) r")
    case None
    with assms(2) Some have "w' = w" by (simp add: processRoadNetworkData_skip)
    with None Some show ?thesis by (simp add: stored_road_features_def features_of_def)
  next
    case (Some as)
    note r = \<open>roadNetworkData (dataState w) = Some r\<close>
    from assms(1) r Some have d: "distinct as" by (simp add: distinct_features_def)
    show ?thesis
    proof (cases "createCensusLookup (censusData (dataState w))")
      case (Inl err)
      from processRoadNetworkData_throws [OF Some Inl] assms(2) r show ?thesis by simp
    next
      case (Inr L)
      from processRoadNetworkData_returns [OF Some Inr] assms(2) r
      have w': "w' = w\<lparr> road_heap := foldl (update_feature (road_callback w)) (road_heap w) as \<rparr>"
        by (simp add: road_callback_def Inr)
      from foldl_update_feature_distinct [OF d, of "road_callback w" "road_heap w"]
      show ?thesis
        using Some r by (simp add: w' stored_road_features_def features_of_def comp_def)
    qed
  qed
qed

lemma stored_road_features_cong:
  "roadNetworkData (dataState w') = roadNetworkData (dataState w) \<Longrightarrow>
   road_heap w' = road_heap w \<Longrightarrow> stored_road_features w' = stored_road_features w"
  by (simp only: stored_road_features_def)

lemma stored_counter_features_cong:
  "counterPointsData (dataState w') = counterPointsData (dataState w) \<Longrightarrow>
   counter_heap w' = counter_heap w \<Longrightarrow> stored_counter_features w' = stored_counter_features w"
  by (simp only: stored_counter_features_def)

lemma key_frame [simp]:
  "SUBBLOCKKEY (attach_predicted L k p) = SUBBLOCKKEY p"
  "SUBBLOCKKEY (attach_counter C k p) = SUBBLOCKKEY p"
  "SUBBLOCKKEY (attach_census S k p) = SUBBLOCKKEY p"
  "SUBBLOCKKEY (set_centrality p) = SUBBLOCKKEY p"
  "SUBBLOCKKEY (set_census_aliases p) = SUBBLOCKKEY p"
  "SUBBLOCKKEY (set_residual p) = SUBBLOCKKEY p"
  "SUBBLOCKKEY (set_traffic_level p) = SUBBLOCKKEY p"
  "SUBBLOCKKEY (set_midpoint g p) = SUBBLOCKKEY p"
  by (simp_all add: attach_predicted_def attach_counter_def attach_census_def
      set_centrality_def set_census_aliases_def set_residual_def set_traffic_level_def
      set_midpoint_def Let_def split: option.splits prod.splits)

lemma callback_keeps_key:
  "SUBBLOCKKEY (properties (processRoadFeature PL CL SL f)) = SUBBLOCKKEY (properties f)"
  by (simp add: processRoadFeature_def Let_def)

lemma store_loaded_distinct:
  "distinct_features (road_heap (store_loaded rd cd nd sd pd w))
     (roadNetworkData (dataState (store_loaded rd cd nd sd pd w)))"
  using alloc_collection_at [of rd "road_heap w"]
  by (auto simp: distinct_features_def store_loaded_simps split: option.splits)

lemma processData_roads:
  assumes "processData random w = Inr w2"
    and "distinct_features (road_heap w) (roadNetworkData (dataState w))"
    and "roadNetworkData (dataState w) \<noteq> None" "counterPointsData (dataState w) \<noteq> None"
    and "predictionsData (dataState w) \<noteq> None" "censusData (dataState w) \<noteq> None"
  shows "\<exists>wc. updateCounterPointsWithObservedData random w = Inr wc \<and>
              stored_road_features w2 = map (road_callback wc) (stored_road_features w)"
    and "dataState w2 = dataState w"
proof -
  obtain wc where wc: "updateCounterPointsWithObservedData random w = Inr wc"
    using update_counters_returns [OF assms(5)] by blast
  have ds: "dataState wc = dataState w" and rh: "road_heap wc = road_heap w"
    using update_counters_frame [OF wc] by blast+
  have "processData random w =
          processRoadNetworkData (roadNetworkData (dataState wc))
            (counterPointsData (dataState wc)) (predictionsData (dataState wc))
            (censusData (dataState wc)) wc"
    using processData_eq [OF wc assms(4,5)] assms(3,4,5,6) by (simp only: ds simp_thms if_True)
  with assms(1)
  have w2: "processRoadNetworkData (roadNetworkData (dataState wc))
              (counterPointsData (dataState wc)) (predictionsData (dataState wc))
              (censusData (dataState wc)) wc = Inr w2"
    by (simp only:)
  have "distinct_features (road_heap wc) (roadNetworkData (dataState wc))"
    using assms(2) by (simp only: ds rh)
  from processRoadNetworkData_features [OF this w2]
  have "stored_road_features w2 = map (road_callback wc) (stored_road_features wc)" .
  moreover have "stored_road_features wc = stored_road_features w"
    by (rule stored_road_features_cong) (simp_all only: ds rh)
  ultimately show "\<exists>wc. updateCounterPointsWithObservedData random w = Inr wc \<and>
              stored_road_features w2 = map (road_callback wc) (stored_road_features w)"
    using wc by (intro exI [of _ wc]) (simp only: simp_thms)
  show "dataState w2 = dataState w"
    using processRoadNetworkData_frame(1) [OF w2] by (simp only: ds)
qed

text \<open>When \<open>initData\<close> resolves, the state is initialized and holds the road segments
  that were loaded, with their keys.\<close>

lemma initData_stores_roads:
  assumes "\<not> isInitialized (dataState w)" "initData e random ar w = Resolved w'"
    and "loadRoadNetworkData e = Resolved d"
  shows "isInitialized (dataState w')"
    and "map (\<lambda>f. SUBBLOCKKEY (properties f)) (stored_road_features w') =
           map (\<lambda>f. SUBBLOCKKEY (the (properties f)))
             (case features d of None \<Rightarrow> [] | Some fs \<Rightarrow> fs)"
proof -
  obtain counterData where 2: "loadCounterPointsData e = Resolved counterData"
    using counter_resolves by blast
  obtain neighborhoodData where 3: "loadNeighborhoodBoundaries e = Resolved neighborhoodData"
    using neighborhood_resolves by blast
  obtain census where 4: "loadCensusData e = Resolved census"
    using census_resolves by blast
  obtain predictions where 5: "loadPredictionsData e = Resolved predictions"
    using predictions_resolves by blast
  obtain ds where 6: "loadTemporalPredictions e (dataState w) = (Resolved (), ds)"
    using temporal_resolves [of e "dataState w"]
    by (cases "loadTemporalPredictions e (dataState w)") simp
  note eq = initData_eq [OF assms(1,3) 2 3 4 5 6, of random ar]
  from eq assms(2) obtain roads where roads: "stored_form d = Some roads"
    by (cases "stored_form d") simp_all
  let ?w1 = "store_loaded roads counterData neighborhoodData census predictions
               (w\<lparr> dataState := ds \<rparr>)"
  from eq assms(2) roads obtain w2 where 7: "processData random ?w1 = Inr w2"
    by (cases "processData random ?w1") simp_all
  have present: "roadNetworkData (dataState ?w1) \<noteq> None"
    "counterPointsData (dataState ?w1) \<noteq> None"
    "predictionsData (dataState ?w1) \<noteq> None" "censusData (dataState ?w1) \<noteq> None"
    by (simp_all add: store_loaded_simps)
  from processData_roads [OF 7 store_loaded_distinct present]
  obtain wc where r: "stored_road_features w2 = map (road_callback wc) (stored_road_features ?w1)"
    by blast
  let ?w3 = "if features neighborhoodData \<noteq> None
             then w2\<lparr> dataState := (dataState w2)
                     \<lparr> neighborhoodsList := extractNeighborhoodsList (Some neighborhoodData) \<rparr> \<rparr>
             else w2"
  have w': "w' = (calculateStatistics ar ?w3)
                   \<lparr> dataState := (dataState (calculateStatistics ar ?w3))
                                    \<lparr> isInitialized := True \<rparr> \<rparr>"
    using eq assms(2) by (simp add: roads 7)
  show "isInitialized (dataState w')" by (simp add: w')
  have "stored_road_features w' = stored_road_features w2"
    by (rule stored_road_features_cong) (simp_all add: w' calculateStatistics_def)
  then show "map (\<lambda>f. SUBBLOCKKEY (properties f)) (stored_road_features w') =
           map (\<lambda>f. SUBBLOCKKEY (the (properties f)))
             (case features d of None \<Rightarrow> [] | Some fs \<Rightarrow> fs)"
    using stored_form_features [OF roads]
    by (cases "features d")
       (simp_all add: r store_loaded_features road_callback_def callback_keeps_key comp_def)
qed

text \<open>The scenario of the specification: when the road files answer 404, the state
  after \<open>initData\<close> holds the two segments of the built-in road collection.\<close>

lemma initData_404:
  assumes "initData env_404 random ar initial_world = Resolved w'"
  shows "isInitialized (dataState w')"
    and "map (\<lambda>f. SUBBLOCKKEY (properties f)) (stored_road_features w') =
           [Some ''sample_road_1'', Some ''sample_road_2'']"
proof -
  have d: "loadRoadNetworkData env_404 = Resolved (as_parsed defaultRoadNetworkData)"
    using road_fallback [of env_404] env_404_failed by simp
  from initData_stores_roads [OF initial_world_fresh assms d]
  show "isInitialized (dataState w')"
    and "map (\<lambda>f. SUBBLOCKKEY (properties f)) (stored_road_features w') =
           [Some ''sample_road_1'', Some ''sample_road_2'']"
    by (simp_all add: as_parsed_def defaultRoadNetworkData_def empty_road_props_def)
qed

lemma processData_counters_ok:
  assumes "unit_interval random" "processData random w = Inr w2"
    and "counterPointsData (dataState w) \<noteq> None" "predictionsData (dataState w) \<noteq> None"
  shows "list_all counter_ok (stored_counter_features w2)"
proof -
  obtain wc where wc: "updateCounterPointsWithObservedData random w = Inr wc"
    using update_counters_returns [OF assms(4)] by blast
  have ok: "list_all counter_ok (stored_counter_features wc)"
    using update_counters_ok [OF assms(1) wc] .
  let ?join = "processRoadNetworkData (roadNetworkData (dataState wc))
                 (counterPointsData (dataState wc)) (predictionsData (dataState wc))
                 (censusData (dataState wc)) wc"
  from processData_eq [OF wc assms(3,4)] assms(2)
  have "?join = Inr w2 \<or> w2 = wc"
    by (auto split: if_splits)
  then show ?thesis
  proof
    assume j: "?join = Inr w2"
    have "stored_counter_features w2 = stored_counter_features wc"
      by (rule stored_counter_features_cong)
         (simp_all only: processRoadNetworkData_frame(1,2) [OF j])
    with ok show ?thesis by simp
  next
    assume "w2 = wc"
    with ok show ?thesis by simp
  qed
qed

text \<open>The scenario of the specification: the volume filter \<open>[high, low]\<close> on
  segments with the counts 5, 35 and 85 keeps those with 5 and 85.\<close>

lemma volume_array_scenario:
  "map (\<lambda>f. OBSERVED_COUNT (properties f))
     (filter (road_passes \<lparr> neighborhood = ''all'', counterType = ''all'',
                            volumeFilter = VolumeArray [''high'', ''low''],
                            viewType = ''combined'' \<rparr>)
        [\<lparr> properties = empty_road_props\<lparr> OBSERVED_COUNT := Some 5 \<rparr>, geometry = None \<rparr>,
         \<lparr> properties = empty_road_props\<lparr> OBSERVED_COUNT := Some 35 \<rparr>, geometry = None \<rparr>,
         \<lparr> properties = empty_road_props\<lparr> OBSERVED_COUNT := Some 85 \<rparr>, geometry = None \<rparr>]) =
   [Some 5, Some 85]"
  by (simp add: road_passes_def getCountForFeature_def isInVolumeCategory_def Let_def
      empty_road_props_def js_defs)

end
